theory Spec2Isabelle
  imports Complex_Main
begin

section \<open>Python values and the string methods the parser uses\<close>

text \<open>
  Every value the two scripts handle is either a string read from the prompt or a value
  decoded from a JSON body, so one datatype covers them. \<open>PNone\<close> is Python's \<open>None\<close>
  (and JSON's \<open>null\<close>); a dictionary is an association list in insertion order.
  A float is represented by the real number it denotes.
\<close>

datatype pyval =
    PNone
  | PBool bool
  | PInt int
  | PFloat real
  | PStr string
  | PList "pyval list"
  | PDict "(string \<times> pyval) list"

text \<open>The exceptions that can arise in the two scripts.\<close>

datatype transport = ConnectionError | HTTPError nat | Timeout

datatype exn =
    RequestException transport string
  | JSONDecodeError string
  | IOError string
  | KeyError
  | IndexError
  | TypeError
  | AttributeError
  | ValueError
  | UnboundLocalError
  | EOFError

text \<open>Truth value testing, as \<^verbatim>\<open>if data:\<close> applies it.\<close>

fun truthy :: "pyval \<Rightarrow> bool" where
  "truthy PNone = False"
| "truthy (PBool b) = b"
| "truthy (PInt i) = (i \<noteq> 0)"
| "truthy (PFloat r) = (r \<noteq> 0)"
| "truthy (PStr s) = (s \<noteq> [])"
| "truthy (PList xs) = (xs \<noteq> [])"
| "truthy (PDict kvs) = (kvs \<noteq> [])"

text \<open>\<^verbatim>\<open>d.get(k)\<close>: only a dictionary has the method.\<close>

fun py_get :: "pyval \<Rightarrow> string \<Rightarrow> exn + pyval" where
  "py_get (PDict kvs) k = (case map_of kvs k of None \<Rightarrow> Inr PNone | Some v \<Rightarrow> Inr v)"
| "py_get _ k = Inl AttributeError"

text \<open>\<^verbatim>\<open>v[k]\<close> with a string key.\<close>

fun py_getitem :: "pyval \<Rightarrow> string \<Rightarrow> exn + pyval" where
  "py_getitem (PDict kvs) k = (case map_of kvs k of None \<Rightarrow> Inl KeyError | Some v \<Rightarrow> Inr v)"
| "py_getitem _ k = Inl TypeError"

text \<open>\<^verbatim>\<open>v[0]\<close>.\<close>

fun py_getitem0 :: "pyval \<Rightarrow> exn + pyval" where
  "py_getitem0 (PList []) = Inl IndexError"
| "py_getitem0 (PList (x # xs)) = Inr x"
| "py_getitem0 (PStr []) = Inl IndexError"
| "py_getitem0 (PStr (c # cs)) = Inr (PStr [c])"
| "py_getitem0 (PDict kvs) = Inl KeyError"
| "py_getitem0 _ = Inl TypeError"

text \<open>What a \<^verbatim>\<open>for\<close> loop or a comprehension iterates over.\<close>

fun py_iter :: "pyval \<Rightarrow> exn + pyval list" where
  "py_iter (PList xs) = Inr xs"
| "py_iter (PDict kvs) = Inr (map (\<lambda>kv. PStr (fst kv)) kvs)"
| "py_iter (PStr s) = Inr (map (\<lambda>c. PStr [c]) s)"
| "py_iter _ = Inl TypeError"

text \<open>\<^verbatim>\<open>'list' in v\<close>: key membership, element membership, or substring test.\<close>

fun is_substring :: "string \<Rightarrow> string \<Rightarrow> bool" where
  "is_substring p [] = (p = [])"
| "is_substring p (c # cs) = (take (length p) (c # cs) = p \<or> is_substring p cs)"

fun py_contains :: "pyval \<Rightarrow> string \<Rightarrow> exn + bool" where
  "py_contains (PDict kvs) k = Inr (map_of kvs k \<noteq> None)"
| "py_contains (PList xs) k = Inr (PStr k \<in> set xs)"
| "py_contains (PStr s) k = Inr (is_substring k s)"
| "py_contains _ k = Inl TypeError"

text \<open>A comprehension whose element expression can raise: the first exception wins.\<close>

fun py_map :: "('a \<Rightarrow> exn + 'b) \<Rightarrow> 'a list \<Rightarrow> exn + 'b list" where
  "py_map f [] = Inr []"
| "py_map f (x # xs) =
     (case f x of
        Inl e \<Rightarrow> Inl e
      | Inr y \<Rightarrow> (case py_map f xs of Inl e \<Rightarrow> Inl e | Inr ys \<Rightarrow> Inr (y # ys)))"

subsection \<open>split, strip, title, upper\<close>

text \<open>
  Strings are lists of 8-bit characters, and the case conversions are Python's on ASCII
  letters; other characters are uncased and left as they are.
\<close>

text \<open>\<^verbatim>\<open>s.split(sep)\<close> for a one-character separator: never the empty list.\<close>

fun py_split :: "char \<Rightarrow> string \<Rightarrow> string list" where
  "py_split sep [] = [[]]"
| "py_split sep (c # cs) =
     (if c = sep then [] # py_split sep cs
      else (case py_split sep cs of
              [] \<Rightarrow> [[c]]
            | w # ws \<Rightarrow> (c # w) # ws))"

definition is_space :: "char \<Rightarrow> bool" where
  "is_space c = (c \<in> set [CHR '' '', CHR 0x09, CHR 0x0A, CHR 0x0B, CHR 0x0C, CHR 0x0D,
                            CHR 0x1C, CHR 0x1D, CHR 0x1E, CHR 0x1F])"

definition py_strip :: "string \<Rightarrow> string" where
  "py_strip s = rev (dropWhile is_space (rev (dropWhile is_space s)))"

definition lower_letters :: string where
  "lower_letters = ''abcdefghijklmnopqrstuvwxyz''"

definition upper_letters :: string where
  "upper_letters = ''ABCDEFGHIJKLMNOPQRSTUVWXYZ''"

definition to_upper :: "char \<Rightarrow> char" where
  "to_upper c = (case map_of (zip lower_letters upper_letters) c of None \<Rightarrow> c | Some u \<Rightarrow> u)"

definition to_lower :: "char \<Rightarrow> char" where
  "to_lower c = (case map_of (zip upper_letters lower_letters) c of None \<Rightarrow> c | Some l \<Rightarrow> l)"

definition is_cased :: "char \<Rightarrow> bool" where
  "is_cased c = (c \<in> set lower_letters \<or> c \<in> set upper_letters)"

text \<open>
  \<^verbatim>\<open>s.title()\<close>: a character that follows a cased character is lowercased, any other
  character is uppercased.
\<close>

fun title_from :: "bool \<Rightarrow> string \<Rightarrow> string" where
  "title_from prev [] = []"
| "title_from prev (c # cs) =
     (if prev then to_lower c else to_upper c) # title_from (is_cased c) cs"

definition py_title :: "string \<Rightarrow> string" where
  "py_title s = title_from False s"

definition py_upper :: "string \<Rightarrow> string" where
  "py_upper s = map to_upper s"


section \<open>Effects: the environment, the trace, and exceptions\<close>

text \<open>
  The outside world is a parameter. \<open>fetch\<close> is the two web services (what the three
  library calls \<^verbatim>\<open>requests.get\<close>, \<^verbatim>\<open>raise_for_status\<close> and \<^verbatim>\<open>.json()\<close> end in for
  a request), \<open>io_error\<close> says for which file names \<^verbatim>\<open>write_text\<close> raises,
  \<open>dumps\<close> is \<^verbatim>\<open>json.dumps(\<cdot>, indent=4)\<close> (written out further down as
  \<open>json_dumps\<close>, for a given text of the floats), \<open>str_of\<close> is \<^verbatim>\<open>str()\<close> on a value
  that is not a string, and \<open>strptime_ok\<close> says which strings \<^verbatim>\<open>datetime.strptime\<close>
  accepts in the format \<^verbatim>\<open>%Y-%m-%d %H:%M:%S\<close>. A service answers the same request
  in the same way throughout a run. A reply is an exception of the class
  \<^verbatim>\<open>RequestException\<close> (a connection error, an HTTP error status that
  \<^verbatim>\<open>raise_for_status\<close> turns into an exception, a timeout), a body that does not
  decode, or a status with the decoded body.
\<close>

record request =
  url :: string
  headers :: "(string \<times> string) list"
  params :: "(string \<times> pyval) list"
  timeout :: "nat option"

datatype reply =
    Raises transport string
  | Undecodable nat string
  | Decoded nat pyval

record env =
  api_key :: string
  fetch :: "request \<Rightarrow> reply"
  io_error :: "string \<Rightarrow> string option"
  dumps :: "pyval \<Rightarrow> string"
  str_of :: "pyval \<Rightarrow> string"
  strptime_ok :: "string \<Rightarrow> bool"

datatype chart_call =
    Subplots
  | AxPlot "pyval list" "pyval list" pyval
  | SetTitle string nat
  | SetXLabel string nat
  | SetYLabel string nat
  | AutofmtXDate
  | Legend
  | Show
  | StyleUse string
  | Bar nat "pyval list" string string
  | Title string
  | XLabel string
  | YLabel string
  | XTicks "pyval list" nat string
  | TightLayout

datatype event =
    Input string
  | Print string
  | HttpGet request
  | Sleep nat
  | WriteText string string
  | Chart chart_call

text \<open>
  A computation is the trace of effects it performed, in order, and how it ended:
  \<open>Inl e\<close> when the exception \<open>e\<close> left it, \<open>Inr v\<close> when it returned \<open>v\<close>.
\<close>

type_synonym 'a io = "event list \<times> (exn + 'a)"

definition return_io :: "'a \<Rightarrow> 'a io" where
  "return_io v = ([], Inr v)"

definition lift_io :: "exn + 'a \<Rightarrow> 'a io" where
  "lift_io r = ([], r)"

definition emit :: "event list \<Rightarrow> unit io" where
  "emit evs = (evs, Inr ())"

definition bind_io :: "'a io \<Rightarrow> ('a \<Rightarrow> 'b io) \<Rightarrow> 'b io" where
  "bind_io m f =
     (case snd m of
        Inl e \<Rightarrow> (fst m, Inl e)
      | Inr v \<Rightarrow> (fst m @ fst (f v), snd (f v)))"

definition then_io :: "'a io \<Rightarrow> 'b io \<Rightarrow> 'b io" where
  "then_io m k = bind_io m (\<lambda>_. k)"

text \<open>\<^verbatim>\<open>try: body except ...\<close>: a handler for the exceptions the clauses name.\<close>

definition try_except :: "'a io \<Rightarrow> (exn \<Rightarrow> 'a io option) \<Rightarrow> 'a io" where
  "try_except body handler =
     (case snd body of
        Inr v \<Rightarrow> body
      | Inl e \<Rightarrow>
          (case handler e of
             None \<Rightarrow> body
           | Some h \<Rightarrow> (fst body @ fst h, snd h)))"

text \<open>\<^verbatim>\<open>try: body finally: fin\<close>: \<open>fin\<close> runs however the body ended.\<close>

definition try_finally :: "'a io \<Rightarrow> unit io \<Rightarrow> 'a io" where
  "try_finally body fin =
     (fst body @ fst fin, case snd fin of Inl e \<Rightarrow> Inl e | Inr _ \<Rightarrow> snd body)"

text \<open>
  The three library calls that open both \<^verbatim>\<open>try\<close> blocks. A body that does not
  decode raises \<^verbatim>\<open>JSONDecodeError\<close>, for which the scripts have their second
  \<^verbatim>\<open>except\<close> clause. (A version of the library whose decode error is also a
  \<^verbatim>\<open>RequestException\<close> reaches the first clause instead; the two clauses differ in
  the line they print only.)
\<close>

definition http_get_json :: "env \<Rightarrow> request \<Rightarrow> (nat \<times> pyval) io" where
  "http_get_json env req =
     ([HttpGet req],
      case fetch env req of
        Raises k msg \<Rightarrow> Inl (RequestException k msg)
      | Undecodable status msg \<Rightarrow> Inl (JSONDecodeError msg)
      | Decoded status body \<Rightarrow> Inr (status, body))"

text \<open>\<^verbatim>\<open>f"{v}"\<close> for a decoded value.\<close>

definition format_val :: "env \<Rightarrow> pyval \<Rightarrow> string" where
  "format_val env v = (case v of PStr s \<Rightarrow> s | _ \<Rightarrow> str_of env v)"

text \<open>Decimal digits of a status code.\<close>

definition digit_char :: "nat \<Rightarrow> char" where
  "digit_char d = (''0123456789'' ! d)"

function string_of_nat :: "nat \<Rightarrow> string" where
  "string_of_nat n =
     (if n < 10 then [digit_char n] else string_of_nat (n div 10) @ [digit_char (n mod 10)])"
  by pat_completeness auto
termination
  by (relation "measure id") auto

declare string_of_nat.simps [simp del]

section \<open>Constants of the two scripts\<close>

definition HEADERS :: "(string \<times> string) list" where
  "HEADERS = [(''accept'', ''application/json'')]"

definition LIMIT :: int where
  "LIMIT = 1"

definition REQUEST_TIMEOUT :: nat where
  "REQUEST_TIMEOUT = 10"

definition RATE_LIMIT_DELAY :: nat where
  "RATE_LIMIT_DELAY = 1"

definition COORDINATES_FILE :: string where
  "COORDINATES_FILE = ''city_coordinates.json''"

definition WEATHER_DATA_FILE :: string where
  "WEATHER_DATA_FILE = ''city_weather_data.json''"

definition FORECAST_FILE :: string where
  "FORECAST_FILE = ''city_weather_forecast.json''"

definition GEO_URL :: string where
  "GEO_URL = ''https://api.openweathermap.org/geo/1.0/direct''"

definition WEATHER_URL :: string where
  "WEATHER_URL = ''https://api.openweathermap.org/data/2.5/weather''"

definition FORECAST_URL :: string where
  "FORECAST_URL = ''https://api.openweathermap.org/data/2.5/forecast''"

section \<open>get_coordinates\<close>

text \<open>
  Lines 47 to 49 of both scripts:
  \<^verbatim>\<open>parts = [part.strip().title() for part in location.split(',')]\<close>,
  \<^verbatim>\<open>city = parts[0]\<close>,
  \<^verbatim>\<open>country_code = parts[1].upper() if len(parts) > 1 else None\<close>.
\<close>

definition parse_location :: "string \<Rightarrow> exn + (string \<times> string option)" where
  "parse_location location =
     (case map (\<lambda>part. py_title (py_strip part)) (py_split CHR '','' location) of
        [] \<Rightarrow> Inl IndexError
      | city # rest \<Rightarrow>
          Inr (city, case rest of [] \<Rightarrow> None | p # _ \<Rightarrow> Some (py_upper p)))"

text \<open>\<^verbatim>\<open>country_code or ''\<close>, the same string as \<^verbatim>\<open>country_code if country_code else ''\<close>.\<close>

definition or_empty :: "string option \<Rightarrow> string" where
  "or_empty cc = (case cc of None \<Rightarrow> [] | Some c \<Rightarrow> c)"

text \<open>\<^verbatim>\<open>country_code if country_code else None\<close>, formatted.\<close>

definition or_None :: "string option \<Rightarrow> string" where
  "or_None cc = (case cc of None \<Rightarrow> ''None'' | Some c \<Rightarrow> if c = [] then ''None'' else c)"

text \<open>\<^verbatim>\<open>city + (f",{country_code}" if country_code else "")\<close>.\<close>

definition q_param :: "string \<Rightarrow> string option \<Rightarrow> string" where
  "q_param city cc =
     (case cc of None \<Rightarrow> city | Some c \<Rightarrow> if c = [] then city else city @ '','' @ c)"

definition geo_params :: "env \<Rightarrow> string \<Rightarrow> string option \<Rightarrow> (string \<times> pyval) list" where
  "geo_params env city cc =
     [(''q'', PStr (q_param city cc)), (''appid'', PStr (api_key env)), (''limit'', PInt LIMIT)]"

text \<open>The dictionary both scripts build from one candidate.\<close>

definition extract_info :: "pyval \<Rightarrow> exn + pyval" where
  "extract_info city_data =
     (case py_get city_data ''name'' of Inl e \<Rightarrow> Inl e | Inr n \<Rightarrow>
      case py_get city_data ''lat'' of Inl e \<Rightarrow> Inl e | Inr la \<Rightarrow>
      case py_get city_data ''lon'' of Inl e \<Rightarrow> Inl e | Inr lo \<Rightarrow>
      case py_get city_data ''country'' of Inl e \<Rightarrow> Inl e | Inr co \<Rightarrow>
      case py_get city_data ''state'' of Inl e \<Rightarrow> Inl e | Inr st \<Rightarrow>
        Inr (PDict [(''name'', n), (''latitude'', la), (''longitude'', lo),
                    (''country'', co), (''state'', st)]))"

text \<open>The handlers of the two \<^verbatim>\<open>except\<close> clauses; any other exception passes.\<close>

definition on_request_errors :: "string \<Rightarrow> string \<Rightarrow> exn \<Rightarrow> pyval io option" where
  "on_request_errors fetching decoding e =
     (case e of
        RequestException k msg \<Rightarrow> Some ([Print (fetching @ '': '' @ msg)], Inr PNone)
      | JSONDecodeError msg \<Rightarrow> Some ([Print (decoding @ '': '' @ msg)], Inr PNone)
      | _ \<Rightarrow> None)"

text \<open>\<^verbatim>\<open>city_weather_info.py\<close>, lines 36 to 91.\<close>

definition get_coordinates_info :: "env \<Rightarrow> string \<Rightarrow> pyval io" where
  "get_coordinates_info env location =
     bind_io (lift_io (parse_location location)) (\<lambda>(city, country_code).
       let who = city @ '', '' @ or_empty country_code;
           req = \<lparr>url = GEO_URL, headers = HEADERS,
                  params = geo_params env city country_code,
                  timeout = Some REQUEST_TIMEOUT\<rparr>
       in then_io (emit [Print (''Fetching coordinates for '' @ who @ ''...'')])
            (try_finally
               (try_except
                  (bind_io (http_get_json env req) (\<lambda>(status, data).
                     if truthy data then
                       bind_io (lift_io (py_getitem0 data)) (\<lambda>city_data.
                         lift_io (extract_info city_data))
                     else
                       then_io (emit [Print (''No results found for '' @ who)])
                         (return_io PNone)))
                  (on_request_errors (''Error fetching coordinates for '' @ who)
                     (''Error decoding JSON response for '' @ who)))
               (emit [Sleep RATE_LIMIT_DELAY])))"

text \<open>
  The loop of \<^verbatim>\<open>city_weather_forecast.py\<close>, lines 70 to 78: \<^verbatim>\<open>extracted_info\<close> is
  assigned once per candidate and returned after the loop.
\<close>

fun extract_loop :: "pyval option \<Rightarrow> pyval list \<Rightarrow> exn + pyval" where
  "extract_loop extracted_info [] =
     (case extracted_info of None \<Rightarrow> Inl UnboundLocalError | Some info \<Rightarrow> Inr info)"
| "extract_loop extracted_info (city_data # candidates) =
     (case extract_info city_data of
        Inl e \<Rightarrow> Inl e
      | Inr info \<Rightarrow> extract_loop (Some info) candidates)"

text \<open>\<^verbatim>\<open>city_weather_forecast.py\<close>, lines 31 to 93.\<close>

definition get_coordinates_forecast :: "env \<Rightarrow> string \<Rightarrow> pyval io" where
  "get_coordinates_forecast env location =
     bind_io (lift_io (parse_location location)) (\<lambda>(city, country_code).
       let who = city @ '', '' @ or_empty country_code;
           req = \<lparr>url = GEO_URL, headers = HEADERS,
                  params = geo_params env city country_code,
                  timeout = None\<rparr>
       in then_io (emit [Print (''Fetching coordinates for '' @ city @ '','' @
                                or_empty country_code @ ''...'')])
            (try_finally
               (try_except
                  (bind_io (http_get_json env req) (\<lambda>(status, geo_response_dict).
                     then_io (emit [Print (''Name: '' @ city @ [CHR 0x09] @ ''Country: '' @
                                           or_None country_code @ [CHR 0x09] @
                                           ''Status Code: '' @ string_of_nat status)])
                       (if truthy geo_response_dict then
                          bind_io (lift_io (py_iter geo_response_dict)) (\<lambda>candidates.
                            lift_io (extract_loop None candidates))
                        else
                          then_io (emit [Print (''No coordinates found for '' @ who)])
                            (return_io PNone))))
                  (on_request_errors (''Error fetching coordinates for '' @ who)
                     (''Error decoding JSON response for coordinates of '' @ who)))
               (emit [Sleep 1])))"

section \<open>The retrievers\<close>

text \<open>\<^verbatim>\<open>city_weather_info.py\<close>, lines 94 to 130.\<close>

definition get_weather_data :: "env \<Rightarrow> pyval \<Rightarrow> pyval io" where
  "get_weather_data env city_info =
     bind_io (lift_io (py_getitem city_info ''latitude'')) (\<lambda>lat.
     bind_io (lift_io (py_getitem city_info ''longitude'')) (\<lambda>lon.
     bind_io (lift_io (py_getitem city_info ''name'')) (\<lambda>name.
       let who = format_val env name;
           req = \<lparr>url = WEATHER_URL, headers = HEADERS,
                  params = [(''lat'', lat), (''lon'', lon), (''appid'', PStr (api_key env)),
                            (''units'', PStr ''metric'')],
                  timeout = Some REQUEST_TIMEOUT\<rparr>
       in then_io (emit [Print (''Fetching weather data for '' @ who @ ''...'')])
            (try_finally
               (try_except
                  (bind_io (http_get_json env req) (\<lambda>(status, body). return_io body))
                  (on_request_errors (''Error fetching weather data for '' @ who)
                     (''Error decoding JSON response for '' @ who)))
               (emit [Sleep RATE_LIMIT_DELAY])))))"

text \<open>\<^verbatim>\<open>city_weather_forecast.py\<close>, lines 96 to 134.\<close>

definition get_weather_forecast :: "env \<Rightarrow> pyval \<Rightarrow> pyval io" where
  "get_weather_forecast env city_info =
     bind_io (lift_io (py_getitem city_info ''latitude'')) (\<lambda>lat.
     bind_io (lift_io (py_getitem city_info ''longitude'')) (\<lambda>lon.
     bind_io (lift_io (py_getitem city_info ''name'')) (\<lambda>name.
       let who = format_val env name;
           req = \<lparr>url = FORECAST_URL, headers = HEADERS,
                  params = [(''lat'', lat), (''lon'', lon), (''appid'', PStr (api_key env)),
                            (''units'', PStr ''metric'')],
                  timeout = None\<rparr>
       in then_io (emit [Print (''Fetching weather forecast for '' @ who)])
            (try_except
               (bind_io (http_get_json env req) (\<lambda>(status, forecast_response_dict).
                  then_io (emit [Print (''City name: '' @ who @ [CHR 0x09] @
                                        ''Status Code: '' @ string_of_nat status)])
                    (return_io forecast_response_dict)))
               (on_request_errors (''Error fetching weather for '' @ who)
                  (''Error decoding JSON response for weather in '' @ who))))))"

section \<open>save_json\<close>

text \<open>
  The same function in both scripts. \<^verbatim>\<open>write_text\<close> replaces the whole content of the
  file; when it raises \<^verbatim>\<open>IOError\<close> the handler prints and nothing is recorded as
  written.
\<close>

definition write_text :: "env \<Rightarrow> string \<Rightarrow> string \<Rightarrow> unit io" where
  "write_text env filename content =
     (case io_error env filename of
        Some msg \<Rightarrow> ([], Inl (IOError msg))
      | None \<Rightarrow> emit [WriteText filename content])"

definition save_json :: "env \<Rightarrow> pyval \<Rightarrow> string \<Rightarrow> unit io" where
  "save_json env data filename =
     try_except
       (then_io (write_text env filename (dumps env data))
          (emit [Print ([CHR 0x0A] @ ''Data saved to '' @ filename)]))
       (\<lambda>e. case e of
               IOError msg \<Rightarrow> Some (emit [Print (''Error writing to '' @ filename @ '': '' @ msg)])
             | _ \<Rightarrow> None)"

text \<open>The content of the files after a trace, from their content before it.\<close>

fun files_after :: "(string \<rightharpoonup> string) \<Rightarrow> event list \<Rightarrow> (string \<rightharpoonup> string)" where
  "files_after fs [] = fs"
| "files_after fs (WriteText filename content # evs) = files_after (fs(filename \<mapsto> content)) evs"
| "files_after fs (_ # evs) = files_after fs evs"

section \<open>The renderers\<close>

text \<open>
  The charting backend is a sink: a call to it is recorded and does not raise.
  \<^verbatim>\<open>datetime.strptime\<close> raises \<^verbatim>\<open>TypeError\<close> on a value that is not a string and
  \<^verbatim>\<open>ValueError\<close> on a string of another format; the parsed date is kept as its text.
\<close>

definition parse_date :: "env \<Rightarrow> pyval \<Rightarrow> exn + pyval" where
  "parse_date env d =
     (case d of
        PStr s \<Rightarrow> if strptime_ok env s then Inr (PStr s) else Inl ValueError
      | _ \<Rightarrow> Inl TypeError)"

text \<open>\<^verbatim>\<open>forecast_data and 'list' in forecast_data and forecast_data['list']\<close>.\<close>

definition has_forecast_list :: "pyval \<Rightarrow> exn + bool" where
  "has_forecast_list forecast_data =
     (if \<not> truthy forecast_data then Inr False
      else case py_contains forecast_data ''list'' of
             Inl e \<Rightarrow> Inl e
           | Inr present \<Rightarrow>
               if \<not> present then Inr False
               else (case py_getitem forecast_data ''list'' of
                       Inl e \<Rightarrow> Inl e
                     | Inr l \<Rightarrow> Inr (truthy l)))"

definition main_temp :: "pyval \<Rightarrow> string \<Rightarrow> exn + pyval" where
  "main_temp item field =
     (case py_getitem item ''main'' of Inl e \<Rightarrow> Inl e | Inr m \<Rightarrow> py_getitem m field)"

text \<open>\<^verbatim>\<open>city_weather_forecast.py\<close>, lines 137 to 156.\<close>

definition plot_forecast :: "env \<Rightarrow> pyval \<Rightarrow> pyval \<Rightarrow> unit io" where
  "plot_forecast env forecast_data city_name =
     bind_io (lift_io (has_forecast_list forecast_data)) (\<lambda>has_list.
       if has_list then
         bind_io (lift_io (py_getitem forecast_data ''list'')) (\<lambda>l.
         bind_io (lift_io (py_iter l)) (\<lambda>items.
         bind_io (lift_io (py_map (\<lambda>item. py_getitem item ''dt_txt'') items)) (\<lambda>dates_strings.
         bind_io (lift_io (py_map (parse_date env) dates_strings)) (\<lambda>dates.
         bind_io (lift_io (py_map (\<lambda>item. main_temp item ''temp'') items)) (\<lambda>temps.
           emit [Print (''Plotting forecast for '' @ format_val env city_name),
                 Chart (AxPlot dates temps city_name)])))))
       else
         emit [Print (''No forecast data available for '' @ format_val env city_name @ ''.'')])"

definition TITLE_INFO :: string where
  "TITLE_INFO = ''Temperatures of Different Cities''"

definition Y_LABEL_INFO :: string where
  "Y_LABEL_INFO = ''Temperatures ('' @ [CHR 0xC3, CHR 0x82, CHR 0xC2, CHR 0xB0] @ ''C)''"

text \<open>\<^verbatim>\<open>city_weather_info.py\<close>, lines 148 to 182.\<close>

definition plot_temperatures :: "pyval list \<Rightarrow> unit io" where
  "plot_temperatures city_weather_data =
     (if city_weather_data = [] then emit [Print ''No weather data to plot.'']
      else
        bind_io (lift_io (py_map (\<lambda>city. py_getitem city ''name'') city_weather_data)) (\<lambda>names.
        bind_io (lift_io (py_map (\<lambda>city. main_temp city ''temp'') city_weather_data)) (\<lambda>temps.
        bind_io (lift_io (py_map (\<lambda>city. main_temp city ''temp_min'') city_weather_data)) (\<lambda>min_temps.
        bind_io (lift_io (py_map (\<lambda>city. main_temp city ''temp_max'') city_weather_data)) (\<lambda>max_temps.
          emit [Chart (StyleUse ''dark_background''),
                Chart (Bar 0 temps ''violet'' ''Current Temperature''),
                Chart (Bar 1 min_temps ''red'' ''Minimum Temperature''),
                Chart (Bar 2 max_temps ''blue'' ''Maximum Temperature''),
                Chart (Title TITLE_INFO),
                Chart (XLabel ''Cities''),
                Chart (YLabel Y_LABEL_INFO),
                Chart (XTicks names 45 ''right''),
                Chart Legend,
                Chart TightLayout,
                Chart Show])))))"

section \<open>main\<close>

text \<open>
  Both scripts leave at import when the environment has no API key, so \<^verbatim>\<open>main\<close>
  runs with a key, \<open>api_key\<close> of the environment.
\<close>

definition PROMPT_INFO :: string where
  "PROMPT_INFO =
     ''Please enter city and optional country code (separated by comma), '' @
     ''e.g., (London,GB) or (Abuja).'' @ [CHR 0x0A] @
     ''Separate different city/country pairs by semicolon ';', '' @
     ''e.g., (London,GB;Abuja): ''"

definition PROMPT_FORECAST :: string where
  "PROMPT_FORECAST =
     ''Please enter city and optional country code (separated by comma), '' @
     ''e.g., (London,GB) or (Abuja).'' @ [CHR 0x0A] @ ''Separate different city/country '' @
     ''pairs by semicolon ';', e.g., (London,GB;Abuja).'' @ [CHR 0x0A] @ ''Enter 'quit' '' @
     ''when you want to exit. ''"

definition TITLE_FORECAST :: string where
  "TITLE_FORECAST = ''Temperature Forecast for the next five days.''"

definition Y_LABEL_FORECAST :: string where
  "Y_LABEL_FORECAST = ''Temperature ('' @ [CHR 0xC2, CHR 0xB0] @ ''C)''"

text \<open>\<^verbatim>\<open>[location.strip() for location in user_input.split(';')]\<close>.\<close>

definition user_locations :: "string \<Rightarrow> string list" where
  "user_locations user_input = map py_strip (py_split CHR '';'' user_input)"

text \<open>
  The first loop of both scripts, over the resolver \<open>gc\<close> of the script:
  \<^verbatim>\<open>city_info = get_coordinates(location)\<close>, then
  \<^verbatim>\<open>if city_info: extracted_data.append(city_info)\<close>.
\<close>

fun resolve_loop :: "(string \<Rightarrow> pyval io) \<Rightarrow> pyval list \<Rightarrow> string list \<Rightarrow> pyval list io" where
  "resolve_loop gc extracted_data [] = return_io extracted_data"
| "resolve_loop gc extracted_data (location # locations) =
     bind_io (gc location) (\<lambda>city_info.
       resolve_loop gc
         (if truthy city_info then extracted_data @ [city_info] else extracted_data)
         locations)"

text \<open>The second loop of \<^verbatim>\<open>city_weather_info.py\<close>, lines 208 to 212.\<close>

fun weather_loop :: "env \<Rightarrow> pyval list \<Rightarrow> pyval list \<Rightarrow> pyval list io" where
  "weather_loop env city_weather_data [] = return_io city_weather_data"
| "weather_loop env city_weather_data (city_info # infos) =
     bind_io (get_weather_data env city_info) (\<lambda>weather_data.
       weather_loop env
         (if truthy weather_data then city_weather_data @ [weather_data] else city_weather_data)
         infos)"

text \<open>One pass of the body of the loop of \<^verbatim>\<open>city_weather_info.py\<close>, lines 198 to 215.\<close>

definition batch_info :: "env \<Rightarrow> string \<Rightarrow> unit io" where
  "batch_info env user_input =
     bind_io (resolve_loop (get_coordinates_info env) [] (user_locations user_input))
       (\<lambda>extracted_data.
     then_io (save_json env (PList extracted_data) COORDINATES_FILE)
       (bind_io (weather_loop env [] extracted_data) (\<lambda>city_weather_data.
     then_io (save_json env (PList city_weather_data) WEATHER_DATA_FILE)
       (plot_temperatures city_weather_data))))"

text \<open>
  \<^verbatim>\<open>main\<close> of \<^verbatim>\<open>city_weather_info.py\<close> over the lines the user types; \<^verbatim>\<open>input\<close>
  raises \<^verbatim>\<open>EOFError\<close> when there is none left.
\<close>

fun main_info :: "env \<Rightarrow> string list \<Rightarrow> unit io" where
  "main_info env [] = ([Input PROMPT_INFO], Inl EOFError)"
| "main_info env (user_input # later) =
     then_io (emit [Input PROMPT_INFO])
       (if user_input = ''quit'' then emit [Print ''Exiting the session...'']
        else if user_input = [] then
          then_io (emit [Print ''Enter a valid city and/or country'']) (main_info env later)
        else then_io (batch_info env user_input) (main_info env later))"

text \<open>The second loop of \<^verbatim>\<open>city_weather_forecast.py\<close>, lines 209 to 213.\<close>

fun forecast_loop :: "env \<Rightarrow> pyval list \<Rightarrow> pyval list \<Rightarrow> pyval list io" where
  "forecast_loop env city_forecasts [] = return_io city_forecasts"
| "forecast_loop env city_forecasts (city_info # infos) =
     bind_io (get_weather_forecast env city_info) (\<lambda>forecast_data.
       if truthy forecast_data then
         bind_io (lift_io (py_getitem city_info ''name'')) (\<lambda>name.
           then_io (plot_forecast env forecast_data name)
             (forecast_loop env (city_forecasts @ [forecast_data]) infos))
       else forecast_loop env city_forecasts infos)"

text \<open>
  Lines 197 to 224 of \<^verbatim>\<open>city_weather_forecast.py\<close>. The two lists are created before
  the loop of \<^verbatim>\<open>main\<close>, so they are arguments here.
\<close>

definition batch_forecast :: "env \<Rightarrow> pyval list \<Rightarrow> pyval list \<Rightarrow> string \<Rightarrow> unit io" where
  "batch_forecast env extracted_data0 city_forecasts0 user_input =
     bind_io (resolve_loop (get_coordinates_forecast env) extracted_data0
                (user_locations user_input)) (\<lambda>extracted_data.
     then_io (save_json env (PList extracted_data) COORDINATES_FILE)
       (then_io (emit [Chart Subplots])
          (bind_io (forecast_loop env city_forecasts0 extracted_data) (\<lambda>city_forecasts.
     then_io (emit [Chart (SetTitle TITLE_FORECAST 24),
                    Chart (SetXLabel ''Dates'' 14),
                    Chart (SetYLabel Y_LABEL_FORECAST 14),
                    Chart AutofmtXDate,
                    Chart Legend,
                    Chart Show])
       (save_json env (PList city_forecasts) FORECAST_FILE)))))"

text \<open>
  \<^verbatim>\<open>main\<close> of \<^verbatim>\<open>city_weather_forecast.py\<close>: the loop ends after the first batch.
\<close>

fun main_forecast_loop :: "env \<Rightarrow> pyval list \<Rightarrow> pyval list \<Rightarrow> string list \<Rightarrow> unit io" where
  "main_forecast_loop env extracted_data city_forecasts [] =
     ([Input PROMPT_FORECAST], Inl EOFError)"
| "main_forecast_loop env extracted_data city_forecasts (user_input # later) =
     then_io (emit [Input PROMPT_FORECAST])
       (if user_input = ''quit'' then emit [Print ''Exiting session...'']
        else if user_input = [] then
          then_io (emit [Print ''Please enter a valid city and/or country code.''])
            (main_forecast_loop env extracted_data city_forecasts later)
        else batch_forecast env extracted_data city_forecasts user_input)"

definition main_forecast :: "env \<Rightarrow> string list \<Rightarrow> unit io" where
  "main_forecast env inputs = main_forecast_loop env [] [] inputs"

section \<open>The JSON text of a value\<close>

text \<open>
  \<open>save_json\<close> writes \<^verbatim>\<open>json.dumps(data, indent=4)\<close>. The encoder and the decoder are
  Python's standard library, not code of the two scripts; they are written out here as
  the library has them, so that reading a file back is a statement about its text. Two
  things remain parameters, because the floats of the model are reals:
  \<^verbatim>\<open>float.__repr__\<close>, the text of a float, and \<^verbatim>\<open>float\<close>, its reading.

  A string is written between double quotes, with \<^verbatim>\<open>ensure_ascii\<close>: the quote and the
  backslash escaped, the five named control characters by their letter, every other
  character outside the printable ASCII range as \<^verbatim>\<open>\u00XX\<close> in lower-case hexadecimal.
\<close>

definition dq :: char where
  "dq = CHR 0x22"

definition bs :: char where
  "bs = CHR 0x5C"

definition hex_digit :: "nat \<Rightarrow> char" where
  "hex_digit d = (''0123456789abcdef'' ! d)"

definition hex_val :: "char \<Rightarrow> nat option" where
  "hex_val c = map_of (zip ''0123456789abcdef'' [0..<16] @ zip ''ABCDEF'' [10..<16]) c"

definition is_plain :: "char \<Rightarrow> bool" where
  "is_plain c =
     (32 \<le> (of_char c :: nat) \<and> (of_char c :: nat) \<le> 126 \<and> c \<noteq> dq \<and> c \<noteq> bs)"

definition escape_char :: "char \<Rightarrow> string" where
  "escape_char c =
     (if c = dq then [bs, dq]
      else if c = bs then [bs, bs]
      else if c = CHR 0x0A then [bs, CHR ''n'']
      else if c = CHR 0x0D then [bs, CHR ''r'']
      else if c = CHR 0x09 then [bs, CHR ''t'']
      else if c = CHR 0x08 then [bs, CHR ''b'']
      else if c = CHR 0x0C then [bs, CHR ''f'']
      else if is_plain c then [c]
      else [bs, CHR ''u'', CHR ''0'', CHR ''0'',
            hex_digit (of_char c div 16), hex_digit (of_char c mod 16)])"

definition json_string :: "string \<Rightarrow> string" where
  "json_string s = dq # concat (map escape_char s) @ [dq]"

text \<open>
  Reading a string, as \<^verbatim>\<open>py_scanstring\<close> does in strict mode: up to the closing quote,
  an escape decoded, a raw control character refused. A character of the model is one of
  256, so an escape above \<^verbatim>\<open>\u00ff\<close> has no value here.
\<close>

definition unescape :: "string \<Rightarrow> (char \<times> string) option" where
  "unescape s =
     (case s of
        [] \<Rightarrow> None
      | e # rest \<Rightarrow>
          if e = dq then Some (dq, rest)
          else if e = bs then Some (bs, rest)
          else if e = CHR ''/'' then Some (CHR ''/'', rest)
          else if e = CHR ''n'' then Some (CHR 0x0A, rest)
          else if e = CHR ''r'' then Some (CHR 0x0D, rest)
          else if e = CHR ''t'' then Some (CHR 0x09, rest)
          else if e = CHR ''b'' then Some (CHR 0x08, rest)
          else if e = CHR ''f'' then Some (CHR 0x0C, rest)
          else if e = CHR ''u'' then
            (case rest of
               h1 # h2 # h3 # h4 # rest' \<Rightarrow>
                 (case (hex_val h1, hex_val h2, hex_val h3, hex_val h4) of
                    (Some a, Some b, Some c, Some d) \<Rightarrow>
                      if a = 0 \<and> b = 0 then Some (char_of (16 * c + d), rest') else None
                  | _ \<Rightarrow> None)
             | _ \<Rightarrow> None)
          else None)"

function scan_string :: "string \<Rightarrow> (string \<times> string) option" where
  "scan_string [] = None"
| "scan_string (c # cs) =
     (if c = dq then Some ([], cs)
      else if c = bs then
        (case unescape cs of
           None \<Rightarrow> None
         | Some (d, rest) \<Rightarrow>
             (case scan_string rest of
                None \<Rightarrow> None
              | Some (s, r) \<Rightarrow> Some (d # s, r)))
      else if (of_char c :: nat) < 32 then None
      else (case scan_string cs of
              None \<Rightarrow> None
            | Some (s, r) \<Rightarrow> Some (c # s, r)))"
  by pat_completeness auto
termination
  by (relation "measure length")
    (auto simp: unescape_def split: list.splits if_splits option.splits prod.splits)

text \<open>
  Numbers. An integer is written in decimal, with a minus sign when negative. The decoder
  matches \<^verbatim>\<open>(-?(?:0|[1-9]\d*))(\.\d+)?([eE][-+]?\d+)?\<close>: without a fraction and
  without an exponent the match is read as an integer, otherwise the matched text is
  handed to \<^verbatim>\<open>float\<close>. What follows the match is left for the caller.
\<close>

definition is_digit :: "char \<Rightarrow> bool" where
  "is_digit c = (c \<in> set ''0123456789'')"

definition digit_val :: "char \<Rightarrow> nat" where
  "digit_val c = (case map_of (zip ''0123456789'' [0..<10]) c of None \<Rightarrow> 0 | Some d \<Rightarrow> d)"

definition nat_of_digits :: "string \<Rightarrow> nat" where
  "nat_of_digits ds = foldl (\<lambda>a c. 10 * a + digit_val c) 0 ds"

definition json_int :: "int \<Rightarrow> string" where
  "json_int i = (if i < 0 then CHR ''-'' # string_of_nat (nat (- i)) else string_of_nat (nat i))"

definition int_of_text :: "string \<Rightarrow> int" where
  "int_of_text s =
     (case s of
        [] \<Rightarrow> 0
      | c # t \<Rightarrow> if c = CHR ''-'' then - int (nat_of_digits t) else int (nat_of_digits s))"

definition scan_sign :: "string \<Rightarrow> string \<times> string" where
  "scan_sign s =
     (case s of
        [] \<Rightarrow> ([], s)
      | c # t \<Rightarrow> if c = CHR ''-'' then ([c], t) else ([], s))"

definition scan_int :: "string \<Rightarrow> string \<times> string" where
  "scan_int s =
     (case s of
        [] \<Rightarrow> ([], s)
      | c # t \<Rightarrow>
          if c = CHR ''0'' then ([c], t)
          else if is_digit c then (c # takeWhile is_digit t, dropWhile is_digit t)
          else ([], s))"

definition scan_frac :: "string \<Rightarrow> string \<times> string" where
  "scan_frac s =
     (case s of
        [] \<Rightarrow> ([], s)
      | c # t \<Rightarrow>
          if c = CHR ''.'' \<and> takeWhile is_digit t \<noteq> []
          then (c # takeWhile is_digit t, dropWhile is_digit t)
          else ([], s))"

definition scan_exp :: "string \<Rightarrow> string \<times> string" where
  "scan_exp s =
     (case s of
        [] \<Rightarrow> ([], s)
      | c # t \<Rightarrow>
          if c = CHR ''e'' \<or> c = CHR ''E'' then
            (let signed = (case t of
                             [] \<Rightarrow> ([], t)
                           | d # u \<Rightarrow> if d = CHR ''+'' \<or> d = CHR ''-'' then ([d], u) else ([], t))
             in if takeWhile is_digit (snd signed) = [] then ([], s)
                else (c # fst signed @ takeWhile is_digit (snd signed),
                      dropWhile is_digit (snd signed)))
          else ([], s))"

definition match_number :: "string \<Rightarrow> (string \<times> string \<times> string \<times> string) option" where
  "match_number s =
     (let sign_part = scan_sign s;
          int_part = scan_int (snd sign_part);
          frac_part = scan_frac (snd int_part);
          exp_part = scan_exp (snd frac_part)
      in if fst int_part = [] then None
         else Some (fst sign_part @ fst int_part, fst frac_part, fst exp_part, snd exp_part))"

definition scan_number :: "(string \<Rightarrow> real option) \<Rightarrow> string \<Rightarrow> (pyval \<times> string) option" where
  "scan_number fp s =
     (case match_number s of
        None \<Rightarrow> None
      | Some (integer, fraction, exponent, rest) \<Rightarrow>
          if fraction = [] \<and> exponent = [] then Some (PInt (int_of_text integer), rest)
          else (case fp (integer @ fraction @ exponent) of
                  None \<Rightarrow> None
                | Some r \<Rightarrow> Some (PFloat r, rest)))"

text \<open>
  The encoder with \<^verbatim>\<open>indent=4\<close>: an empty list is \<^verbatim>\<open>[]\<close> and an empty dictionary
  \<^verbatim>\<open>{}\<close>; otherwise every item stands on a line of its own, four spaces deeper than
  the bracket, the items separated by a comma, a key from its value by a colon and a
  space, and the closing bracket on a line of its own at the depth of the opening one.
\<close>

definition line_break :: "nat \<Rightarrow> string" where
  "line_break n = CHR 0x0A # replicate (4 * n) CHR '' ''"

fun join_with :: "string \<Rightarrow> string list \<Rightarrow> string" where
  "join_with sep [] = []"
| "join_with sep [x] = x"
| "join_with sep (x # y # ys) = x @ sep @ join_with sep (y # ys)"

fun dumps_at :: "(real \<Rightarrow> string) \<Rightarrow> nat \<Rightarrow> pyval \<Rightarrow> string" where
  "dumps_at fl n PNone = ''null''"
| "dumps_at fl n (PBool b) = (if b then ''true'' else ''false'')"
| "dumps_at fl n (PInt i) = json_int i"
| "dumps_at fl n (PFloat r) = fl r"
| "dumps_at fl n (PStr s) = json_string s"
| "dumps_at fl n (PList xs) =
     (if xs = [] then ''[]''
      else ''['' @ line_break (Suc n) @
           join_with ('','' @ line_break (Suc n)) (map (dumps_at fl (Suc n)) xs) @
           line_break n @ '']'')"
| "dumps_at fl n (PDict kvs) =
     (if kvs = [] then ''{}''
      else ''{'' @ line_break (Suc n) @
           join_with ('','' @ line_break (Suc n))
             (map (\<lambda>kv. json_string (fst kv) @ '': '' @ dumps_at fl (Suc n) (snd kv)) kvs) @
           line_break n @ ''}'')"

definition json_dumps :: "(real \<Rightarrow> string) \<Rightarrow> pyval \<Rightarrow> string" where
  "json_dumps fl v = dumps_at fl 0 v"

text \<open>
  The decoder: \<^verbatim>\<open>scan_once\<close> dispatches on the first character, \<^verbatim>\<open>JSONArray\<close> and
  \<^verbatim>\<open>JSONObject\<close> skip white space around the items and the delimiters, and a
  dictionary is built from the pairs in order, a repeated key keeping its place and
  taking the later value. The recursion is bounded by a fuel that \<open>json_loads\<close> sets
  above the length of the text; text left after the value, other than white space, is
  an error, and every error is \<open>None\<close>. The constants \<^verbatim>\<open>NaN\<close> and \<^verbatim>\<open>Infinity\<close>, which
  the library reads as floats, are no reals and are refused.
\<close>

definition is_ws :: "char \<Rightarrow> bool" where
  "is_ws c = (c \<in> {CHR '' '', CHR 0x09, CHR 0x0A, CHR 0x0D})"

definition skip_ws :: "string \<Rightarrow> string" where
  "skip_ws s = dropWhile is_ws s"

fun dict_set :: "string \<Rightarrow> pyval \<Rightarrow> (string \<times> pyval) list \<Rightarrow> (string \<times> pyval) list" where
  "dict_set k v [] = [(k, v)]"
| "dict_set k v ((k', v') # kvs) = (if k' = k then (k, v) # kvs else (k', v') # dict_set k v kvs)"

definition dict_of :: "(string \<times> pyval) list \<Rightarrow> (string \<times> pyval) list" where
  "dict_of kvs = foldl (\<lambda>d kv. dict_set (fst kv) (snd kv) d) [] kvs"

fun parse_value :: "(string \<Rightarrow> real option) \<Rightarrow> nat \<Rightarrow> string \<Rightarrow> (pyval \<times> string) option"
  and parse_elements ::
    "(string \<Rightarrow> real option) \<Rightarrow> nat \<Rightarrow> string \<Rightarrow> (pyval list \<times> string) option"
  and parse_members ::
    "(string \<Rightarrow> real option) \<Rightarrow> nat \<Rightarrow> string \<Rightarrow> ((string \<times> pyval) list \<times> string) option"
where
  "parse_value fp 0 s = None"
| "parse_value fp (Suc f) s =
     (case s of
        [] \<Rightarrow> None
      | c # t \<Rightarrow>
          if c = dq then
            (case scan_string t of
               None \<Rightarrow> None
             | Some (str, rest) \<Rightarrow> Some (PStr str, rest))
          else if c = CHR ''{'' then
            (case skip_ws t of
               [] \<Rightarrow> None
             | c' # t' \<Rightarrow>
                 if c' = CHR ''}'' then Some (PDict [], t')
                 else (case parse_members fp f (c' # t') of
                         None \<Rightarrow> None
                       | Some (kvs, rest) \<Rightarrow> Some (PDict (dict_of kvs), rest)))
          else if c = CHR ''['' then
            (case skip_ws t of
               [] \<Rightarrow> None
             | c' # t' \<Rightarrow>
                 if c' = CHR '']'' then Some (PList [], t')
                 else (case parse_elements fp f (c' # t') of
                         None \<Rightarrow> None
                       | Some (xs, rest) \<Rightarrow> Some (PList xs, rest)))
          else if c = CHR ''n'' \<and> take 4 s = ''null'' then Some (PNone, drop 4 s)
          else if c = CHR ''t'' \<and> take 4 s = ''true'' then Some (PBool True, drop 4 s)
          else if c = CHR ''f'' \<and> take 5 s = ''false'' then Some (PBool False, drop 5 s)
          else scan_number fp s)"
| "parse_elements fp 0 s = None"
| "parse_elements fp (Suc f) s =
     (case parse_value fp f s of
        None \<Rightarrow> None
      | Some (v, rest) \<Rightarrow>
          (case skip_ws rest of
             [] \<Rightarrow> None
           | c # t \<Rightarrow>
               if c = CHR '']'' then Some ([v], t)
               else if c = CHR '','' then
                 (case parse_elements fp f (skip_ws t) of
                    None \<Rightarrow> None
                  | Some (vs, rest') \<Rightarrow> Some (v # vs, rest'))
               else None))"
| "parse_members fp 0 s = None"
| "parse_members fp (Suc f) s =
     (case s of
        [] \<Rightarrow> None
      | c # t \<Rightarrow>
          if c \<noteq> dq then None
          else (case scan_string t of
                  None \<Rightarrow> None
                | Some (k, after_key) \<Rightarrow>
                    (case skip_ws after_key of
                       [] \<Rightarrow> None
                     | c1 # after_colon \<Rightarrow>
                         if c1 \<noteq> CHR '':'' then None
                         else (case parse_value fp f (skip_ws after_colon) of
                                 None \<Rightarrow> None
                               | Some (v, rest) \<Rightarrow>
                                   (case skip_ws rest of
                                      [] \<Rightarrow> None
                                    | c2 # t2 \<Rightarrow>
                                        if c2 = CHR ''}'' then Some ([(k, v)], t2)
                                        else if c2 = CHR '','' then
                                          (case parse_members fp f (skip_ws t2) of
                                             None \<Rightarrow> None
                                           | Some (kvs, rest') \<Rightarrow> Some ((k, v) # kvs, rest'))
                                        else None)))))"

definition json_loads :: "(string \<Rightarrow> real option) \<Rightarrow> string \<Rightarrow> pyval option" where
  "json_loads fp s =
     (case parse_value fp (Suc (length s)) (skip_ws s) of
        None \<Rightarrow> None
      | Some (v, rest) \<Rightarrow> if skip_ws rest = [] then Some v else None)"

section \<open>Notions used to state the properties\<close>

text \<open>
  The city and the country code that lines 47 to 49 compute, written over the text of
  the segment: the city is what stands before the first comma, the country code what
  stands between the first comma and the second.
\<close>

definition city_of :: "string \<Rightarrow> string" where
  "city_of segment = py_title (py_strip (takeWhile (\<lambda>c. c \<noteq> CHR '','') segment))"

definition country_of :: "string \<Rightarrow> string option" where
  "country_of segment =
     (if CHR '','' \<in> set segment then
        Some (py_upper (py_strip (takeWhile (\<lambda>c. c \<noteq> CHR '','')
                (tl (dropWhile (\<lambda>c. c \<noteq> CHR '','') segment)))))
      else None)"

definition who_of :: "string \<Rightarrow> string" where
  "who_of location = city_of location @ '', '' @ or_empty (country_of location)"

text \<open>The geocoding request for a segment, with the timeout the script passes.\<close>

definition geo_request :: "env \<Rightarrow> nat option \<Rightarrow> string \<Rightarrow> request" where
  "geo_request env t location =
     \<lparr>url = GEO_URL, headers = HEADERS,
      params = geo_params env (city_of location) (country_of location), timeout = t\<rparr>"

text \<open>The exceptions the two \<^verbatim>\<open>except\<close> clauses name.\<close>

fun caught :: "exn \<Rightarrow> bool" where
  "caught (RequestException k msg) = True"
| "caught (JSONDecodeError msg) = True"
| "caught _ = False"

text \<open>What \<^verbatim>\<open>city_weather_info.py\<close> returns for a non-empty body: \<^verbatim>\<open>data[0]\<close>, mapped.\<close>

definition first_candidate :: "pyval \<Rightarrow> exn + pyval" where
  "first_candidate data =
     (case py_getitem0 data of Inl e \<Rightarrow> Inl e | Inr city_data \<Rightarrow> extract_info city_data)"

text \<open>What the loop of \<^verbatim>\<open>city_weather_forecast.py\<close> returns for a non-empty body.\<close>

definition looped_candidate :: "pyval \<Rightarrow> exn + pyval" where
  "looped_candidate data =
     (case py_iter data of Inl e \<Rightarrow> Inl e | Inr candidates \<Rightarrow> extract_loop None candidates)"

text \<open>The value a call returned; \<open>None\<close> when an exception left it.\<close>

definition returned :: "pyval io \<Rightarrow> pyval" where
  "returned m = (case snd m of Inl e \<Rightarrow> PNone | Inr v \<Rightarrow> v)"

text \<open>A field of a dictionary that has it.\<close>

definition field :: "pyval \<Rightarrow> string \<Rightarrow> pyval" where
  "field d k = (case py_getitem d k of Inl e \<Rightarrow> PNone | Inr v \<Rightarrow> v)"

text \<open>The dictionaries \<open>extract_info\<close> builds.\<close>

definition is_city_info :: "pyval \<Rightarrow> bool" where
  "is_city_info v =
     (\<exists>n la lo co st. v = PDict [(''name'', n), (''latitude'', la), (''longitude'', lo),
                                  (''country'', co), (''state'', st)])"

text \<open>The weather request for a resolved city.\<close>

definition weather_request :: "env \<Rightarrow> string \<Rightarrow> nat option \<Rightarrow> pyval \<Rightarrow> request" where
  "weather_request env u t city_info =
     \<lparr>url = u, headers = HEADERS,
      params = [(''lat'', field city_info ''latitude''), (''lon'', field city_info ''longitude''),
                (''appid'', PStr (api_key env)), (''units'', PStr ''metric'')],
      timeout = t\<rparr>"

text \<open>The files a trace wrote, and the requests it sent, in order.\<close>

fun writes :: "event list \<Rightarrow> (string \<times> string) list" where
  "writes [] = []"
| "writes (WriteText filename content # evs) = (filename, content) # writes evs"
| "writes (_ # evs) = writes evs"

fun requests_of :: "event list \<Rightarrow> request list" where
  "requests_of [] = []"
| "requests_of (HttpGet r # evs) = r # requests_of evs"
| "requests_of (_ # evs) = requests_of evs"

text \<open>
  The locations a batch keeps and the weather records it keeps, over the resolver \<open>gc\<close>
  and the retriever \<open>gw\<close> of the script: the values the calls returned, those that
  pass the truth test of \<^verbatim>\<open>main\<close>, in the order of the calls.
\<close>

definition resolved :: "(string \<Rightarrow> pyval io) \<Rightarrow> string \<Rightarrow> pyval list" where
  "resolved gc user_input =
     filter truthy (map (\<lambda>location. returned (gc location)) (user_locations user_input))"

definition retrieved :: "(pyval \<Rightarrow> pyval io) \<Rightarrow> pyval list \<Rightarrow> pyval list" where
  "retrieved gw infos = filter truthy (map (\<lambda>city_info. returned (gw city_info)) infos)"

text \<open>
  What one pass of the second loop of \<^verbatim>\<open>city_weather_forecast.py\<close> does: the call of
  the retriever, and the call of \<open>plot_forecast\<close> when the value passes the truth test.
\<close>

definition forecast_pass :: "env \<Rightarrow> pyval \<Rightarrow> event list" where
  "forecast_pass env city_info =
     fst (get_weather_forecast env city_info) @
     (if truthy (returned (get_weather_forecast env city_info)) then
        fst (plot_forecast env (returned (get_weather_forecast env city_info))
               (field city_info ''name''))
      else [])"

definition plots_return :: "env \<Rightarrow> pyval \<Rightarrow> bool" where
  "plots_return env city_info =
     (truthy (returned (get_weather_forecast env city_info)) \<longrightarrow>
      snd (plot_forecast env (returned (get_weather_forecast env city_info))
             (field city_info ''name'')) = Inr ())"

text \<open>
  The steps of a batch that a trace shows: a geocoding request, a weather request, the
  write of each of the two files, a series handed to the chart, the chart shown.
\<close>

datatype step = Resolve | Retrieve | PersistLocations | PersistWeather | Render | Display

fun step_of :: "event \<Rightarrow> step list" where
  "step_of (HttpGet r) = (if url r = GEO_URL then [Resolve] else [Retrieve])"
| "step_of (WriteText filename content) =
     (if filename = COORDINATES_FILE then [PersistLocations] else [PersistWeather])"
| "step_of (Chart (AxPlot dates temps label)) = [Render]"
| "step_of (Chart (Bar k heights color label)) = [Render]"
| "step_of (Chart Show) = [Display]"
| "step_of _ = []"

definition steps :: "event list \<Rightarrow> step list" where
  "steps tr = concat (map step_of tr)"

text \<open>Whether the pass for a city hands a series to the chart.\<close>

definition plotted :: "env \<Rightarrow> pyval \<Rightarrow> bool" where
  "plotted env city_info =
     (has_forecast_list (returned (get_weather_forecast env city_info)) = Inr True)"

text \<open>
  The Location of a candidate, field by field: the value the candidate has under the
  key of the service, \<open>None\<close> where it has none.
\<close>

definition location_of :: "(string \<times> pyval) list \<Rightarrow> pyval" where
  "location_of kvs =
     PDict (map (\<lambda>(k, k'). (k, case map_of kvs k' of None \<Rightarrow> PNone | Some v \<Rightarrow> v))
              [(''name'', ''name''), (''latitude'', ''lat''), (''longitude'', ''lon''),
               (''country'', ''country''), (''state'', ''state'')])"

text \<open>
  The parser as the specification words it, for comparison with the code: split on
  \<open>;\<close>, trim, drop the empty segments; split each segment on the first comma, the part
  before it trimmed and title-cased, the part after it trimmed and upper-cased.
\<close>

definition spec_parse :: "string \<Rightarrow> (string \<times> string option) list" where
  "spec_parse raw =
     map (\<lambda>segment.
            (py_title (py_strip (takeWhile (\<lambda>c. c \<noteq> CHR '','') segment)),
             if CHR '','' \<in> set segment then
               Some (py_upper (py_strip (tl (dropWhile (\<lambda>c. c \<noteq> CHR '','') segment))))
             else None))
         (filter (\<lambda>segment. segment \<noteq> []) (map py_strip (py_split CHR '';'' raw)))"

text \<open>
  For reading back. A dictionary of Python has no key twice. A float literal is a text
  that the number pattern matches whole, with a fraction or an exponent: the shape of
  every \<^verbatim>\<open>repr\<close> of a finite float. The floats of a value are readable when the text
  \<open>fl\<close> gives each of them is a float literal that \<open>fp\<close> reads as the same float, which
  is what \<^verbatim>\<open>repr\<close> and \<^verbatim>\<open>float\<close> do on the finite floats of Python. The other
  notions serve the proofs: what may follow a number, the fuel that reading a value
  takes, the first character of a value, and the text of one member of a dictionary.
\<close>

definition is_number_char :: "char \<Rightarrow> bool" where
  "is_number_char c = (is_digit c \<or> c \<in> set ''+-.eE'')"

definition ends_number :: "string \<Rightarrow> bool" where
  "ends_number rest = (case rest of [] \<Rightarrow> True | c # t \<Rightarrow> \<not> is_number_char c)"

definition float_literal :: "string \<Rightarrow> bool" where
  "float_literal t =
     (case match_number t of
        None \<Rightarrow> False
      | Some (integer, fraction, exponent, rest) \<Rightarrow> rest = [] \<and> (fraction \<noteq> [] \<or> exponent \<noteq> []))"

fun distinct_keys :: "pyval \<Rightarrow> bool" where
  "distinct_keys (PList xs) = (\<forall>x \<in> set xs. distinct_keys x)"
| "distinct_keys (PDict kvs) =
     (distinct (map fst kvs) \<and> (\<forall>kv \<in> set kvs. distinct_keys (snd kv)))"
| "distinct_keys v = True"

fun floats_readable :: "(real \<Rightarrow> string) \<Rightarrow> (string \<Rightarrow> real option) \<Rightarrow> pyval \<Rightarrow> bool" where
  "floats_readable fl fp (PFloat r) = (float_literal (fl r) \<and> fp (fl r) = Some r)"
| "floats_readable fl fp (PList xs) = (\<forall>x \<in> set xs. floats_readable fl fp x)"
| "floats_readable fl fp (PDict kvs) = (\<forall>kv \<in> set kvs. floats_readable fl fp (snd kv))"
| "floats_readable fl fp v = True"

fun parse_cost :: "pyval \<Rightarrow> nat" where
  "parse_cost (PList xs) = Suc (sum_list (map (\<lambda>x. Suc (parse_cost x)) xs))"
| "parse_cost (PDict kvs) = Suc (sum_list (map (\<lambda>kv. Suc (parse_cost (snd kv))) kvs))"
| "parse_cost v = 1"

definition starts_value :: "string \<Rightarrow> bool" where
  "starts_value s =
     (case s of [] \<Rightarrow> False | c # t \<Rightarrow> \<not> is_ws c \<and> c \<noteq> CHR '']'' \<and> c \<noteq> CHR ''}'')"

definition member_text :: "(real \<Rightarrow> string) \<Rightarrow> nat \<Rightarrow> string \<times> pyval \<Rightarrow> string" where
  "member_text fl n kv = json_string (fst kv) @ '': '' @ dumps_at fl n (snd kv)"

section \<open>A sample world\<close>

text \<open>
  One environment on which the model is run: five cities the geocoder knows (one of them
  with two candidates), a name it does not know, a name for which the connection fails,
  and a weather service that answers differently for each city.
\<close>

definition candidate :: "string \<Rightarrow> real \<Rightarrow> real \<Rightarrow> string \<Rightarrow> pyval" where
  "candidate n la lo co =
     PDict [(''name'', PStr n), (''lat'', PFloat la), (''lon'', PFloat lo), (''country'', PStr co)]"

definition info_of :: "string \<Rightarrow> real \<Rightarrow> real \<Rightarrow> string \<Rightarrow> pyval" where
  "info_of n la lo co =
     PDict [(''name'', PStr n), (''latitude'', PFloat la), (''longitude'', PFloat lo),
            (''country'', PStr co), (''state'', PNone)]"

definition london_info :: pyval where
  "london_info = info_of ''London'' 51.5 (-0.13) ''GB''"

definition paris_info :: pyval where
  "paris_info = info_of ''Paris'' 48.85 2.35 ''FR''"

definition oslo_info :: pyval where
  "oslo_info = info_of ''Oslo'' 59.91 10.75 ''NO''"

definition rome_info :: pyval where
  "rome_info = info_of ''Rome'' 41.9 12.5 ''IT''"

definition london_weather :: pyval where
  "london_weather =
     PDict [(''name'', PStr ''London''),
            (''main'', PDict [(''temp'', PFloat 11.5), (''temp_min'', PFloat 10),
                              (''temp_max'', PFloat 13)])]"

definition london_forecast :: pyval where
  "london_forecast =
     PDict [(''cod'', PStr ''200''),
            (''list'', PList [PDict [(''dt_txt'', PStr ''2024-05-01 12:00:00''),
                                     (''main'', PDict [(''temp'', PFloat 12.5)])],
                              PDict [(''dt_txt'', PStr ''2024-05-01 15:00:00''),
                                     (''main'', PDict [(''temp'', PFloat 14)])]])]"

definition rome_forecast :: pyval where
  "rome_forecast = PDict [(''cod'', PStr ''200''), (''list'', PList [])]"

definition demo_geocoder :: "string \<Rightarrow> reply" where
  "demo_geocoder q =
     (if q = ''London,GB'' then Decoded 200 (PList [candidate ''London'' 51.5 (-0.13) ''GB''])
      else if q = ''Paris'' then Decoded 200 (PList [candidate ''Paris'' 48.85 2.35 ''FR''])
      else if q = ''Oslo'' then Decoded 200 (PList [candidate ''Oslo'' 59.91 10.75 ''NO''])
      else if q = ''Rome'' then Decoded 200 (PList [candidate ''Rome'' 41.9 12.5 ''IT''])
      else if q = ''Springfield'' then
        Decoded 200 (PList [candidate ''Springfield'' 39.8 (-89.64) ''US'',
                            candidate ''Springfield'' 37.21 (-93.29) ''US''])
      else if q = ''Atlantis'' then Raises ConnectionError ''Connection refused''
      else if q = [] then Raises (HTTPError 400) ''400 Client Error: Bad Request''
      else Decoded 200 (PList []))"

definition demo_weather :: "pyval \<Rightarrow> reply" where
  "demo_weather lat =
     (if lat = PFloat 51.5 then Decoded 200 london_weather
      else if lat = PFloat 48.85 then Raises Timeout ''Read timed out.''
      else Decoded 200 (PDict []))"

definition demo_forecast :: "pyval \<Rightarrow> reply" where
  "demo_forecast lat =
     (if lat = PFloat 51.5 then Decoded 200 london_forecast
      else if lat = PFloat 48.85 then Raises ConnectionError ''Connection refused''
      else if lat = PFloat 41.9 then Decoded 200 rome_forecast
      else Decoded 200 (PDict []))"

definition demo_fetch :: "request \<Rightarrow> reply" where
  "demo_fetch r =
     (if url r = GEO_URL then
        (case map_of (params r) ''q'' of
           Some (PStr q) \<Rightarrow> demo_geocoder q
         | _ \<Rightarrow> Raises (HTTPError 400) ''400 Client Error: Bad Request'')
      else
        (case map_of (params r) ''lat'' of
           Some lat \<Rightarrow> if url r = WEATHER_URL then demo_weather lat else demo_forecast lat
         | None \<Rightarrow> Raises (HTTPError 400) ''400 Client Error: Bad Request''))"

text \<open>
  A stand-in for \<^verbatim>\<open>json.dumps\<close>, for the examples that look at which file is written
  and for which records, not at the text.
\<close>

definition demo_dumps :: "pyval \<Rightarrow> string" where
  "demo_dumps v = (if v = PList [] then ''[]'' else ''[...]'')"

definition demo_env :: env where
  "demo_env =
     \<lparr>api_key = ''k'', fetch = demo_fetch, io_error = (\<lambda>filename. None), dumps = demo_dumps,
      str_of = (\<lambda>v. ''?''), strptime_ok = (\<lambda>s. length s = 19)\<rparr>"

text \<open>
  The sample world with the JSON encoder for \<open>dumps\<close>. The text of a float and its
  reading are given for the coordinates of London and Paris, as Python writes them.
\<close>

definition sample_floats :: "(real \<times> string) list" where
  "sample_floats =
     [(51.5, ''51.5''), (- 0.13, ''-0.13''), (48.85, ''48.85''), (2.35, ''2.35'')]"

definition sample_repr :: "real \<Rightarrow> string" where
  "sample_repr r = (case map_of sample_floats r of None \<Rightarrow> [] | Some t \<Rightarrow> t)"

definition sample_float :: "string \<Rightarrow> real option" where
  "sample_float t = map_of (map (\<lambda>(r, t). (t, r)) sample_floats) t"

definition json_env :: env where
  "json_env = demo_env\<lparr>dumps := json_dumps sample_repr\<rparr>"

text \<open>
  A second world, the first one but for two replies: for the name \<open>Atlantis\<close> the
  geocoder answers 200 with a JSON object in place of the array, and the forecast for
  Rome has an item without \<open>dt_txt\<close>.
\<close>

definition odd_rome_forecast :: pyval where
  "odd_rome_forecast =
     PDict [(''cod'', PStr ''200''),
            (''list'', PList [PDict [(''main'', PDict [(''temp'', PFloat 20)])]])]"

definition odd_fetch :: "request \<Rightarrow> reply" where
  "odd_fetch r =
     (if url r = GEO_URL \<and> map_of (params r) ''q'' = Some (PStr ''Atlantis'') then
        Decoded 200 (PDict [(''message'', PStr ''internal error'')])
      else if url r = FORECAST_URL \<and> map_of (params r) ''lat'' = Some (PFloat 41.9) then
        Decoded 200 odd_rome_forecast
      else demo_fetch r)"

definition odd_env :: env where
  "odd_env = demo_env\<lparr>fetch := odd_fetch\<rparr>"

lemmas odd_world = odd_env_def odd_fetch_def

lemmas string_ops =
  city_of_def country_of_def who_of_def py_title_def py_strip_def py_upper_def is_space_def
  to_upper_def to_lower_def is_cased_def lower_letters_def upper_letters_def or_empty_def
  or_None_def q_param_def user_locations_def

lemmas demo_world =
  demo_env_def demo_fetch_def demo_geocoder_def demo_weather_def demo_forecast_def
  candidate_def info_of_def london_info_def paris_info_def oslo_info_def rome_info_def
  geo_request_def geo_params_def weather_request_def field_def
  GEO_URL_def WEATHER_URL_def FORECAST_URL_def

section \<open>Basic facts\<close>

lemma py_split_not_Nil: "py_split sep s \<noteq> []"
  by (induction s) (auto split: list.splits)

lemma py_split_unfold:
  "py_split sep s =
     takeWhile (\<lambda>c. c \<noteq> sep) s #
       (if sep \<in> set s then py_split sep (tl (dropWhile (\<lambda>c. c \<noteq> sep) s)) else [])"
  by (induction s) (auto split: list.splits)

lemma length_py_split: "length (py_split sep s) = Suc (count_list s sep)"
  by (induction s) (auto split: list.splits)

lemma to_upper_idem: "to_upper (to_upper c) = to_upper c"
  by (simp add: to_upper_def lower_letters_def upper_letters_def)

lemma to_upper_lower: "to_upper (to_lower c) = to_upper c"
  by (simp add: to_upper_def to_lower_def lower_letters_def upper_letters_def)

lemma py_upper_title_from: "py_upper (title_from b s) = py_upper s"
  by (induction s arbitrary: b) (simp_all add: py_upper_def to_upper_idem to_upper_lower)

lemma parse_location_eq: "parse_location l = Inr (city_of l, country_of l)"
  apply (subst parse_location_def)
  apply (subst py_split_unfold)
  apply (simp add: city_of_def country_of_def)
  apply (subst py_split_unfold)
  apply (simp add: py_title_def py_upper_title_from)
  done

lemma bind_io_Inr [simp]: "bind_io (tr, Inr v) f = (tr @ fst (f v), snd (f v))"
  by (simp add: bind_io_def)

lemma bind_io_Inl [simp]: "bind_io (tr, Inl e) f = (tr, Inl e)"
  by (simp add: bind_io_def)

lemma fst_bind_io:
  "fst (bind_io m f) = (case snd m of Inl e \<Rightarrow> fst m | Inr v \<Rightarrow> fst m @ fst (f v))"
  by (simp add: bind_io_def split: sum.splits)

lemma snd_bind_io:
  "snd (bind_io m f) = (case snd m of Inl e \<Rightarrow> Inl e | Inr v \<Rightarrow> snd (f v))"
  by (simp add: bind_io_def split: sum.splits)

lemma bind_io_returns:
  "snd (bind_io m f) = Inr y \<longleftrightarrow> (\<exists>v. snd m = Inr v \<and> snd (f v) = Inr y)"
  by (simp add: bind_io_def split: sum.splits)

lemma writes_append [simp]: "writes (xs @ ys) = writes xs @ writes ys"
  by (induction xs rule: writes.induct) simp_all

lemma requests_of_append [simp]: "requests_of (xs @ ys) = requests_of xs @ requests_of ys"
  by (induction xs rule: requests_of.induct) simp_all

lemma on_request_errors_uncaught: "\<not> caught e \<Longrightarrow> on_request_errors a b e = None"
  by (cases e) (simp_all add: on_request_errors_def)

lemma py_get_exn: "py_get v k = Inl e \<Longrightarrow> e = AttributeError"
  by (cases v) (auto split: option.splits)

lemma extract_info_exn: "extract_info v = Inl e \<Longrightarrow> e = AttributeError"
  by (auto simp: extract_info_def split: sum.splits dest: py_get_exn)

lemma py_getitem0_exn: "py_getitem0 v = Inl e \<Longrightarrow> \<not> caught e"
  by (induction v rule: py_getitem0.induct) auto

lemma py_getitem_exn: "py_getitem v k = Inl e \<Longrightarrow> \<not> caught e"
  by (cases v) (auto split: option.splits)

lemma py_iter_exn: "py_iter v = Inl e \<Longrightarrow> e = TypeError"
  by (cases v) auto

lemma extract_loop_exn: "extract_loop acc vs = Inl e \<Longrightarrow> \<not> caught e"
  by (induction vs arbitrary: acc) (auto split: option.splits sum.splits dest: extract_info_exn)

lemma first_candidate_exn: "first_candidate v = Inl e \<Longrightarrow> \<not> caught e"
  by (auto simp: first_candidate_def split: sum.splits dest: extract_info_exn py_getitem0_exn)

lemma looped_candidate_exn: "looped_candidate v = Inl e \<Longrightarrow> \<not> caught e"
  by (auto simp: looped_candidate_def split: sum.splits dest: py_iter_exn extract_loop_exn)

lemma extract_info_city_info: "extract_info v = Inr info \<Longrightarrow> is_city_info info"
  by (auto simp: extract_info_def is_city_info_def split: sum.splits)

lemma first_candidate_city_info: "first_candidate v = Inr info \<Longrightarrow> is_city_info info"
  by (auto simp: first_candidate_def split: sum.splits dest: extract_info_city_info)

lemma extract_loop_city_info:
  "extract_loop acc vs = Inr info \<Longrightarrow> (\<forall>a. acc = Some a \<longrightarrow> is_city_info a) \<Longrightarrow> is_city_info info"
proof (induction vs arbitrary: acc)
  case Nil
  then show ?case by (cases acc) auto
next
  case (Cons v vs)
  then show ?case
    by (auto split: sum.splits dest: extract_info_city_info)
qed

lemma looped_candidate_city_info: "looped_candidate v = Inr info \<Longrightarrow> is_city_info info"
  by (auto simp: looped_candidate_def split: sum.splits dest: extract_loop_city_info)

lemma is_city_info_truthy: "is_city_info v \<Longrightarrow> truthy v"
  by (auto simp: is_city_info_def)

lemma is_city_info_fields:
  assumes "is_city_info v"
  shows "py_getitem v ''latitude'' = Inr (field v ''latitude'')"
    and "py_getitem v ''longitude'' = Inr (field v ''longitude'')"
    and "py_getitem v ''name'' = Inr (field v ''name'')"
  using assms by (auto simp: is_city_info_def field_def)

section \<open>The four calls, case by case\<close>

lemma get_coordinates_info_cases:
  "get_coordinates_info env l =
     (let req = geo_request env (Some REQUEST_TIMEOUT) l;
          start = [Print (''Fetching coordinates for '' @ who_of l @ ''...''), HttpGet req]
      in case fetch env req of
           Raises k msg \<Rightarrow>
             (start @ [Print (''Error fetching coordinates for '' @ who_of l @ '': '' @ msg),
                       Sleep RATE_LIMIT_DELAY], Inr PNone)
         | Undecodable st msg \<Rightarrow>
             (start @ [Print (''Error decoding JSON response for '' @ who_of l @ '': '' @ msg),
                       Sleep RATE_LIMIT_DELAY], Inr PNone)
         | Decoded st data \<Rightarrow>
             if truthy data then (start @ [Sleep RATE_LIMIT_DELAY], first_candidate data)
             else (start @ [Print (''No results found for '' @ who_of l),
                            Sleep RATE_LIMIT_DELAY], Inr PNone))"
proof (cases "fetch env (geo_request env (Some REQUEST_TIMEOUT) l)")
  case (Raises k msg)
  then show ?thesis
    by (simp add: get_coordinates_info_def parse_location_eq lift_io_def then_io_def emit_def
        try_finally_def try_except_def http_get_json_def on_request_errors_def
        geo_request_def who_of_def Let_def)
next
  case (Undecodable st msg)
  then show ?thesis
    by (simp add: get_coordinates_info_def parse_location_eq lift_io_def then_io_def emit_def
        try_finally_def try_except_def http_get_json_def on_request_errors_def
        geo_request_def who_of_def Let_def)
next
  case (Decoded st data)
  show ?thesis
  proof (cases "first_candidate data")
    case (Inl e)
    then have "on_request_errors a b e = None" for a b
      by (simp add: on_request_errors_uncaught first_candidate_exn)
    with Decoded Inl show ?thesis
      by (auto simp add: get_coordinates_info_def parse_location_eq lift_io_def then_io_def
          emit_def try_finally_def try_except_def http_get_json_def return_io_def
          first_candidate_def geo_request_def who_of_def Let_def split: sum.splits)
  next
    case (Inr v)
    with Decoded show ?thesis
      by (auto simp add: get_coordinates_info_def parse_location_eq lift_io_def then_io_def
          emit_def try_finally_def try_except_def http_get_json_def return_io_def
          first_candidate_def geo_request_def who_of_def Let_def split: sum.splits)
  qed
qed

lemma get_coordinates_forecast_cases:
  "get_coordinates_forecast env l =
     (let req = geo_request env None l;
          start = [Print (''Fetching coordinates for '' @ city_of l @ '','' @
                          or_empty (country_of l) @ ''...''), HttpGet req]
      in case fetch env req of
           Raises k msg \<Rightarrow>
             (start @ [Print (''Error fetching coordinates for '' @ who_of l @ '': '' @ msg),
                       Sleep 1], Inr PNone)
         | Undecodable st msg \<Rightarrow>
             (start @ [Print (''Error decoding JSON response for coordinates of '' @ who_of l @
                              '': '' @ msg),
                       Sleep 1], Inr PNone)
         | Decoded st data \<Rightarrow>
             (let status_line =
                    Print (''Name: '' @ city_of l @ [CHR 0x09] @ ''Country: '' @
                           or_None (country_of l) @ [CHR 0x09] @ ''Status Code: '' @
                           string_of_nat st)
              in if truthy data then (start @ [status_line, Sleep 1], looped_candidate data)
                 else (start @ [status_line, Print (''No coordinates found for '' @ who_of l),
                                Sleep 1], Inr PNone)))"
proof (cases "fetch env (geo_request env None l)")
  case (Raises k msg)
  then show ?thesis
    by (simp add: get_coordinates_forecast_def parse_location_eq lift_io_def then_io_def
        emit_def try_finally_def try_except_def http_get_json_def on_request_errors_def
        geo_request_def who_of_def Let_def)
next
  case (Undecodable st msg)
  then show ?thesis
    by (simp add: get_coordinates_forecast_def parse_location_eq lift_io_def then_io_def
        emit_def try_finally_def try_except_def http_get_json_def on_request_errors_def
        geo_request_def who_of_def Let_def)
next
  case (Decoded st data)
  show ?thesis
  proof (cases "looped_candidate data")
    case (Inl e)
    then have "on_request_errors a b e = None" for a b
      by (simp add: on_request_errors_uncaught looped_candidate_exn)
    with Decoded Inl show ?thesis
      by (auto simp add: get_coordinates_forecast_def parse_location_eq lift_io_def then_io_def
          emit_def try_finally_def try_except_def http_get_json_def return_io_def
          looped_candidate_def geo_request_def who_of_def Let_def split: sum.splits)
  next
    case (Inr v)
    with Decoded show ?thesis
      by (auto simp add: get_coordinates_forecast_def parse_location_eq lift_io_def then_io_def
          emit_def try_finally_def try_except_def http_get_json_def return_io_def
          looped_candidate_def geo_request_def who_of_def Let_def split: sum.splits)
  qed
qed

lemma get_weather_data_cases:
  assumes "is_city_info c"
  shows "get_weather_data env c =
     (let who = format_val env (field c ''name'');
          req = weather_request env WEATHER_URL (Some REQUEST_TIMEOUT) c;
          start = [Print (''Fetching weather data for '' @ who @ ''...''), HttpGet req]
      in case fetch env req of
           Raises k msg \<Rightarrow>
             (start @ [Print (''Error fetching weather data for '' @ who @ '': '' @ msg),
                       Sleep RATE_LIMIT_DELAY], Inr PNone)
         | Undecodable st msg \<Rightarrow>
             (start @ [Print (''Error decoding JSON response for '' @ who @ '': '' @ msg),
                       Sleep RATE_LIMIT_DELAY], Inr PNone)
         | Decoded st body \<Rightarrow> (start @ [Sleep RATE_LIMIT_DELAY], Inr body))"
  using is_city_info_fields [OF assms]
  by (simp add: get_weather_data_def lift_io_def then_io_def emit_def try_finally_def
      try_except_def http_get_json_def on_request_errors_def return_io_def
      weather_request_def Let_def split: reply.splits)

lemma get_weather_forecast_cases:
  assumes "is_city_info c"
  shows "get_weather_forecast env c =
     (let who = format_val env (field c ''name'');
          req = weather_request env FORECAST_URL None c;
          start = [Print (''Fetching weather forecast for '' @ who), HttpGet req]
      in case fetch env req of
           Raises k msg \<Rightarrow>
             (start @ [Print (''Error fetching weather for '' @ who @ '': '' @ msg)], Inr PNone)
         | Undecodable st msg \<Rightarrow>
             (start @ [Print (''Error decoding JSON response for weather in '' @ who @ '': '' @
                              msg)], Inr PNone)
         | Decoded st body \<Rightarrow>
             (start @ [Print (''City name: '' @ who @ [CHR 0x09] @ ''Status Code: '' @
                              string_of_nat st)], Inr body))"
  using is_city_info_fields [OF assms]
  by (simp add: get_weather_forecast_def lift_io_def then_io_def emit_def
      try_except_def http_get_json_def on_request_errors_def return_io_def
      weather_request_def Let_def split: reply.splits)

lemma save_json_cases:
  "save_json env data filename =
     (case io_error env filename of
        None \<Rightarrow> ([WriteText filename (dumps env data),
                  Print ([CHR 0x0A] @ ''Data saved to '' @ filename)], Inr ())
      | Some msg \<Rightarrow> ([Print (''Error writing to '' @ filename @ '': '' @ msg)], Inr ()))"
  by (simp add: save_json_def write_text_def try_except_def then_io_def emit_def
      split: option.splits)

lemma get_coordinates_info_city_info:
  assumes "snd (get_coordinates_info env l) = Inr v" and "truthy v"
  shows "is_city_info v"
  using assms
  by (auto simp: get_coordinates_info_cases Let_def
      split: reply.splits if_splits dest: first_candidate_city_info)

lemma get_coordinates_forecast_city_info:
  assumes "snd (get_coordinates_forecast env l) = Inr v" and "truthy v"
  shows "is_city_info v"
  using assms
  by (auto simp: get_coordinates_forecast_cases Let_def
      split: reply.splits if_splits dest: looped_candidate_city_info)

lemma get_weather_data_returns:
  "is_city_info c \<Longrightarrow> snd (get_weather_data env c) = Inr (returned (get_weather_data env c))"
  by (simp add: get_weather_data_cases returned_def Let_def split: reply.splits)

lemma get_weather_forecast_returns:
  "is_city_info c \<Longrightarrow>
   snd (get_weather_forecast env c) = Inr (returned (get_weather_forecast env c))"
  by (simp add: get_weather_forecast_cases returned_def Let_def split: reply.splits)

section \<open>The loops\<close>

lemma resolve_loop_all_return:
  assumes "\<forall>l \<in> set ls. \<exists>v. snd (gc l) = Inr v"
  shows "resolve_loop gc acc ls =
           (concat (map (\<lambda>l. fst (gc l)) ls),
            Inr (acc @ filter truthy (map (\<lambda>l. returned (gc l)) ls)))"
  using assms
proof (induction ls arbitrary: acc)
  case Nil
  then show ?case by (simp add: return_io_def)
next
  case (Cons l ls)
  from Cons.prems obtain v where v: "snd (gc l) = Inr v" by auto
  have rest: "\<forall>l \<in> set ls. \<exists>v. snd (gc l) = Inr v" using Cons.prems by simp
  show ?case
    using v Cons.IH [OF rest]
    by (simp add: bind_io_def returned_def)
qed

lemma resolve_loop_returned:
  assumes "snd (resolve_loop gc acc ls) = Inr out"
  shows "\<forall>l \<in> set ls. \<exists>v. snd (gc l) = Inr v"
  using assms
proof (induction ls arbitrary: acc)
  case Nil
  then show ?case by simp
next
  case (Cons l ls)
  then show ?case
    by (auto simp: bind_io_returns)
qed

lemma weather_loop_all:
  assumes "\<forall>c \<in> set cs. is_city_info c"
  shows "weather_loop env acc cs =
           (concat (map (\<lambda>c. fst (get_weather_data env c)) cs),
            Inr (acc @ filter truthy (map (\<lambda>c. returned (get_weather_data env c)) cs)))"
  using assms
proof (induction cs arbitrary: acc)
  case Nil
  then show ?case by (simp add: return_io_def)
next
  case (Cons c cs)
  then have c: "snd (get_weather_data env c) = Inr (returned (get_weather_data env c))"
    by (simp add: get_weather_data_returns)
  have rest: "\<forall>c \<in> set cs. is_city_info c" using Cons.prems by simp
  show ?case
    using c Cons.IH [OF rest]
    by (simp add: bind_io_def)
qed

lemma forecast_loop_all:
  assumes "\<forall>c \<in> set cs. is_city_info c" and "\<forall>c \<in> set cs. plots_return env c"
  shows "forecast_loop env acc cs =
           (concat (map (forecast_pass env) cs),
            Inr (acc @ filter truthy (map (\<lambda>c. returned (get_weather_forecast env c)) cs)))"
  using assms
proof (induction cs arbitrary: acc)
  case Nil
  then show ?case by (simp add: return_io_def)
next
  case (Cons c cs)
  then have c: "snd (get_weather_forecast env c) = Inr (returned (get_weather_forecast env c))"
    by (simp add: get_weather_forecast_returns)
  have name: "py_getitem c ''name'' = Inr (field c ''name'')"
    using Cons.prems by (simp add: is_city_info_fields)
  have rest: "\<forall>c \<in> set cs. is_city_info c" "\<forall>c \<in> set cs. plots_return env c"
    using Cons.prems by simp_all
  have plot: "plots_return env c" using Cons.prems by simp
  show ?case
  proof (cases "truthy (returned (get_weather_forecast env c))")
    case True
    with plot have "snd (plot_forecast env (returned (get_weather_forecast env c))
                           (field c ''name'')) = Inr ()"
      by (simp add: plots_return_def)
    with True c name Cons.IH [OF rest] show ?thesis
      by (simp add: bind_io_def then_io_def forecast_pass_def lift_io_def)
  next
    case False
    with c Cons.IH [OF rest] show ?thesis
      by (simp add: bind_io_def forecast_pass_def)
  qed
qed

lemma forecast_loop_returned:
  assumes "snd (forecast_loop env acc cs) = Inr out" and "\<forall>c \<in> set cs. is_city_info c"
  shows "\<forall>c \<in> set cs. plots_return env c"
  using assms
proof (induction cs arbitrary: acc)
  case Nil
  then show ?case by simp
next
  case (Cons c cs)
  then have c: "snd (get_weather_forecast env c) = Inr (returned (get_weather_forecast env c))"
    by (simp add: get_weather_forecast_returns)
  have name: "py_getitem c ''name'' = Inr (field c ''name'')"
    using Cons.prems by (simp add: is_city_info_fields)
  have rest: "\<forall>c \<in> set cs. is_city_info c" using Cons.prems by simp
  show ?case
  proof (cases "truthy (returned (get_weather_forecast env c))")
    case True
    with Cons.prems(1) c name have
      p: "snd (plot_forecast env (returned (get_weather_forecast env c)) (field c ''name'')) = Inr ()"
      and r: "snd (forecast_loop env (acc @ [returned (get_weather_forecast env c)]) cs) = Inr out"
      by (auto simp: snd_bind_io then_io_def lift_io_def split: sum.splits)
    from Cons.IH [OF r rest] p show ?thesis
      by (simp add: plots_return_def)
  next
    case False
    with Cons.prems(1) c have "snd (forecast_loop env acc cs) = Inr out"
      by (simp add: snd_bind_io)
    from Cons.IH [OF this rest] False show ?thesis
      by (simp add: plots_return_def)
  qed
qed

lemma resolved_city_info:
  assumes "\<And>l v. snd (gc l) = Inr v \<Longrightarrow> truthy v \<Longrightarrow> is_city_info v"
  shows "\<forall>c \<in> set (filter truthy (map (\<lambda>l. returned (gc l)) ls)). is_city_info c"
proof
  fix c
  assume "c \<in> set (filter truthy (map (\<lambda>l. returned (gc l)) ls))"
  then obtain l where c: "c = returned (gc l)" and t: "truthy c" by auto
  from t c obtain v where "snd (gc l) = Inr v" and "v = c"
    by (cases "snd (gc l)") (auto simp: returned_def)
  with assms t show "is_city_info c" by blast
qed

section \<open>One batch\<close>

lemma batch_info_run:
  assumes "\<forall>l \<in> set (user_locations user_input). \<exists>v. snd (get_coordinates_info env l) = Inr v"
  shows "batch_info env user_input =
     (concat (map (\<lambda>l. fst (get_coordinates_info env l)) (user_locations user_input)) @
      fst (save_json env (PList (resolved (get_coordinates_info env) user_input))
             COORDINATES_FILE) @
      concat (map (\<lambda>c. fst (get_weather_data env c))
                (resolved (get_coordinates_info env) user_input)) @
      fst (save_json env
             (PList (retrieved (get_weather_data env)
                       (resolved (get_coordinates_info env) user_input)))
             WEATHER_DATA_FILE) @
      fst (plot_temperatures
             (retrieved (get_weather_data env) (resolved (get_coordinates_info env) user_input))),
      snd (plot_temperatures
             (retrieved (get_weather_data env) (resolved (get_coordinates_info env) user_input))))"
proof -
  let ?locs = "resolved (get_coordinates_info env) user_input"
  have infos: "\<forall>c \<in> set ?locs. is_city_info c"
    unfolding resolved_def
    by (rule resolved_city_info) (rule get_coordinates_info_city_info)
  have saved: "snd (save_json env d f) = Inr ()" for d f
    by (simp add: save_json_cases split: option.splits)
  show ?thesis
    unfolding batch_info_def
    by (simp add: resolve_loop_all_return [OF assms] weather_loop_all [OF infos]
        resolved_def [symmetric] retrieved_def [symmetric] bind_io_def then_io_def saved)
qed

lemma batch_forecast_run:
  assumes "snd (batch_forecast env [] [] user_input) = Inr ()"
  shows "fst (batch_forecast env [] [] user_input) =
     concat (map (\<lambda>l. fst (get_coordinates_forecast env l)) (user_locations user_input)) @
     fst (save_json env (PList (resolved (get_coordinates_forecast env) user_input))
            COORDINATES_FILE) @
     [Chart Subplots] @
     concat (map (forecast_pass env) (resolved (get_coordinates_forecast env) user_input)) @
     [Chart (SetTitle TITLE_FORECAST 24), Chart (SetXLabel ''Dates'' 14),
      Chart (SetYLabel Y_LABEL_FORECAST 14), Chart AutofmtXDate, Chart Legend, Chart Show] @
     fst (save_json env
            (PList (retrieved (get_weather_forecast env)
                      (resolved (get_coordinates_forecast env) user_input)))
            FORECAST_FILE)"
proof -
  let ?gc = "get_coordinates_forecast env"
  let ?locs = "resolved ?gc user_input"
  have saved: "snd (save_json env d f) = Inr ()" for d f
    by (simp add: save_json_cases split: option.splits)
  from assms obtain out where
    "snd (resolve_loop ?gc [] (user_locations user_input)) = Inr out"
    unfolding batch_forecast_def by (auto simp: bind_io_returns)
  then have all: "\<forall>l \<in> set (user_locations user_input). \<exists>v. snd (?gc l) = Inr v"
    by (rule resolve_loop_returned)
  have loop1: "resolve_loop ?gc [] (user_locations user_input) =
                 (concat (map (\<lambda>l. fst (?gc l)) (user_locations user_input)), Inr ?locs)"
    by (simp add: resolve_loop_all_return [OF all] resolved_def)
  have infos: "\<forall>c \<in> set ?locs. is_city_info c"
    unfolding resolved_def
    by (rule resolved_city_info) (rule get_coordinates_forecast_city_info)
  from assms obtain out2 where "snd (forecast_loop env [] ?locs) = Inr out2"
    unfolding batch_forecast_def
    by (auto simp: loop1 bind_io_returns then_io_def saved emit_def)
  then have plots: "\<forall>c \<in> set ?locs. plots_return env c"
    using infos by (rule forecast_loop_returned)
  show ?thesis
    unfolding batch_forecast_def
    by (simp add: loop1 forecast_loop_all [OF infos plots] retrieved_def [symmetric]
        bind_io_def then_io_def saved emit_def)
qed

section \<open>What the traces hold\<close>

lemma writes_concat: "(\<And>x. x \<in> set xs \<Longrightarrow> writes (f x) = []) \<Longrightarrow> writes (concat (map f xs)) = []"
  by (induction xs) simp_all

lemma steps_Nil [simp]: "steps [] = []"
  by (simp add: steps_def)

lemma steps_append [simp]: "steps (xs @ ys) = steps xs @ steps ys"
  by (simp add: steps_def)

lemma steps_concat: "steps (concat (map f xs)) = concat (map (\<lambda>x. steps (f x)) xs)"
  by (induction xs) (simp_all add: steps_def)

lemma concat_singletons: "(\<And>x. x \<in> set xs \<Longrightarrow> f x = [a]) \<Longrightarrow> concat (map f xs) = replicate (length xs) a"
  by (induction xs) simp_all

lemma writes_get_coordinates_info [simp]: "writes (fst (get_coordinates_info env l)) = []"
  by (simp add: get_coordinates_info_cases Let_def split: reply.splits)

lemma writes_get_coordinates_forecast [simp]: "writes (fst (get_coordinates_forecast env l)) = []"
  by (simp add: get_coordinates_forecast_cases Let_def split: reply.splits)

lemma writes_get_weather_data: "is_city_info c \<Longrightarrow> writes (fst (get_weather_data env c)) = []"
  by (simp add: get_weather_data_cases Let_def split: reply.splits)

lemma writes_get_weather_forecast:
  "is_city_info c \<Longrightarrow> writes (fst (get_weather_forecast env c)) = []"
  by (simp add: get_weather_forecast_cases Let_def split: reply.splits)

lemma writes_plot_forecast [simp]: "writes (fst (plot_forecast env v n)) = []"
  by (simp add: plot_forecast_def fst_bind_io lift_io_def emit_def split: sum.splits)

lemma writes_plot_temperatures [simp]: "writes (fst (plot_temperatures recs)) = []"
  by (simp add: plot_temperatures_def fst_bind_io lift_io_def emit_def split: sum.splits)

lemma writes_forecast_pass: "is_city_info c \<Longrightarrow> writes (forecast_pass env c) = []"
  by (simp add: forecast_pass_def writes_get_weather_forecast)

lemma writes_save_json:
  "writes (fst (save_json env d f)) =
     (case io_error env f of None \<Rightarrow> [(f, dumps env d)] | Some msg \<Rightarrow> [])"
  by (simp add: save_json_cases split: option.splits)

lemma steps_get_coordinates_info [simp]: "steps (fst (get_coordinates_info env l)) = [Resolve]"
  by (simp add: get_coordinates_info_cases Let_def steps_def geo_request_def split: reply.splits)

lemma steps_get_coordinates_forecast [simp]:
  "steps (fst (get_coordinates_forecast env l)) = [Resolve]"
  by (simp add: get_coordinates_forecast_cases Let_def steps_def geo_request_def
      split: reply.splits)

lemma steps_get_weather_data:
  "is_city_info c \<Longrightarrow> steps (fst (get_weather_data env c)) = [Retrieve]"
  by (simp add: get_weather_data_cases Let_def steps_def weather_request_def GEO_URL_def
      WEATHER_URL_def split: reply.splits)

lemma steps_get_weather_forecast:
  "is_city_info c \<Longrightarrow> steps (fst (get_weather_forecast env c)) = [Retrieve]"
  by (simp add: get_weather_forecast_cases Let_def steps_def weather_request_def GEO_URL_def
      FORECAST_URL_def split: reply.splits)

lemma steps_save_json:
  "io_error env f = None \<Longrightarrow>
   steps (fst (save_json env d f)) =
     (if f = COORDINATES_FILE then [PersistLocations] else [PersistWeather])"
  by (simp add: save_json_cases steps_def)

lemma steps_plot_forecast:
  "snd (plot_forecast env v n) = Inr () \<Longrightarrow>
   steps (fst (plot_forecast env v n)) = (if has_forecast_list v = Inr True then [Render] else [])"
  by (auto simp: plot_forecast_def fst_bind_io snd_bind_io lift_io_def emit_def steps_def
      split: sum.splits if_splits)

lemma steps_plot_temperatures:
  "steps (fst (plot_temperatures recs)) =
     (if recs \<noteq> [] \<and> snd (plot_temperatures recs) = Inr () then [Render, Render, Render, Display]
      else [])"
  by (auto simp: plot_temperatures_def fst_bind_io snd_bind_io lift_io_def emit_def steps_def
      split: sum.splits if_splits)

lemma has_forecast_list_falsy: "\<not> truthy v \<Longrightarrow> has_forecast_list v = Inr False"
  by (simp add: has_forecast_list_def)

lemma steps_forecast_pass:
  assumes "is_city_info c" and "plots_return env c"
  shows "steps (forecast_pass env c) = Retrieve # (if plotted env c then [Render] else [])"
  using assms
  by (auto simp: forecast_pass_def steps_get_weather_forecast plots_return_def plotted_def
      steps_plot_forecast has_forecast_list_falsy)


lemma writes_batch_info:
  assumes "\<forall>l \<in> set (user_locations user_input). \<exists>v. snd (get_coordinates_info env l) = Inr v"
    and "io_error env COORDINATES_FILE = None" and "io_error env WEATHER_DATA_FILE = None"
  shows "writes (fst (batch_info env user_input)) =
     [(COORDINATES_FILE, dumps env (PList (resolved (get_coordinates_info env) user_input))),
      (WEATHER_DATA_FILE,
       dumps env (PList (retrieved (get_weather_data env)
                           (resolved (get_coordinates_info env) user_input))))]"
proof -
  have infos: "\<forall>c \<in> set (resolved (get_coordinates_info env) user_input). is_city_info c"
    unfolding resolved_def
    by (rule resolved_city_info) (rule get_coordinates_info_city_info)
  show ?thesis
    using assms(2,3) infos
    by (simp add: batch_info_run [OF assms(1)] writes_concat writes_get_weather_data
        writes_save_json)
qed

lemma writes_batch_forecast:
  assumes "snd (batch_forecast env [] [] user_input) = Inr ()"
    and "io_error env COORDINATES_FILE = None" and "io_error env FORECAST_FILE = None"
  shows "writes (fst (batch_forecast env [] [] user_input)) =
     [(COORDINATES_FILE, dumps env (PList (resolved (get_coordinates_forecast env) user_input))),
      (FORECAST_FILE,
       dumps env (PList (retrieved (get_weather_forecast env)
                           (resolved (get_coordinates_forecast env) user_input))))]"
proof -
  have infos: "\<forall>c \<in> set (resolved (get_coordinates_forecast env) user_input). is_city_info c"
    unfolding resolved_def
    by (rule resolved_city_info) (rule get_coordinates_forecast_city_info)
  show ?thesis
    using assms(2,3) infos
    by (simp add: batch_forecast_run [OF assms(1)] writes_concat writes_forecast_pass
        writes_save_json)
qed

lemma batch_forecast_plots_return:
  assumes "snd (batch_forecast env [] [] user_input) = Inr ()"
  shows "\<forall>c \<in> set (resolved (get_coordinates_forecast env) user_input). plots_return env c"
proof -
  let ?gc = "get_coordinates_forecast env"
  let ?locs = "resolved ?gc user_input"
  have saved: "snd (save_json env d f) = Inr ()" for d f
    by (simp add: save_json_cases split: option.splits)
  from assms obtain out where
    "snd (resolve_loop ?gc [] (user_locations user_input)) = Inr out"
    unfolding batch_forecast_def by (auto simp: bind_io_returns)
  then have all: "\<forall>l \<in> set (user_locations user_input). \<exists>v. snd (?gc l) = Inr v"
    by (rule resolve_loop_returned)
  have loop1: "resolve_loop ?gc [] (user_locations user_input) =
                 (concat (map (\<lambda>l. fst (?gc l)) (user_locations user_input)), Inr ?locs)"
    by (simp add: resolve_loop_all_return [OF all] resolved_def)
  have infos: "\<forall>c \<in> set ?locs. is_city_info c"
    unfolding resolved_def
    by (rule resolved_city_info) (rule get_coordinates_forecast_city_info)
  from assms obtain out2 where "snd (forecast_loop env [] ?locs) = Inr out2"
    unfolding batch_forecast_def
    by (auto simp: loop1 bind_io_returns then_io_def saved emit_def)
  then show ?thesis
    using infos by (rule forecast_loop_returned)
qed

lemma steps_batch_info:
  assumes "\<forall>l \<in> set (user_locations user_input). \<exists>v. snd (get_coordinates_info env l) = Inr v"
    and "io_error env COORDINATES_FILE = None" and "io_error env WEATHER_DATA_FILE = None"
  shows "steps (fst (batch_info env user_input)) =
     replicate (length (user_locations user_input)) Resolve @ [PersistLocations] @
     replicate (length (resolved (get_coordinates_info env) user_input)) Retrieve @
     [PersistWeather] @
     steps (fst (plot_temperatures
                   (retrieved (get_weather_data env)
                      (resolved (get_coordinates_info env) user_input))))"
proof -
  have infos: "\<forall>c \<in> set (resolved (get_coordinates_info env) user_input). is_city_info c"
    unfolding resolved_def
    by (rule resolved_city_info) (rule get_coordinates_info_city_info)
  have ne: "WEATHER_DATA_FILE \<noteq> COORDINATES_FILE"
    by (simp add: WEATHER_DATA_FILE_def COORDINATES_FILE_def)
  show ?thesis
    using assms(2,3) infos ne
    by (simp add: batch_info_run [OF assms(1)] steps_concat steps_save_json
        concat_singletons steps_get_weather_data map_replicate_const)
qed

lemma steps_batch_forecast:
  assumes "snd (batch_forecast env [] [] user_input) = Inr ()"
    and "io_error env COORDINATES_FILE = None" and "io_error env FORECAST_FILE = None"
  shows "steps (fst (batch_forecast env [] [] user_input)) =
     replicate (length (user_locations user_input)) Resolve @ [PersistLocations] @
     concat (map (\<lambda>c. Retrieve # (if plotted env c then [Render] else []))
               (resolved (get_coordinates_forecast env) user_input)) @
     [Display, PersistWeather]"
proof -
  have infos: "\<forall>c \<in> set (resolved (get_coordinates_forecast env) user_input). is_city_info c"
    unfolding resolved_def
    by (rule resolved_city_info) (rule get_coordinates_forecast_city_info)
  have ne: "FORECAST_FILE \<noteq> COORDINATES_FILE"
    by (simp add: FORECAST_FILE_def COORDINATES_FILE_def)
  have passes: "map (\<lambda>c. steps (forecast_pass env c))
                  (resolved (get_coordinates_forecast env) user_input) =
                map (\<lambda>c. Retrieve # (if plotted env c then [Render] else []))
                  (resolved (get_coordinates_forecast env) user_input)"
    using infos batch_forecast_plots_return [OF assms(1)]
    by (intro map_cong refl) (simp add: steps_forecast_pass)
  have deco: "steps [Chart Subplots] = []"
    "steps [Chart (SetTitle TITLE_FORECAST 24), Chart (SetXLabel ''Dates'' 14),
            Chart (SetYLabel Y_LABEL_FORECAST 14), Chart AutofmtXDate, Chart Legend,
            Chart Show] = [Display]"
    by (simp_all add: steps_def)
  show ?thesis
    using assms(2,3) ne
    by (simp add: batch_forecast_run [OF assms(1)] steps_concat steps_save_json
        concat_singletons passes deco map_replicate_const del: append.simps)
qed


lemma concat_singletons_map:
  "(\<And>x. x \<in> set xs \<Longrightarrow> f x = [g x]) \<Longrightarrow> concat (map f xs) = map g xs"
  by (induction xs) simp_all

lemma requests_of_concat:
  "requests_of (concat (map f xs)) = concat (map (\<lambda>x. requests_of (f x)) xs)"
  by (induction xs) simp_all

lemma requests_get_coordinates_info [simp]:
  "requests_of (fst (get_coordinates_info env l)) = [geo_request env (Some REQUEST_TIMEOUT) l]"
  by (simp add: get_coordinates_info_cases Let_def split: reply.splits)

lemma requests_get_coordinates_forecast [simp]:
  "requests_of (fst (get_coordinates_forecast env l)) = [geo_request env None l]"
  by (simp add: get_coordinates_forecast_cases Let_def split: reply.splits)

lemma requests_get_weather_data:
  "is_city_info c \<Longrightarrow>
   requests_of (fst (get_weather_data env c)) =
     [weather_request env WEATHER_URL (Some REQUEST_TIMEOUT) c]"
  by (simp add: get_weather_data_cases Let_def split: reply.splits)

lemma requests_get_weather_forecast:
  "is_city_info c \<Longrightarrow>
   requests_of (fst (get_weather_forecast env c)) = [weather_request env FORECAST_URL None c]"
  by (simp add: get_weather_forecast_cases Let_def split: reply.splits)

lemma requests_plot_forecast [simp]: "requests_of (fst (plot_forecast env v n)) = []"
  by (simp add: plot_forecast_def fst_bind_io lift_io_def emit_def split: sum.splits)

lemma requests_plot_temperatures [simp]: "requests_of (fst (plot_temperatures recs)) = []"
  by (simp add: plot_temperatures_def fst_bind_io lift_io_def emit_def split: sum.splits)

lemma requests_save_json [simp]: "requests_of (fst (save_json env d f)) = []"
  by (simp add: save_json_cases split: option.splits)

lemma requests_forecast_pass:
  "is_city_info c \<Longrightarrow>
   requests_of (forecast_pass env c) = [weather_request env FORECAST_URL None c]"
  by (simp add: forecast_pass_def requests_get_weather_forecast)

lemma requests_batch_info:
  assumes "\<forall>l \<in> set (user_locations user_input). \<exists>v. snd (get_coordinates_info env l) = Inr v"
  shows "requests_of (fst (batch_info env user_input)) =
     map (geo_request env (Some REQUEST_TIMEOUT)) (user_locations user_input) @
     map (weather_request env WEATHER_URL (Some REQUEST_TIMEOUT))
       (resolved (get_coordinates_info env) user_input)"
proof -
  have infos: "\<forall>c \<in> set (resolved (get_coordinates_info env) user_input). is_city_info c"
    unfolding resolved_def
    by (rule resolved_city_info) (rule get_coordinates_info_city_info)
  show ?thesis
    using infos
    by (simp add: batch_info_run [OF assms] requests_of_concat concat_singletons_map
        requests_get_weather_data)
qed

lemma requests_batch_forecast:
  assumes "snd (batch_forecast env [] [] user_input) = Inr ()"
  shows "requests_of (fst (batch_forecast env [] [] user_input)) =
     map (geo_request env None) (user_locations user_input) @
     map (weather_request env FORECAST_URL None)
       (resolved (get_coordinates_forecast env) user_input)"
proof -
  have infos: "\<forall>c \<in> set (resolved (get_coordinates_forecast env) user_input). is_city_info c"
    unfolding resolved_def
    by (rule resolved_city_info) (rule get_coordinates_forecast_city_info)
  show ?thesis
    using infos
    by (simp add: batch_forecast_run [OF assms] requests_of_concat concat_singletons_map
        requests_forecast_pass)
qed

lemma forecast_file_written:
  assumes "snd (batch_forecast env [] [] user_input) = Inr ()"
    and "io_error env FORECAST_FILE = None"
  shows "(FORECAST_FILE,
          dumps env (PList (retrieved (get_weather_forecast env)
                              (resolved (get_coordinates_forecast env) user_input))))
         \<in> set (writes (fst (batch_forecast env [] [] user_input)))"
  using assms(2)
  by (simp add: batch_forecast_run [OF assms(1)] writes_save_json)

section \<open>What the calls return\<close>

lemma snd_get_coordinates_info:
  "snd (get_coordinates_info env l) =
     (case fetch env (geo_request env (Some REQUEST_TIMEOUT) l) of
        Raises k msg \<Rightarrow> Inr PNone
      | Undecodable st msg \<Rightarrow> Inr PNone
      | Decoded st data \<Rightarrow> if truthy data then first_candidate data else Inr PNone)"
  by (simp add: get_coordinates_info_cases Let_def split: reply.splits)

lemma snd_get_coordinates_forecast:
  "snd (get_coordinates_forecast env l) =
     (case fetch env (geo_request env None l) of
        Raises k msg \<Rightarrow> Inr PNone
      | Undecodable st msg \<Rightarrow> Inr PNone
      | Decoded st data \<Rightarrow> if truthy data then looped_candidate data else Inr PNone)"
  by (simp add: get_coordinates_forecast_cases Let_def split: reply.splits)

lemma returned_get_weather_data:
  "is_city_info c \<Longrightarrow>
   returned (get_weather_data env c) =
     (case fetch env (weather_request env WEATHER_URL (Some REQUEST_TIMEOUT) c) of
        Raises k msg \<Rightarrow> PNone
      | Undecodable st msg \<Rightarrow> PNone
      | Decoded st body \<Rightarrow> body)"
  by (simp add: get_weather_data_cases returned_def Let_def split: reply.splits)

lemma returned_get_weather_forecast:
  "is_city_info c \<Longrightarrow>
   returned (get_weather_forecast env c) =
     (case fetch env (weather_request env FORECAST_URL None c) of
        Raises k msg \<Rightarrow> PNone
      | Undecodable st msg \<Rightarrow> PNone
      | Decoded st body \<Rightarrow> body)"
  by (simp add: get_weather_forecast_cases returned_def Let_def split: reply.splits)

lemma is_city_info_info_of [simp]: "is_city_info (info_of n la lo co)"
  by (simp add: is_city_info_def info_of_def)

lemma extract_info_dict: "extract_info (PDict kvs) = Inr (location_of kvs)"
  by (simp add: extract_info_def location_of_def split: option.splits)

lemma extract_loop_dicts:
  "extract_loop acc (map PDict ds @ [PDict kvs]) = Inr (location_of kvs)"
  by (induction ds arbitrary: acc) (simp_all add: extract_info_dict)

text \<open>
  The resolver of \<^verbatim>\<open>city_weather_info.py\<close> maps the first candidate of a non-empty
  array of objects, with \<open>None\<close> for every field the candidate lacks.
\<close>

lemma get_coordinates_info_first:
  assumes "fetch env (geo_request env (Some REQUEST_TIMEOUT) l) =
             Decoded st (PList (PDict kvs # others))"
  shows "snd (get_coordinates_info env l) = Inr (location_of kvs)"
  using assms
  by (simp add: snd_get_coordinates_info first_candidate_def extract_info_dict)

text \<open>
  The resolver of \<^verbatim>\<open>city_weather_forecast.py\<close> maps the last candidate; with the one
  candidate that \<^verbatim>\<open>limit=1\<close> asks for, that is the first.
\<close>

lemma get_coordinates_forecast_last:
  assumes "fetch env (geo_request env None l) =
             Decoded st (PList (map PDict ds @ [PDict kvs]))"
  shows "snd (get_coordinates_forecast env l) = Inr (location_of kvs)"
  using assms
  by (simp add: snd_get_coordinates_forecast looped_candidate_def extract_loop_dicts)

lemma get_coordinates_forecast_single:
  assumes "fetch env (geo_request env None l) = Decoded st (PList [PDict kvs])"
  shows "snd (get_coordinates_forecast env l) = Inr (location_of kvs)"
  using get_coordinates_forecast_last [of env l st "[]" kvs] assms by simp

text \<open>
  A transport failure (\<open>Raises\<close>: a connection error, an HTTP error status, a timeout)
  or a body that does not decode: all four calls return \<open>None\<close> and print a line that
  names the city and carries the text of the exception; none raises.
\<close>

lemma resolver_failures_absorbed:
  "fetch env (geo_request env (Some REQUEST_TIMEOUT) l) = Raises k msg \<Longrightarrow>
     get_coordinates_info env l =
       ([Print (''Fetching coordinates for '' @ who_of l @ ''...''),
         HttpGet (geo_request env (Some REQUEST_TIMEOUT) l),
         Print (''Error fetching coordinates for '' @ who_of l @ '': '' @ msg),
         Sleep RATE_LIMIT_DELAY], Inr PNone)"
  "fetch env (geo_request env (Some REQUEST_TIMEOUT) l) = Undecodable st msg \<Longrightarrow>
     get_coordinates_info env l =
       ([Print (''Fetching coordinates for '' @ who_of l @ ''...''),
         HttpGet (geo_request env (Some REQUEST_TIMEOUT) l),
         Print (''Error decoding JSON response for '' @ who_of l @ '': '' @ msg),
         Sleep RATE_LIMIT_DELAY], Inr PNone)"
  "fetch env (geo_request env None l) = Raises k msg \<Longrightarrow>
     get_coordinates_forecast env l =
       ([Print (''Fetching coordinates for '' @ city_of l @ '','' @
                or_empty (country_of l) @ ''...''),
         HttpGet (geo_request env None l),
         Print (''Error fetching coordinates for '' @ who_of l @ '': '' @ msg),
         Sleep 1], Inr PNone)"
  "fetch env (geo_request env None l) = Undecodable st msg \<Longrightarrow>
     get_coordinates_forecast env l =
       ([Print (''Fetching coordinates for '' @ city_of l @ '','' @
                or_empty (country_of l) @ ''...''),
         HttpGet (geo_request env None l),
         Print (''Error decoding JSON response for coordinates of '' @ who_of l @ '': '' @ msg),
         Sleep 1], Inr PNone)"
  by (simp_all add: get_coordinates_info_cases get_coordinates_forecast_cases)

lemma retriever_failures_absorbed:
  "is_city_info c \<Longrightarrow>
   fetch env (weather_request env WEATHER_URL (Some REQUEST_TIMEOUT) c) = Raises k msg \<Longrightarrow>
     get_weather_data env c =
       ([Print (''Fetching weather data for '' @ format_val env (field c ''name'') @ ''...''),
         HttpGet (weather_request env WEATHER_URL (Some REQUEST_TIMEOUT) c),
         Print (''Error fetching weather data for '' @ format_val env (field c ''name'') @
                '': '' @ msg),
         Sleep RATE_LIMIT_DELAY], Inr PNone)"
  "is_city_info c \<Longrightarrow>
   fetch env (weather_request env WEATHER_URL (Some REQUEST_TIMEOUT) c) = Undecodable st msg \<Longrightarrow>
     get_weather_data env c =
       ([Print (''Fetching weather data for '' @ format_val env (field c ''name'') @ ''...''),
         HttpGet (weather_request env WEATHER_URL (Some REQUEST_TIMEOUT) c),
         Print (''Error decoding JSON response for '' @ format_val env (field c ''name'') @
                '': '' @ msg),
         Sleep RATE_LIMIT_DELAY], Inr PNone)"
  "is_city_info c \<Longrightarrow>
   fetch env (weather_request env FORECAST_URL None c) = Raises k msg \<Longrightarrow>
     get_weather_forecast env c =
       ([Print (''Fetching weather forecast for '' @ format_val env (field c ''name'')),
         HttpGet (weather_request env FORECAST_URL None c),
         Print (''Error fetching weather for '' @ format_val env (field c ''name'') @
                '': '' @ msg)], Inr PNone)"
  "is_city_info c \<Longrightarrow>
   fetch env (weather_request env FORECAST_URL None c) = Undecodable st msg \<Longrightarrow>
     get_weather_forecast env c =
       ([Print (''Fetching weather forecast for '' @ format_val env (field c ''name'')),
         HttpGet (weather_request env FORECAST_URL None c),
         Print (''Error decoding JSON response for weather in '' @
                format_val env (field c ''name'') @ '': '' @ msg)], Inr PNone)"
  by (simp_all add: get_weather_data_cases get_weather_forecast_cases Let_def)

lemma batch_forecast_returns:
  assumes "\<forall>l \<in> set (user_locations user_input). \<exists>v. snd (get_coordinates_forecast env l) = Inr v"
    and "\<forall>c \<in> set (resolved (get_coordinates_forecast env) user_input). plots_return env c"
  shows "snd (batch_forecast env [] [] user_input) = Inr ()"
proof -
  let ?gc = "get_coordinates_forecast env"
  have saved: "snd (save_json env d f) = Inr ()" for d f
    by (simp add: save_json_cases split: option.splits)
  have infos: "\<forall>c \<in> set (resolved ?gc user_input). is_city_info c"
    unfolding resolved_def
    by (rule resolved_city_info) (rule get_coordinates_forecast_city_info)
  show ?thesis
    unfolding batch_forecast_def
    by (simp add: resolve_loop_all_return [OF assms(1)] resolved_def [symmetric]
        forecast_loop_all [OF infos assms(2)] bind_io_def then_io_def saved emit_def)
qed

lemma has_forecast_list_no_list:
  "\<forall>l. map_of kvs ''list'' = Some l \<longrightarrow> \<not> truthy l \<Longrightarrow> has_forecast_list (PDict kvs) = Inr False"
  by (auto simp: has_forecast_list_def split: option.splits)

lemma py_split_rejoin: "concat (map (\<lambda>p. p @ [sep]) (py_split sep s)) = s @ [sep]"
  by (induction s) (auto split: list.splits)

lemma py_split_no_sep: "p \<in> set (py_split sep s) \<Longrightarrow> sep \<notin> set p"
  by (induction s arbitrary: p) (auto split: list.splits if_splits)

section \<open>The rate limit of the resolver\<close>

text \<open>
  Claim C3. Every call of the resolver, in both scripts and whatever the service
  answers (a candidate, an empty array, a transport error, a body that does not decode,
  or a body on which the mapping raises), first sends its request and ends its trace
  with the sleep of one second: the delay runs before control returns to the caller.
\<close>

theorem resolver_always_sleeps_last:
  "(\<exists>pre. fst (get_coordinates_info env location) = pre @ [Sleep RATE_LIMIT_DELAY] \<and>
          HttpGet (geo_request env (Some REQUEST_TIMEOUT) location) \<in> set pre \<and>
          Sleep RATE_LIMIT_DELAY \<notin> set pre) \<and>
   (\<exists>pre. fst (get_coordinates_forecast env location) = pre @ [Sleep 1] \<and>
          HttpGet (geo_request env None location) \<in> set pre \<and> Sleep 1 \<notin> set pre) \<and>
   RATE_LIMIT_DELAY = 1"
  by (simp add: get_coordinates_info_cases get_coordinates_forecast_cases Let_def
      RATE_LIMIT_DELAY_def split: reply.splits)

section \<open>The renderers on empty input\<close>

text \<open>
  Claim C9. When the forecast response is a dictionary whose \<open>list\<close> is missing or
  empty, \<open>plot_forecast\<close> plots nothing, prints the notice and returns; on no snapshots
  at all, \<open>plot_temperatures\<close> prints its notice and returns without a call to the chart.
\<close>

theorem renderers_skip_empty_input:
  "((\<forall>l. map_of kvs ''list'' = Some l \<longrightarrow> \<not> truthy l) \<longrightarrow>
      plot_forecast env (PDict kvs) city_name =
        ([Print (''No forecast data available for '' @ format_val env city_name @ ''.'')],
         Inr ())) \<and>
   plot_temperatures [] = ([Print ''No weather data to plot.''], Inr ())"
  by (auto simp: plot_forecast_def has_forecast_list_def plot_temperatures_def lift_io_def
      emit_def split: option.splits)

theorem renderers_skip_empty_input_witness:
  "plot_forecast demo_env rome_forecast (PStr ''Rome'') =
     ([Print ''No forecast data available for Rome.''], Inr ()) \<and>
   plot_forecast demo_env (PDict [(''cod'', PStr ''404'')]) (PStr ''Oslo'') =
     ([Print ''No forecast data available for Oslo.''], Inr ()) \<and>
   plot_temperatures [] = ([Print ''No weather data to plot.''], Inr ())"
  using renderers_skip_empty_input [of "[(''cod'', PStr ''200''), (''list'', PList [])]"
          demo_env "PStr ''Rome''"]
        renderers_skip_empty_input [of "[(''cod'', PStr ''404'')]" demo_env "PStr ''Oslo''"]
  by (simp add: rome_forecast_def format_val_def)

section \<open>The sample world, call by call\<close>

lemmas demo_calls =
  snd_get_coordinates_info snd_get_coordinates_forecast returned_get_weather_data
  returned_get_weather_forecast first_candidate_def looped_candidate_def extract_info_def
  resolved_def retrieved_def returned_def

lemmas plot_defs =
  plot_forecast_def plot_temperatures_def has_forecast_list_def parse_date_def main_temp_def
  bind_io_def lift_io_def emit_def

lemma demo_returns_info:
  "snd (get_coordinates_info demo_env ''London,GB'') = Inr london_info"
  "snd (get_coordinates_info demo_env ''Paris'') = Inr paris_info"
  "snd (get_coordinates_info demo_env ''Oslo'') = Inr oslo_info"
  "snd (get_coordinates_info demo_env ''Rome'') = Inr rome_info"
  "snd (get_coordinates_info demo_env ''Nowhereville'') = Inr PNone"
  by (simp_all add: demo_calls demo_world string_ops)

lemma demo_returns_forecast:
  "snd (get_coordinates_forecast demo_env ''London,GB'') =
     Inr london_info"
  "snd (get_coordinates_forecast demo_env ''Paris'') = Inr paris_info"
  "snd (get_coordinates_forecast demo_env ''Oslo'') = Inr oslo_info"
  "snd (get_coordinates_forecast demo_env ''Rome'') = Inr rome_info"
  "snd (get_coordinates_forecast demo_env ''Nowhereville'') = Inr PNone"
  by (simp_all add: demo_calls demo_world string_ops)

lemma demo_city_infos [simp]:
  "is_city_info london_info" "is_city_info paris_info" "is_city_info oslo_info"
  "is_city_info rome_info"
  by (simp_all add: london_info_def paris_info_def oslo_info_def rome_info_def)

lemma demo_truthy [simp]:
  "truthy london_info" "truthy paris_info" "truthy oslo_info" "truthy rome_info"
  "truthy london_weather" "truthy london_forecast" "truthy rome_forecast"
  by (simp_all add: is_city_info_truthy london_weather_def london_forecast_def
      rome_forecast_def)

lemma demo_weather_data:
  "returned (get_weather_data demo_env london_info) = london_weather"
  "returned (get_weather_data demo_env paris_info) = PNone"
  "returned (get_weather_data demo_env oslo_info) = PDict []"
  "returned (get_weather_data demo_env rome_info) = PDict []"
  by (simp_all add: returned_get_weather_data) (simp_all add: demo_world)

lemma demo_weather_forecast:
  "returned (get_weather_forecast demo_env london_info) =
     london_forecast"
  "returned (get_weather_forecast demo_env paris_info) = PNone"
  "returned (get_weather_forecast demo_env oslo_info) = PDict []"
  "returned (get_weather_forecast demo_env rome_info) = rome_forecast"
  by (simp_all add: returned_get_weather_forecast) (simp_all add: demo_world)

lemma demo_locations:
  "user_locations ''London,GB;Nowhereville;Paris'' = [''London,GB'', ''Nowhereville'', ''Paris'']"
  "user_locations ''Paris;Oslo'' = [''Paris'', ''Oslo'']"
  "user_locations ''London,GB;Rome;Oslo'' = [''London,GB'', ''Rome'', ''Oslo'']"
  "user_locations ''Rome'' = [''Rome'']"
  by (simp_all add: user_locations_def py_strip_def is_space_def)

lemma demo_resolved:
  "resolved (get_coordinates_info demo_env) ''London,GB;Nowhereville;Paris'' =
     [london_info, paris_info]"
  "resolved (get_coordinates_forecast demo_env) ''London,GB;Nowhereville;Paris'' =
     [london_info, paris_info]"
  "resolved (get_coordinates_info demo_env) ''Paris;Oslo'' =
     [paris_info, oslo_info]"
  "resolved (get_coordinates_info demo_env) ''London,GB;Rome;Oslo'' =
     [london_info, rome_info,
      oslo_info]"
  "resolved (get_coordinates_forecast demo_env) ''London,GB;Rome;Oslo'' =
     [london_info, rome_info,
      oslo_info]"
  "resolved (get_coordinates_forecast demo_env) ''Rome'' = [rome_info]"
  by (simp_all add: resolved_def returned_def demo_locations demo_returns_info
      demo_returns_forecast)

lemma demo_plots:
  "snd (plot_forecast demo_env london_forecast n) = Inr ()"
  "snd (plot_forecast demo_env rome_forecast n) = Inr ()"
  "has_forecast_list london_forecast = Inr True"
  "has_forecast_list rome_forecast = Inr False"
  "has_forecast_list (PDict []) = Inr False"
  "snd (plot_temperatures [london_weather]) = Inr ()"
  by (simp_all add: plot_defs london_forecast_def rome_forecast_def london_weather_def
      demo_env_def)

lemma demo_plots_return:
  "plots_return demo_env london_info"
  "plots_return demo_env paris_info"
  "plots_return demo_env oslo_info"
  "plots_return demo_env rome_info"
  by (simp_all add: plots_return_def demo_weather_forecast demo_plots)

lemma demo_plotted:
  "plotted demo_env london_info"
  "\<not> plotted demo_env paris_info"
  "\<not> plotted demo_env oslo_info"
  "\<not> plotted demo_env rome_info"
  by (simp_all add: plotted_def demo_weather_forecast demo_plots has_forecast_list_falsy)

lemma demo_batch_forecast_returns:
  "snd (batch_forecast demo_env [] [] ''London,GB;Nowhereville;Paris'') = Inr ()"
  "snd (batch_forecast demo_env [] [] ''London,GB;Rome;Oslo'') = Inr ()"
  "snd (batch_forecast demo_env [] [] ''Rome'') = Inr ()"
  by (rule batch_forecast_returns;
      simp add: demo_locations demo_resolved demo_returns_forecast demo_plots_return)+

lemma demo_io [simp]: "io_error demo_env f = None" "dumps demo_env = demo_dumps"
  by (simp_all add: demo_env_def)

section \<open>Failures within one batch\<close>

text \<open>
  What a batch does when no call raises. A query whose resolution returns nothing is
  skipped and the loop goes on with the next one, the list unchanged. When every call
  of the resolver returns, \<^verbatim>\<open>city_weather_info.py\<close> writes two files: the locations
  that resolved, in the order of the queries, and the weather values that pass the truth
  test of \<^verbatim>\<open>main\<close>, in the order of their locations; it sends one geocoding request
  per query and one weather request per resolved location. The same holds for
  \<^verbatim>\<open>city_weather_forecast.py\<close> when the batch runs to its end.
\<close>

lemma failures_skip_one_city_only:
  "(snd (gc l) = Inr v \<and> \<not> truthy v \<longrightarrow>
      resolve_loop gc acc (l # ls) =
        (fst (gc l) @ fst (resolve_loop gc acc ls), snd (resolve_loop gc acc ls))) \<and>
   ((\<forall>l \<in> set (user_locations user_input). \<exists>v. snd (get_coordinates_info env l) = Inr v) \<and>
    io_error env COORDINATES_FILE = None \<and> io_error env WEATHER_DATA_FILE = None \<longrightarrow>
      writes (fst (batch_info env user_input)) =
        [(COORDINATES_FILE, dumps env (PList (resolved (get_coordinates_info env) user_input))),
         (WEATHER_DATA_FILE,
          dumps env (PList (retrieved (get_weather_data env)
                              (resolved (get_coordinates_info env) user_input))))] \<and>
      requests_of (fst (batch_info env user_input)) =
        map (geo_request env (Some REQUEST_TIMEOUT)) (user_locations user_input) @
        map (weather_request env WEATHER_URL (Some REQUEST_TIMEOUT))
          (resolved (get_coordinates_info env) user_input)) \<and>
   (snd (batch_forecast env [] [] user_input) = Inr () \<and>
    io_error env COORDINATES_FILE = None \<and> io_error env FORECAST_FILE = None \<longrightarrow>
      writes (fst (batch_forecast env [] [] user_input)) =
        [(COORDINATES_FILE,
          dumps env (PList (resolved (get_coordinates_forecast env) user_input))),
         (FORECAST_FILE,
          dumps env (PList (retrieved (get_weather_forecast env)
                              (resolved (get_coordinates_forecast env) user_input))))] \<and>
      requests_of (fst (batch_forecast env [] [] user_input)) =
        map (geo_request env None) (user_locations user_input) @
        map (weather_request env FORECAST_URL None)
          (resolved (get_coordinates_forecast env) user_input))"
proof (intro conjI impI)
  assume "snd (gc l) = Inr v \<and> \<not> truthy v"
  then show "resolve_loop gc acc (l # ls) =
               (fst (gc l) @ fst (resolve_loop gc acc ls), snd (resolve_loop gc acc ls))"
    by (simp add: bind_io_def)
next
  assume a: "(\<forall>l \<in> set (user_locations user_input).
                \<exists>v. snd (get_coordinates_info env l) = Inr v) \<and>
    io_error env COORDINATES_FILE = None \<and> io_error env WEATHER_DATA_FILE = None"
  then show "writes (fst (batch_info env user_input)) =
        [(COORDINATES_FILE, dumps env (PList (resolved (get_coordinates_info env) user_input))),
         (WEATHER_DATA_FILE,
          dumps env (PList (retrieved (get_weather_data env)
                              (resolved (get_coordinates_info env) user_input))))]"
    by (simp add: writes_batch_info)
  from a show "requests_of (fst (batch_info env user_input)) =
        map (geo_request env (Some REQUEST_TIMEOUT)) (user_locations user_input) @
        map (weather_request env WEATHER_URL (Some REQUEST_TIMEOUT))
          (resolved (get_coordinates_info env) user_input)"
    by (simp add: requests_batch_info)
next
  assume a: "snd (batch_forecast env [] [] user_input) = Inr () \<and>
    io_error env COORDINATES_FILE = None \<and> io_error env FORECAST_FILE = None"
  then show "writes (fst (batch_forecast env [] [] user_input)) =
        [(COORDINATES_FILE,
          dumps env (PList (resolved (get_coordinates_forecast env) user_input))),
         (FORECAST_FILE,
          dumps env (PList (retrieved (get_weather_forecast env)
                              (resolved (get_coordinates_forecast env) user_input))))]"
    by (simp add: writes_batch_forecast)
  from a show "requests_of (fst (batch_forecast env [] [] user_input)) =
        map (geo_request env None) (user_locations user_input) @
        map (weather_request env FORECAST_URL None)
          (resolved (get_coordinates_forecast env) user_input)"
    by (simp add: requests_batch_forecast)
qed

text \<open>
  The batch \<open>London,GB;Nowhereville;Paris\<close>: Nowhereville does not resolve, the
  retrieval for Paris fails, the one for London succeeds.
\<close>

lemma failures_skip_one_city_only_witness:
  "resolve_loop (get_coordinates_info demo_env) [london_info] [''Nowhereville'', ''Paris''] =
     (fst (get_coordinates_info demo_env ''Nowhereville'') @
      fst (resolve_loop (get_coordinates_info demo_env) [london_info] [''Paris'']),
      snd (resolve_loop (get_coordinates_info demo_env) [london_info] [''Paris''])) \<and>
   writes (fst (batch_info demo_env ''London,GB;Nowhereville;Paris'')) =
     [(COORDINATES_FILE, demo_dumps (PList [london_info, paris_info])),
      (WEATHER_DATA_FILE, demo_dumps (PList [london_weather]))] \<and>
   requests_of (fst (batch_info demo_env ''London,GB;Nowhereville;Paris'')) =
     [geo_request demo_env (Some REQUEST_TIMEOUT) ''London,GB'',
      geo_request demo_env (Some REQUEST_TIMEOUT) ''Nowhereville'',
      geo_request demo_env (Some REQUEST_TIMEOUT) ''Paris'',
      weather_request demo_env WEATHER_URL (Some REQUEST_TIMEOUT) london_info,
      weather_request demo_env WEATHER_URL (Some REQUEST_TIMEOUT) paris_info] \<and>
   writes (fst (batch_forecast demo_env [] [] ''London,GB;Nowhereville;Paris'')) =
     [(COORDINATES_FILE, demo_dumps (PList [london_info, paris_info])),
      (FORECAST_FILE, demo_dumps (PList [london_forecast]))] \<and>
   requests_of (fst (batch_forecast demo_env [] [] ''London,GB;Nowhereville;Paris'')) =
     [geo_request demo_env None ''London,GB'', geo_request demo_env None ''Nowhereville'',
      geo_request demo_env None ''Paris'',
      weather_request demo_env FORECAST_URL None london_info,
      weather_request demo_env FORECAST_URL None paris_info]"
  using failures_skip_one_city_only [of "get_coordinates_info demo_env" "''Nowhereville''" PNone
      "[london_info]" "[''Paris'']" "''London,GB;Nowhereville;Paris''" demo_env]
  by (simp add: demo_locations demo_resolved demo_returns_info demo_batch_forecast_returns
      retrieved_def demo_weather_data demo_weather_forecast)

lemma writes_forecast_loop:
  "\<forall>c \<in> set cs. is_city_info c \<Longrightarrow> writes (fst (forecast_loop env acc cs)) = []"
proof (induction cs arbitrary: acc)
  case Nil
  then show ?case by (simp add: return_io_def)
next
  case (Cons c cs)
  then have c: "is_city_info c" and rest: "\<forall>c \<in> set cs. is_city_info c"
    by simp_all
  show ?case
    using Cons.IH [OF rest]
    by (simp add: fst_bind_io then_io_def lift_io_def writes_get_weather_forecast [OF c]
        split: sum.splits)
qed

lemma batch_forecast_aborted:
  assumes "\<forall>l \<in> set (user_locations user_input). \<exists>v. snd (get_coordinates_forecast env l) = Inr v"
    and "snd (forecast_loop env [] (resolved (get_coordinates_forecast env) user_input)) = Inl e"
  shows "snd (batch_forecast env [] [] user_input) = Inl e"
    and "writes (fst (batch_forecast env [] [] user_input)) =
           writes (fst (save_json env (PList (resolved (get_coordinates_forecast env) user_input))
                          COORDINATES_FILE))"
proof -
  let ?gc = "get_coordinates_forecast env"
  have saved: "snd (save_json env d f) = Inr ()" for d f
    by (simp add: save_json_cases split: option.splits)
  have infos: "\<forall>c \<in> set (resolved ?gc user_input). is_city_info c"
    unfolding resolved_def
    by (rule resolved_city_info) (rule get_coordinates_forecast_city_info)
  have loop1: "resolve_loop ?gc [] (user_locations user_input) =
                 (concat (map (\<lambda>l. fst (?gc l)) (user_locations user_input)),
                  Inr (resolved ?gc user_input))"
    by (simp add: resolve_loop_all_return [OF assms(1)] resolved_def)
  show "snd (batch_forecast env [] [] user_input) = Inl e"
    unfolding batch_forecast_def
    by (simp add: loop1 snd_bind_io then_io_def saved emit_def assms(2))
  show "writes (fst (batch_forecast env [] [] user_input)) =
           writes (fst (save_json env (PList (resolved ?gc user_input)) COORDINATES_FILE))"
    unfolding batch_forecast_def
    by (simp add: loop1 fst_bind_io then_io_def saved emit_def assms(2)
        writes_forecast_loop [OF infos] writes_concat)
qed


lemma odd_resolver:
  "get_coordinates_info odd_env ''Atlantis'' =
     ([Print ''Fetching coordinates for Atlantis, ...'',
       HttpGet (geo_request odd_env (Some REQUEST_TIMEOUT) ''Atlantis''),
       Sleep RATE_LIMIT_DELAY], Inl KeyError)"
  "snd (get_coordinates_forecast odd_env ''Atlantis'') = Inl AttributeError"
  "snd (get_coordinates_forecast odd_env ''Paris'') = Inr paris_info"
  "snd (get_coordinates_forecast odd_env ''London,GB'') = Inr london_info"
  "snd (get_coordinates_forecast odd_env ''Rome'') = Inr rome_info"
  by (simp_all add: get_coordinates_info_cases snd_get_coordinates_forecast first_candidate_def
      looped_candidate_def extract_info_def odd_world demo_world string_ops)

lemma odd_retriever:
  "snd (get_weather_forecast odd_env paris_info) = Inr PNone"
  "snd (get_weather_forecast odd_env london_info) = Inr london_forecast"
  "snd (get_weather_forecast odd_env rome_info) = Inr odd_rome_forecast"
  by (simp_all add: get_weather_forecast_returns returned_get_weather_forecast)
     (simp_all add: odd_world demo_world)

lemma odd_plots:
  "snd (plot_forecast odd_env london_forecast n) = Inr ()"
  "snd (plot_forecast odd_env odd_rome_forecast n) = Inl KeyError"
  by (simp_all add: plot_defs london_forecast_def odd_rome_forecast_def odd_env_def demo_env_def)

lemma odd_locations:
  "user_locations ''Atlantis;London,GB'' = [''Atlantis'', ''London,GB'']"
  "user_locations ''Paris;London,GB;Rome'' = [''Paris'', ''London,GB'', ''Rome'']"
  by (simp_all add: user_locations_def py_strip_def is_space_def)

lemma odd_resolved:
  "resolved (get_coordinates_forecast odd_env) ''Paris;London,GB;Rome'' =
     [paris_info, london_info, rome_info]"
  by (simp add: resolved_def returned_def odd_locations odd_resolver)

lemma odd_names:
  "py_getitem london_info ''name'' = Inr (PStr ''London'')"
  "py_getitem rome_info ''name'' = Inr (PStr ''Rome'')"
  by (simp_all add: london_info_def rome_info_def info_of_def)

lemma odd_truthy [simp]: "truthy odd_rome_forecast"
  by (simp add: odd_rome_forecast_def)

lemma odd_forecast_loop:
  "snd (forecast_loop odd_env [] [paris_info, london_info, rome_info]) = Inl KeyError"
  by (simp add: snd_bind_io then_io_def lift_io_def odd_retriever odd_plots odd_names)

text \<open>
  Claim C1. A failure that is an exception other than the two the \<^verbatim>\<open>except\<close> clauses
  name is not confined to its city. In \<^verbatim>\<open>city_weather_info.py\<close>, when the geocoder
  answers for Atlantis with a JSON object, \<^verbatim>\<open>data[0]\<close> raises \<^verbatim>\<open>KeyError\<close>, which
  leaves \<^verbatim>\<open>get_coordinates\<close>, the batch and \<^verbatim>\<open>main\<close>: London, the next query, is
  never resolved and no file is written. In \<^verbatim>\<open>city_weather_forecast.py\<close> the same
  reply ends the batch with \<^verbatim>\<open>AttributeError\<close>. And in its batch
  \<open>Paris;London,GB;Rome\<close> the retrieval fails for Paris and succeeds for London, then
  \<^verbatim>\<open>plot_forecast\<close> raises \<^verbatim>\<open>KeyError\<close> on the forecast of Rome, whose item has no
  \<open>dt_txt\<close>: the batch ends there, only the locations file is written, and the record
  of London is in no weather file.
\<close>

theorem odd_response_aborts_the_batch:
  "batch_info odd_env ''Atlantis;London,GB'' =
     ([Print ''Fetching coordinates for Atlantis, ...'',
       HttpGet (geo_request odd_env (Some REQUEST_TIMEOUT) ''Atlantis''),
       Sleep RATE_LIMIT_DELAY], Inl KeyError) \<and>
   snd (main_info odd_env [''Atlantis;London,GB'', ''quit'']) = Inl KeyError \<and>
   snd (batch_forecast odd_env [] [] ''Atlantis;London,GB'') = Inl AttributeError \<and>
   snd (get_weather_forecast odd_env paris_info) = Inr PNone \<and>
   snd (get_weather_forecast odd_env london_info) = Inr london_forecast \<and>
   snd (batch_forecast odd_env [] [] ''Paris;London,GB;Rome'') = Inl KeyError \<and>
   map fst (writes (fst (batch_forecast odd_env [] [] ''Paris;London,GB;Rome''))) =
     [COORDINATES_FILE]"
proof -
  have info: "batch_info odd_env ''Atlantis;London,GB'' =
     ([Print ''Fetching coordinates for Atlantis, ...'',
       HttpGet (geo_request odd_env (Some REQUEST_TIMEOUT) ''Atlantis''),
       Sleep RATE_LIMIT_DELAY], Inl KeyError)"
    by (simp add: batch_info_def odd_locations odd_resolver)
  then have main: "snd (main_info odd_env [''Atlantis;London,GB'', ''quit'']) = Inl KeyError"
    by (simp add: then_io_def emit_def)
  have early: "snd (batch_forecast odd_env [] [] ''Atlantis;London,GB'') = Inl AttributeError"
    by (simp add: batch_forecast_def odd_locations snd_bind_io odd_resolver)
  have all: "\<forall>l \<in> set (user_locations ''Paris;London,GB;Rome'').
               \<exists>v. snd (get_coordinates_forecast odd_env l) = Inr v"
    by (simp add: odd_locations odd_resolver)
  have loop: "snd (forecast_loop odd_env []
                     (resolved (get_coordinates_forecast odd_env) ''Paris;London,GB;Rome'')) =
                Inl KeyError"
    by (simp only: odd_resolved odd_forecast_loop)
  have io: "io_error odd_env COORDINATES_FILE = None"
    by (simp add: odd_env_def demo_env_def)
  from batch_forecast_aborted [OF all loop] io
  have late: "snd (batch_forecast odd_env [] [] ''Paris;London,GB;Rome'') = Inl KeyError"
    "map fst (writes (fst (batch_forecast odd_env [] [] ''Paris;London,GB;Rome''))) =
       [COORDINATES_FILE]"
    by (simp_all add: writes_save_json)
  from info main early late show ?thesis
    by (simp add: odd_retriever)
qed

section \<open>The candidate the resolver returns\<close>

text \<open>
  Claim C2. On a geocoding array with two candidates, \<^verbatim>\<open>get_coordinates\<close> of
  \<^verbatim>\<open>city_weather_forecast.py\<close> returns the Location of the second: its loop assigns
  \<^verbatim>\<open>extracted_info\<close> once per candidate and returns after the loop, under the comment
  ``Assume first result is best''. \<^verbatim>\<open>city_weather_info.py\<close> returns the Location of
  the first, \<^verbatim>\<open>data[0]\<close>. In both, a field the candidate lacks (here \<open>state\<close>) is
  \<open>None\<close>.
\<close>

theorem forecast_resolver_returns_last_candidate:
  "fetch demo_env (geo_request demo_env None ''Springfield'') =
     Decoded 200 (PList [candidate ''Springfield'' 39.8 (-89.64) ''US'',
                         candidate ''Springfield'' 37.21 (-93.29) ''US'']) \<and>
   snd (get_coordinates_forecast demo_env ''Springfield'') =
     Inr (info_of ''Springfield'' 37.21 (-93.29) ''US'') \<and>
   snd (get_coordinates_info demo_env ''Springfield'') =
     Inr (info_of ''Springfield'' 39.8 (-89.64) ''US'')"
  by (simp add: demo_calls demo_world string_ops)

section \<open>The timeout of the requests\<close>

text \<open>
  Claim C4. The requests of \<^verbatim>\<open>city_weather_forecast.py\<close>, for the coordinates and for
  the forecast, carry no timeout, so nothing bounds the call when the service does not
  answer; those of \<^verbatim>\<open>city_weather_info.py\<close> carry \<^verbatim>\<open>REQUEST_TIMEOUT\<close>, ten seconds.
  (What the four calls do once an exception is raised is \<open>resolver_failures_absorbed\<close>
  and \<open>retriever_failures_absorbed\<close>.)
\<close>

theorem forecast_requests_have_no_timeout:
  "map timeout (requests_of (fst (get_coordinates_forecast demo_env ''London,GB''))) = [None] \<and>
   map timeout (requests_of (fst (get_weather_forecast demo_env london_info))) = [None] \<and>
   map timeout (requests_of (fst (get_coordinates_info demo_env ''London,GB''))) = [Some 10] \<and>
   map timeout (requests_of (fst (get_weather_data demo_env london_info))) = [Some 10]"
  by (simp add: requests_get_weather_forecast requests_get_weather_data geo_request_def
      weather_request_def REQUEST_TIMEOUT_def)

section \<open>The order of the effects of a batch\<close>

text \<open>
  Claim C5, against the claim as stated. The batch \<open>London,GB;Rome;Oslo\<close>. In
  \<^verbatim>\<open>city_weather_info.py\<close> the locations file is written before any weather request
  is sent. In \<^verbatim>\<open>city_weather_forecast.py\<close> it is too, and the series of London is
  handed to the chart and the chart is shown before the weather file is written.
\<close>

theorem locations_saved_before_retrieval:
  "steps (fst (batch_info demo_env ''London,GB;Rome;Oslo'')) =
     [Resolve, Resolve, Resolve, PersistLocations, Retrieve, Retrieve, Retrieve,
      PersistWeather, Render, Render, Render, Display] \<and>
   steps (fst (batch_forecast demo_env [] [] ''London,GB;Rome;Oslo'')) =
     [Resolve, Resolve, Resolve, PersistLocations, Retrieve, Render, Retrieve, Retrieve,
      Display, PersistWeather]"
proof -
  have all: "\<forall>l \<in> set (user_locations ''London,GB;Rome;Oslo'').
               \<exists>v. snd (get_coordinates_info demo_env l) = Inr v"
    by (simp add: demo_locations demo_returns_info)
  have info: "steps (fst (batch_info demo_env ''London,GB;Rome;Oslo'')) =
     [Resolve, Resolve, Resolve, PersistLocations, Retrieve, Retrieve, Retrieve,
      PersistWeather, Render, Render, Render, Display]"
    by (simp add: steps_batch_info [OF all] demo_locations demo_resolved retrieved_def
        demo_weather_data steps_plot_temperatures demo_plots numeral_3_eq_3)
  have forecast: "steps (fst (batch_forecast demo_env [] [] ''London,GB;Rome;Oslo'')) =
     [Resolve, Resolve, Resolve, PersistLocations, Retrieve, Render, Retrieve, Retrieve,
      Display, PersistWeather]"
    by (simp add: steps_batch_forecast demo_batch_forecast_returns demo_locations
        demo_resolved demo_plotted numeral_3_eq_3)
  from info forecast show ?thesis by simp
qed

text \<open>
  Claim C5, as amended. In a batch in which every call of the resolver returns, and the
  two writes succeed, \<^verbatim>\<open>city_weather_info.py\<close> sends the geocoding requests of all
  queries, then writes the locations file, then sends one weather request per resolved
  location, then writes the weather file, and only then draws the bars and shows the
  chart. \<^verbatim>\<open>city_weather_forecast.py\<close>, in a batch that runs to its end, sends the
  geocoding requests of all queries, then writes the locations file, then for each
  resolved location in turn sends the forecast request and, when the response has a
  non-empty \<open>list\<close>, hands its series to the chart; then it shows the chart, and last
  it writes the weather file.
\<close>

theorem batch_effect_order:
  "((\<forall>l \<in> set (user_locations user_input). \<exists>v. snd (get_coordinates_info env l) = Inr v) \<and>
    io_error env COORDINATES_FILE = None \<and> io_error env WEATHER_DATA_FILE = None \<longrightarrow>
      steps (fst (batch_info env user_input)) =
        replicate (length (user_locations user_input)) Resolve @ [PersistLocations] @
        replicate (length (resolved (get_coordinates_info env) user_input)) Retrieve @
        [PersistWeather] @
        (if retrieved (get_weather_data env) (resolved (get_coordinates_info env) user_input)
              \<noteq> [] \<and>
            snd (plot_temperatures
                   (retrieved (get_weather_data env)
                      (resolved (get_coordinates_info env) user_input))) = Inr ()
         then [Render, Render, Render, Display] else [])) \<and>
   (snd (batch_forecast env [] [] user_input) = Inr () \<and>
    io_error env COORDINATES_FILE = None \<and> io_error env FORECAST_FILE = None \<longrightarrow>
      steps (fst (batch_forecast env [] [] user_input)) =
        replicate (length (user_locations user_input)) Resolve @ [PersistLocations] @
        concat (map (\<lambda>c. Retrieve # (if plotted env c then [Render] else []))
                  (resolved (get_coordinates_forecast env) user_input)) @
        [Display, PersistWeather])"
  by (simp add: steps_batch_info steps_batch_forecast steps_plot_temperatures)

theorem batch_effect_order_witness:
  "steps (fst (batch_info demo_env ''London,GB;Nowhereville;Paris'')) =
     [Resolve, Resolve, Resolve, PersistLocations, Retrieve, Retrieve, PersistWeather,
      Render, Render, Render, Display] \<and>
   steps (fst (batch_forecast demo_env [] [] ''London,GB;Nowhereville;Paris'')) =
     [Resolve, Resolve, Resolve, PersistLocations, Retrieve, Render, Retrieve, Display,
      PersistWeather]"
  using batch_effect_order [of "''London,GB;Nowhereville;Paris''" demo_env]
  by (simp add: demo_locations demo_resolved demo_returns_info demo_batch_forecast_returns
      retrieved_def demo_weather_data demo_plots demo_plotted numeral_3_eq_3)

section \<open>Empty input\<close>

lemma py_split_no_sep_in: "sep \<notin> set s \<Longrightarrow> py_split sep s = [s]"
  by (induction s) auto

lemma py_strip_spaces:
  assumes "\<forall>c \<in> set s. is_space c"
  shows "py_strip s = []"
proof -
  from assms have d: "dropWhile is_space s = []"
    by (simp add: dropWhile_eq_Nil_conv)
  show ?thesis
    unfolding py_strip_def d by simp
qed

lemma semicolon_not_space: "\<not> is_space CHR '';''" and q_not_space: "\<not> is_space CHR ''q''"
  by (simp_all add: is_space_def)

lemma whitespace_locations:
  assumes "\<forall>c \<in> set u. is_space c"
  shows "user_locations u = ['''']"
proof -
  have "CHR '';'' \<notin> set u"
    using assms semicolon_not_space by blast
  then show ?thesis
    using assms by (simp add: user_locations_def py_split_no_sep_in py_strip_spaces)
qed

lemma whitespace_not_quit:
  assumes "\<forall>c \<in> set u. is_space c"
  shows "u \<noteq> ''quit''"
proof
  assume "u = ''quit''"
  with assms have "is_space CHR ''q''" by simp
  then show False by (simp add: q_not_space)
qed


lemma fst_bind_io_prefix: "\<exists>rest. fst (bind_io m f) = fst m @ rest"
  by (cases "snd m") (simp_all add: fst_bind_io)

lemma resolve_loop_single_prefix: "\<exists>rest. fst (resolve_loop gc acc [l]) = fst (gc l) @ rest"
  using fst_bind_io_prefix [of "gc l"] by simp

lemma whitespace_batch_info:
  assumes "\<forall>c \<in> set u. is_space c"
  shows "\<exists>rest. requests_of (fst (batch_info env u)) =
           geo_request env (Some REQUEST_TIMEOUT) [] # rest"
proof -
  obtain r1 where "fst (batch_info env u) =
      fst (resolve_loop (get_coordinates_info env) [] (user_locations u)) @ r1"
    unfolding batch_info_def using fst_bind_io_prefix by blast
  moreover obtain r2 where
    "fst (resolve_loop (get_coordinates_info env) [] [[]]) =
       fst (get_coordinates_info env []) @ r2"
    using resolve_loop_single_prefix by blast
  ultimately show ?thesis
    by (simp add: whitespace_locations [OF assms])
qed

lemma whitespace_batch_forecast:
  assumes "\<forall>c \<in> set u. is_space c"
  shows "\<exists>rest. requests_of (fst (batch_forecast env [] [] u)) =
           geo_request env None [] # rest"
proof -
  obtain r1 where "fst (batch_forecast env [] [] u) =
      fst (resolve_loop (get_coordinates_forecast env) [] (user_locations u)) @ r1"
    unfolding batch_forecast_def using fst_bind_io_prefix by blast
  moreover obtain r2 where
    "fst (resolve_loop (get_coordinates_forecast env) [] [[]]) =
       fst (get_coordinates_forecast env []) @ r2"
    using resolve_loop_single_prefix by blast
  ultimately show ?thesis
    by (simp add: whitespace_locations [OF assms])
qed

lemma main_info_runs_batch:
  assumes "u \<noteq> []" and "u \<noteq> ''quit''"
  shows "\<exists>rest. fst (main_info env (u # later)) = Input PROMPT_INFO # fst (batch_info env u) @ rest"
  using assms fst_bind_io_prefix [of "batch_info env u" "\<lambda>_. main_info env later"]
  by (auto simp: then_io_def emit_def)

lemma main_forecast_runs_batch:
  assumes "u \<noteq> []" and "u \<noteq> ''quit''"
  shows "fst (main_forecast env (u # later)) =
           Input PROMPT_FORECAST # fst (batch_forecast env [] [] u)"
  using assms by (simp add: main_forecast_def then_io_def emit_def)

text \<open>
  Claim C6, against the claim as stated. A line of three spaces is not rejected: both
  scripts take it as one query with an empty city and send the geocoding request for it.
\<close>

theorem whitespace_input_is_processed:
  "user_locations ''   '' = [''''] \<and>
   map (\<lambda>r. map_of (params r) ''q'')
       (requests_of (fst (main_info demo_env [''   '', ''quit'']))) = [Some (PStr '''')] \<and>
   map (\<lambda>r. map_of (params r) ''q'')
       (requests_of (fst (main_forecast demo_env [''   '']))) = [Some (PStr '''')]"
  by (simp add: batch_info_def batch_forecast_def main_forecast_def get_coordinates_info_cases
      get_coordinates_forecast_cases save_json_cases plot_temperatures_def then_io_def emit_def
      bind_io_def return_io_def demo_world string_ops Let_def)

text \<open>
  Claim C6, as amended. On the empty line both scripts print a message that asks for a
  valid city and prompt again: the pass of the loop has no other effect, so no query is
  formed and no request is sent. A line that is not empty and holds only white space is
  not rejected: it makes one query, with an empty city, and the geocoding request for
  it is the first request the script sends.
\<close>

theorem only_the_empty_line_is_rejected:
  "main_info env ([] # later) =
     (Input PROMPT_INFO # Print ''Enter a valid city and/or country'' # fst (main_info env later),
      snd (main_info env later)) \<and>
   main_forecast env ([] # later) =
     (Input PROMPT_FORECAST # Print ''Please enter a valid city and/or country code.'' #
        fst (main_forecast env later),
      snd (main_forecast env later)) \<and>
   (u \<noteq> [] \<and> (\<forall>c \<in> set u. is_space c) \<longrightarrow>
      user_locations u = [[]] \<and>
      (\<exists>rest. requests_of (fst (main_info env (u # later))) =
                geo_request env (Some REQUEST_TIMEOUT) [] # rest) \<and>
      (\<exists>rest. requests_of (fst (main_forecast env (u # later))) =
                geo_request env None [] # rest))"
proof (intro conjI impI)
  show "main_info env ([] # later) =
     (Input PROMPT_INFO # Print ''Enter a valid city and/or country'' # fst (main_info env later),
      snd (main_info env later))"
    by (simp add: then_io_def emit_def bind_io_def)
  show "main_forecast env ([] # later) =
     (Input PROMPT_FORECAST # Print ''Please enter a valid city and/or country code.'' #
        fst (main_forecast env later),
      snd (main_forecast env later))"
    by (simp add: main_forecast_def then_io_def emit_def bind_io_def)
next
  assume a: "u \<noteq> [] \<and> (\<forall>c \<in> set u. is_space c)"
  then have ne: "u \<noteq> []" and sp: "\<forall>c \<in> set u. is_space c"
    by simp_all
  from sp show "user_locations u = [[]]"
    by (rule whitespace_locations)
  from sp have nq: "u \<noteq> ''quit''"
    by (rule whitespace_not_quit)
  from whitespace_batch_info [OF sp] obtain r where
    r: "requests_of (fst (batch_info env u)) = geo_request env (Some REQUEST_TIMEOUT) [] # r"
    by blast
  from main_info_runs_batch [OF ne nq] obtain rest where
    "fst (main_info env (u # later)) = Input PROMPT_INFO # fst (batch_info env u) @ rest"
    by blast
  with r show "\<exists>rest. requests_of (fst (main_info env (u # later))) =
                geo_request env (Some REQUEST_TIMEOUT) [] # rest"
    by simp
  from whitespace_batch_forecast [OF sp] obtain r' where
    "requests_of (fst (batch_forecast env [] [] u)) = geo_request env None [] # r'"
    by blast
  then show "\<exists>rest. requests_of (fst (main_forecast env (u # later))) =
                geo_request env None [] # rest"
    by (simp add: main_forecast_runs_batch [OF ne nq])
qed

theorem only_the_empty_line_is_rejected_witness:
  "user_locations [CHR 0x09, CHR '' ''] = [[]] \<and>
   (\<exists>rest. requests_of (fst (main_info demo_env [[CHR 0x09, CHR '' ''], ''quit''])) =
             geo_request demo_env (Some REQUEST_TIMEOUT) [] # rest) \<and>
   (\<exists>rest. requests_of (fst (main_forecast demo_env [[CHR 0x09, CHR '' ''], ''quit''])) =
             geo_request demo_env None [] # rest)"
  using only_the_empty_line_is_rejected [of demo_env "[''quit'']" "[CHR 0x09, CHR '' '']"]
  by (simp add: is_space_def)

section \<open>The parser\<close>

text \<open>
  Claim C7, against the claim as stated. The code keeps the empty segment of
  \<open>London;;Paris\<close>, where the parser of the specification drops it; and of
  \<open>Paris,fr,x\<close> it takes \<open>FR\<close> as the country code, the text between the first comma
  and the second, where the parser of the specification takes all that follows the
  first comma.
\<close>

theorem parse_differs_from_spec:
  "map parse_location (user_locations ''London;;Paris'') =
     [Inr (''London'', None), Inr ('''', None), Inr (''Paris'', None)] \<and>
   spec_parse ''London;;Paris'' = [(''London'', None), (''Paris'', None)] \<and>
   map parse_location (user_locations ''Paris,fr,x'') = [Inr (''Paris'', Some ''FR'')] \<and>
   spec_parse ''Paris,fr,x'' = [(''Paris'', Some ''FR,X'')]"
  by (simp add: parse_location_eq spec_parse_def string_ops)

text \<open>
  Claim C7, as amended. The code splits the input on \<open>;\<close> (the segments, each followed
  by \<open>;\<close>, make up the input followed by \<open>;\<close>, and no segment holds a \<open>;\<close>), trims
  each segment and keeps them all, the empty ones too: one more segment than the input
  has semicolons. Of each segment the city is the text before the first comma, trimmed
  and title-cased; the country code is the text between the first comma and the second,
  trimmed and upper-cased, when the segment has a comma; what follows a second comma is
  ignored. The resolver is called once per segment, in the order of the input.
\<close>

theorem parse_as_the_code_does:
  "user_locations raw = map py_strip (py_split CHR '';'' raw) \<and>
   concat (map (\<lambda>p. p @ '';'') (py_split CHR '';'' raw)) = raw @ '';'' \<and>
   (\<forall>p \<in> set (py_split CHR '';'' raw). CHR '';'' \<notin> set p) \<and>
   length (user_locations raw) = Suc (count_list raw CHR '';'') \<and>
   map parse_location (user_locations raw) =
     map (\<lambda>segment. Inr (city_of segment, country_of segment)) (user_locations raw) \<and>
   ((\<forall>l \<in> set (user_locations raw). \<exists>v. snd (gc l) = Inr v) \<longrightarrow>
      fst (resolve_loop gc acc (user_locations raw)) =
        concat (map (\<lambda>l. fst (gc l)) (user_locations raw)))"
  by (simp add: user_locations_def py_split_rejoin py_split_no_sep length_py_split
      parse_location_eq resolve_loop_all_return)

theorem parse_as_the_code_does_witness:
  "user_locations ''london,gb;; new york , us, x'' = [''london,gb'', '''', ''new york , us, x''] \<and>
   map parse_location (user_locations ''london,gb;; new york , us, x'') =
     [Inr (''London'', Some ''GB''), Inr ('''', None), Inr (''New York'', Some ''US'')] \<and>
   requests_of (fst (resolve_loop (get_coordinates_info demo_env) []
                       (user_locations ''london,gb;; new york , us, x''))) =
     [geo_request demo_env (Some REQUEST_TIMEOUT) ''london,gb'',
      geo_request demo_env (Some REQUEST_TIMEOUT) '''',
      geo_request demo_env (Some REQUEST_TIMEOUT) ''new york , us, x'']"
proof -
  have locs: "user_locations ''london,gb;; new york , us, x'' =
                [''london,gb'', '''', ''new york , us, x'']"
    by (simp add: user_locations_def py_strip_def is_space_def)
  have returns: "\<forall>l \<in> set (user_locations ''london,gb;; new york , us, x'').
                   \<exists>v. snd (get_coordinates_info demo_env l) = Inr v"
    by (simp add: locs demo_calls demo_world string_ops)
  from parse_as_the_code_does [of "''london,gb;; new york , us, x''"
         "get_coordinates_info demo_env" "[]"] returns
  have "map parse_location (user_locations ''london,gb;; new york , us, x'') =
          map (\<lambda>segment. Inr (city_of segment, country_of segment))
            (user_locations ''london,gb;; new york , us, x'')"
    and "fst (resolve_loop (get_coordinates_info demo_env) []
                (user_locations ''london,gb;; new york , us, x'')) =
         concat (map (\<lambda>l. fst (get_coordinates_info demo_env l))
                   (user_locations ''london,gb;; new york , us, x''))"
    by blast+
  then show ?thesis
    by (simp add: locs string_ops)
qed

section \<open>Reading JSON text back\<close>

lemma hex_round: "\<forall>d \<in> set [0..<16]. hex_val (hex_digit d) = Some d"
  by code_simp

lemma hex_val_digit: "d < 16 \<Longrightarrow> hex_val (hex_digit d) = Some d"
  using hex_round by simp

lemma hex_val_zero: "hex_val CHR ''0'' = Some 0"
  by code_simp

lemma unescape_u:
  "unescape (CHR ''u'' # CHR ''0'' # CHR ''0'' #
             hex_digit (of_char c div 16) # hex_digit (of_char c mod 16) # rest) =
   Some (c, rest)"
proof -
  have n: "(of_char c :: nat) < 256"
    by simp
  then have hi: "(of_char c :: nat) div 16 < 16"
    by (simp add: less_mult_imp_div_less)
  have lo: "(of_char c :: nat) mod 16 < 16"
    by simp
  have same: "char_of (16 * ((of_char c :: nat) div 16) + (of_char c :: nat) mod 16) = c"
    by simp
  show ?thesis
    by (simp add: unescape_def dq_def bs_def hex_val_zero hex_val_digit [OF hi]
        hex_val_digit [OF lo] same)
qed

lemma scan_string_step:
  assumes "scan_string t = Some (s, rest)"
  shows "scan_string (escape_char c @ t) = Some (c # s, rest)"
proof -
  consider (named) "c \<in> {dq, bs, CHR 0x0A, CHR 0x0D, CHR 0x09, CHR 0x08, CHR 0x0C}"
    | (plain) "c \<notin> {dq, bs, CHR 0x0A, CHR 0x0D, CHR 0x09, CHR 0x08, CHR 0x0C}" "is_plain c"
    | (coded) "c \<notin> {dq, bs, CHR 0x0A, CHR 0x0D, CHR 0x09, CHR 0x08, CHR 0x0C}" "\<not> is_plain c"
    by blast
  then show ?thesis
  proof cases
    case named
    with assms show ?thesis
      by (auto simp: escape_char_def unescape_def dq_def bs_def)
  next
    case plain
    then have "\<not> (of_char c :: nat) < 32" "c \<noteq> dq" "c \<noteq> bs"
      by (simp_all add: is_plain_def)
    with plain assms show ?thesis
      by (simp add: escape_char_def)
  next
    case coded
    with assms show ?thesis
      by (simp add: escape_char_def unescape_u) (simp add: dq_def bs_def)
  qed
qed

lemma scan_string_escaped:
  "scan_string (concat (map escape_char s) @ dq # rest) = Some (s, rest)"
  by (induction s) (simp_all add: scan_string_step)

lemma digit_round: "\<forall>d \<in> set [0..<10]. digit_val (digit_char d) = d \<and> is_digit (digit_char d)"
  by code_simp

lemma digit_char_facts:
  assumes "d < 10"
  shows "digit_val (digit_char d) = d" and "is_digit (digit_char d)"
  using digit_round assms by simp_all

lemma digit_char_zero: "\<forall>d \<in> set [1..<10]. digit_char d \<noteq> CHR ''0''"
  by code_simp

lemma digits_string_of_nat: "\<forall>c \<in> set (string_of_nat n). is_digit c"
proof (induction n rule: string_of_nat.induct)
  case (1 n)
  show ?case
  proof (cases "n < 10")
    case True
    then show ?thesis
      by (subst string_of_nat.simps) (simp add: digit_char_facts)
  next
    case False
    with 1 show ?thesis
      by (subst string_of_nat.simps) (simp add: digit_char_facts)
  qed
qed

lemma string_of_nat_not_Nil: "string_of_nat n \<noteq> []"
  by (subst string_of_nat.simps) simp

lemma nat_of_digits_snoc: "nat_of_digits (ds @ [c]) = 10 * nat_of_digits ds + digit_val c"
  by (simp add: nat_of_digits_def)

lemma nat_of_digits_string_of_nat: "nat_of_digits (string_of_nat n) = n"
proof (induction n rule: string_of_nat.induct)
  case (1 n)
  show ?case
  proof (cases "n < 10")
    case True
    then show ?thesis
      by (subst string_of_nat.simps) (simp add: nat_of_digits_def digit_char_facts)
  next
    case False
    with 1 show ?thesis
      by (subst string_of_nat.simps) (simp add: nat_of_digits_snoc digit_char_facts)
  qed
qed

lemma hd_string_of_nat: "0 < n \<Longrightarrow> hd (string_of_nat n) \<noteq> CHR ''0''"
proof (induction n rule: string_of_nat.induct)
  case (1 n)
  show ?case
  proof (cases "n < 10")
    case True
    with "1.prems" have "n \<in> set [1..<10]" by simp
    with digit_char_zero have "digit_char n \<noteq> CHR ''0''" by blast
    with True show ?thesis
      by (subst string_of_nat.simps) simp
  next
    case False
    then have "0 < n div 10" by simp
    with 1 False have "hd (string_of_nat (n div 10)) \<noteq> CHR ''0''" by simp
    with False show ?thesis
      by (subst string_of_nat.simps) (simp add: string_of_nat_not_Nil)
  qed
qed

lemma length_string_of_nat: "1 < length (string_of_nat n) \<Longrightarrow> 0 < n"
  by (subst (asm) string_of_nat.simps) (auto split: if_splits)


lemma string_of_nat_zero: "string_of_nat 0 = ''0''"
  by (subst string_of_nat.simps) (simp add: digit_char_def)

lemma digits_before:
  assumes "ends_number rest"
  shows "takeWhile is_digit (t @ rest) = takeWhile is_digit t"
    and "dropWhile is_digit (t @ rest) = dropWhile is_digit t @ rest"
proof -
  from assms have r: "takeWhile is_digit rest = []" "dropWhile is_digit rest = rest"
    by (cases rest; simp add: ends_number_def is_number_char_def)+
  show "takeWhile is_digit (t @ rest) = takeWhile is_digit t"
    by (induction t) (simp_all add: r)
  show "dropWhile is_digit (t @ rest) = dropWhile is_digit t @ rest"
    by (induction t) (simp_all add: r)
qed

lemma ends_number_first:
  assumes "ends_number rest"
  shows "rest = [] \<or> (\<exists>c t. rest = c # t \<and> \<not> is_digit c \<and> c \<notin> set ''+-.eE'')"
  using assms by (cases rest) (simp_all add: ends_number_def is_number_char_def)

lemma scan_sign_append:
  assumes "ends_number rest"
  shows "scan_sign (t @ rest) = (fst (scan_sign t), snd (scan_sign t) @ rest)"
  using ends_number_first [OF assms] by (cases t) (auto simp: scan_sign_def)

lemma scan_int_append:
  assumes "ends_number rest"
  shows "scan_int (t @ rest) = (fst (scan_int t), snd (scan_int t) @ rest)"
proof (cases t)
  case Nil
  with ends_number_first [OF assms] show ?thesis
    by (auto simp: scan_int_def is_digit_def)
next
  case (Cons c t')
  then show ?thesis
    by (simp add: scan_int_def digits_before [OF assms])
qed

lemma scan_frac_append:
  assumes "ends_number rest"
  shows "scan_frac (t @ rest) = (fst (scan_frac t), snd (scan_frac t) @ rest)"
proof (cases t)
  case Nil
  with ends_number_first [OF assms] show ?thesis
    by (auto simp: scan_frac_def)
next
  case (Cons c t')
  then show ?thesis
    by (simp add: scan_frac_def digits_before [OF assms])
qed

lemma scan_exp_append:
  assumes "ends_number rest"
  shows "scan_exp (t @ rest) = (fst (scan_exp t), snd (scan_exp t) @ rest)"
proof (cases t)
  case Nil
  with ends_number_first [OF assms] show ?thesis
    by (auto simp: scan_exp_def)
next
  case outer: (Cons c t')
  from assms have r: "takeWhile is_digit rest = []"
    using digits_before(1) [OF assms, of "[]"] by simp
  show ?thesis
  proof (cases t')
    case Nil
    with ends_number_first [OF assms] outer r show ?thesis
      by (auto simp: scan_exp_def)
  next
    case (Cons d u)
    with outer show ?thesis
      by (simp add: scan_exp_def digits_before [OF assms] Let_def)
  qed
qed

lemma match_number_append:
  assumes "ends_number rest" and "match_number t = Some (integer, fraction, exponent, r)"
  shows "match_number (t @ rest) = Some (integer, fraction, exponent, r @ rest)"
  using assms(2)
  by (simp add: match_number_def Let_def scan_sign_append [OF assms(1)]
      scan_int_append [OF assms(1)] scan_frac_append [OF assms(1)]
      scan_exp_append [OF assms(1)] split: if_splits)

lemma scan_parts:
  "fst (scan_sign s) @ snd (scan_sign s) = s"
  "fst (scan_int s) @ snd (scan_int s) = s"
  "fst (scan_frac s) @ snd (scan_frac s) = s"
  "fst (scan_exp s) @ snd (scan_exp s) = s"
  by (auto simp: scan_sign_def scan_int_def scan_frac_def scan_exp_def Let_def
      split: list.splits)

lemma match_number_parts:
  assumes "match_number t = Some (integer, fraction, exponent, r)"
  shows "integer @ fraction @ exponent @ r = t"
proof -
  let ?a = "scan_sign t"
  let ?b = "scan_int (snd ?a)"
  let ?c = "scan_frac (snd ?b)"
  let ?d = "scan_exp (snd ?c)"
  from assms have "integer = fst ?a @ fst ?b" "fraction = fst ?c" "exponent = fst ?d"
    "r = snd ?d"
    by (simp_all add: match_number_def Let_def split: if_splits)
  then have "integer @ fraction @ exponent @ r = fst ?a @ fst ?b @ fst ?c @ (fst ?d @ snd ?d)"
    by simp
  also have "\<dots> = fst ?a @ fst ?b @ (fst ?c @ snd ?c)"
    by (simp only: scan_parts)
  also have "\<dots> = fst ?a @ (fst ?b @ snd ?b)"
    by (simp only: scan_parts)
  also have "\<dots> = t"
    by (simp only: scan_parts)
  finally show ?thesis .
qed

lemma match_number_hd:
  assumes "match_number t = Some (integer, fraction, exponent, r)"
  shows "\<exists>c t'. t = c # t' \<and> is_number_char c"
  using assms
  by (auto simp: match_number_def scan_sign_def scan_int_def Let_def is_number_char_def
      is_digit_def split: list.splits if_splits)

lemma scan_int_digits: "scan_int (string_of_nat n) = (string_of_nat n, [])"
proof -
  obtain c t where ct: "string_of_nat n = c # t"
    using string_of_nat_not_Nil by (cases "string_of_nat n") auto
  have d: "\<forall>x \<in> set (c # t). is_digit x"
    using digits_string_of_nat [of n] ct by simp
  show ?thesis
  proof (cases "c = CHR ''0''")
    case True
    with ct hd_string_of_nat [of n] have "n = 0"
      by (cases "0 < n") simp_all
    then show ?thesis
      by (simp add: string_of_nat_zero scan_int_def)
  next
    case False
    with d show ?thesis
      by (simp add: ct scan_int_def)
  qed
qed

lemma match_number_digits:
  "match_number (string_of_nat n) = Some (string_of_nat n, [], [], [])"
  "match_number (CHR ''-'' # string_of_nat n) = Some (CHR ''-'' # string_of_nat n, [], [], [])"
proof -
  obtain c t where ct: "string_of_nat n = c # t"
    using string_of_nat_not_Nil by (cases "string_of_nat n") auto
  then have "is_digit c"
    using digits_string_of_nat [of n] by simp
  then have "c \<noteq> CHR ''-''"
    by (auto simp: is_digit_def)
  then have s: "scan_sign (string_of_nat n) = ([], string_of_nat n)"
    by (simp add: ct scan_sign_def)
  have e: "scan_frac [] = ([], [])" "scan_exp [] = ([], [])"
    by (simp_all add: scan_frac_def scan_exp_def)
  show "match_number (string_of_nat n) = Some (string_of_nat n, [], [], [])"
    by (simp add: match_number_def s scan_int_digits e string_of_nat_not_Nil)
  have "scan_sign (CHR ''-'' # string_of_nat n) = (''-'', string_of_nat n)"
    by (simp add: scan_sign_def)
  then show "match_number (CHR ''-'' # string_of_nat n) =
      Some (CHR ''-'' # string_of_nat n, [], [], [])"
    by (simp add: match_number_def scan_int_digits e string_of_nat_not_Nil)
qed

lemma int_of_text_digits:
  "int_of_text (string_of_nat n) = int n"
  "int_of_text (CHR ''-'' # string_of_nat n) = - int n"
proof -
  obtain c t where ct: "string_of_nat n = c # t"
    using string_of_nat_not_Nil by (cases "string_of_nat n") auto
  then have "is_digit c"
    using digits_string_of_nat [of n] by simp
  then have "c \<noteq> CHR ''-''"
    by (auto simp: is_digit_def)
  then have "int_of_text (c # t) = int (nat_of_digits (c # t))"
    by (simp add: int_of_text_def)
  then show "int_of_text (string_of_nat n) = int n"
    by (simp add: ct [symmetric] nat_of_digits_string_of_nat)
  show "int_of_text (CHR ''-'' # string_of_nat n) = - int n"
    by (simp add: int_of_text_def nat_of_digits_string_of_nat)
qed

lemma scan_number_digits:
  assumes "ends_number rest"
  shows "scan_number fp (string_of_nat n @ rest) = Some (PInt (int n), rest)"
    and "scan_number fp (CHR ''-'' # string_of_nat n @ rest) = Some (PInt (- int n), rest)"
proof -
  show "scan_number fp (string_of_nat n @ rest) = Some (PInt (int n), rest)"
    using match_number_append [OF assms match_number_digits(1), of n]
    by (simp add: scan_number_def int_of_text_digits)
  show "scan_number fp (CHR ''-'' # string_of_nat n @ rest) = Some (PInt (- int n), rest)"
    using match_number_append [OF assms match_number_digits(2), of n]
    by (simp add: scan_number_def int_of_text_digits)
qed

lemma scan_number_int:
  assumes "ends_number rest"
  shows "scan_number fp (json_int i @ rest) = Some (PInt i, rest)"
proof (cases "i < 0")
  case True
  then have j: "json_int i = CHR ''-'' # string_of_nat (nat (- i))"
    by (simp add: json_int_def)
  from True have v: "- int (nat (- i)) = i" by simp
  show ?thesis
    unfolding j using scan_number_digits(2) [OF assms, of fp "nat (- i)"]
    by (simp only: v append_Cons)
next
  case False
  then have j: "json_int i = string_of_nat (nat i)"
    by (simp add: json_int_def)
  from False have v: "int (nat i) = i" by simp
  show ?thesis
    unfolding j using scan_number_digits(1) [OF assms, of fp "nat i"]
    by (simp only: v)
qed

lemma scan_number_float:
  assumes "float_literal t" and "fp t = Some r" and "ends_number rest"
  shows "scan_number fp (t @ rest) = Some (PFloat r, rest)"
proof -
  from assms(1) obtain integer fraction exponent where
    m: "match_number t = Some (integer, fraction, exponent, [])"
    and f: "fraction \<noteq> [] \<or> exponent \<noteq> []"
    by (auto simp: float_literal_def split: option.splits)
  from match_number_parts [OF m] have t: "integer @ fraction @ exponent = t"
    by simp
  from match_number_append [OF assms(3) m]
  have "match_number (t @ rest) = Some (integer, fraction, exponent, rest)"
    by simp
  with f assms(2) show ?thesis
    by (auto simp: scan_number_def t)
qed

lemma hd_json_int: "\<exists>c t. json_int i = c # t \<and> is_number_char c"
proof -
  obtain c t where ct: "string_of_nat (nat \<bar>i\<bar>) = c # t"
    using string_of_nat_not_Nil by (cases "string_of_nat (nat \<bar>i\<bar>)") auto
  then have "is_digit c"
    using digits_string_of_nat [of "nat \<bar>i\<bar>"] by simp
  then show ?thesis
    using ct by (cases "i < 0") (simp_all add: json_int_def is_number_char_def abs_if)
qed

lemma hd_float_literal:
  assumes "float_literal t"
  shows "\<exists>c t'. t = c # t' \<and> is_number_char c"
  using assms match_number_hd [of t]
  by (auto simp: float_literal_def split: option.splits)

lemma starts_value_append: "starts_value s \<Longrightarrow> starts_value (s @ t)"
  by (cases s) (simp_all add: starts_value_def)

lemma skip_ws_value: "starts_value s \<Longrightarrow> skip_ws s = s"
  by (cases s) (simp_all add: starts_value_def skip_ws_def)

lemma skip_ws_nl: "skip_ws (line_break n @ s) = skip_ws s"
  by (simp add: skip_ws_def line_break_def is_ws_def dropWhile_append)

lemma skip_ws_space: "skip_ws (CHR '' '' # s) = skip_ws s"
  by (simp add: skip_ws_def is_ws_def)

lemma skip_ws_delimiter:
  "c \<in> {CHR '','', CHR '']'', CHR ''}'', CHR '':''} \<Longrightarrow> skip_ws (c # s) = c # s"
  by (auto simp: skip_ws_def is_ws_def)

lemma ends_number_nl: "ends_number (line_break n @ s)"
  by (simp add: ends_number_def line_break_def is_number_char_def is_digit_def)

lemma ends_number_comma: "ends_number (CHR '','' # s)"
  by (simp add: ends_number_def is_number_char_def is_digit_def)

lemma ends_number_Nil: "ends_number []"
  by (simp add: ends_number_def)

lemma number_char_value:
  assumes "is_number_char c"
  shows "\<not> is_ws c" and "c \<notin> {dq, CHR ''{'', CHR ''['', CHR '']'', CHR ''}'', CHR ''n'', CHR ''t'', CHR ''f''}"
  using assms by (auto simp: is_number_char_def is_digit_def is_ws_def dq_def)

lemma parse_value_number:
  assumes "is_number_char c"
  shows "parse_value fp (Suc f) (c # s) = scan_number fp (c # s)"
  using number_char_value [OF assms] by simp

lemma starts_value_number: "is_number_char c \<Longrightarrow> starts_value (c # t)"
  using number_char_value [of c] by (simp add: starts_value_def)

lemma starts_value_dumps:
  assumes "floats_readable fl fp v"
  shows "starts_value (dumps_at fl n v)"
proof (cases v)
  case (PInt i)
  then show ?thesis
    using hd_json_int [of i] starts_value_number by auto
next
  case (PFloat r)
  with assms have "float_literal (fl r)" by simp
  then show ?thesis
    using PFloat hd_float_literal [of "fl r"] starts_value_number by auto
qed (simp_all add: starts_value_def is_ws_def json_string_def dq_def)

lemma dict_set_fresh: "k \<notin> fst ` set d \<Longrightarrow> dict_set k v d = d @ [(k, v)]"
  by (induction d) auto

lemma dict_fold_distinct:
  "distinct (map fst (d @ kvs)) \<Longrightarrow>
     foldl (\<lambda>d kv. dict_set (fst kv) (snd kv) d) d kvs = d @ kvs"
proof (induction kvs arbitrary: d)
  case Nil
  then show ?case by simp
next
  case (Cons kv kvs)
  from Cons.prems have fresh: "fst kv \<notin> fst ` set d"
    by auto
  from Cons.prems have "distinct (map fst ((d @ [kv]) @ kvs))"
    by simp
  then have "foldl (\<lambda>d kv. dict_set (fst kv) (snd kv) d) (d @ [kv]) kvs = (d @ [kv]) @ kvs"
    by (rule Cons.IH)
  then show ?case
    using fresh by (simp add: dict_set_fresh)
qed

lemma dict_of_distinct: "distinct (map fst kvs) \<Longrightarrow> dict_of kvs = kvs"
  using dict_fold_distinct [of "[]" kvs] by (simp add: dict_of_def)

lemma parse_elements_join:
  assumes "\<And>x f rest. x \<in> set xs \<Longrightarrow> parse_cost x \<le> f \<Longrightarrow> ends_number rest \<Longrightarrow>
             parse_value fp f (dumps_at fl n x @ rest) = Some (x, rest)"
    and "\<And>x. x \<in> set xs \<Longrightarrow> starts_value (dumps_at fl n x)"
    and "xs \<noteq> []"
    and "sum_list (map (\<lambda>x. Suc (parse_cost x)) xs) \<le> f"
  shows "parse_elements fp f
           (join_with ('','' @ line_break n) (map (dumps_at fl n) xs) @ line_break m @ CHR '']'' # rest) =
         Some (xs, rest)"
  using assms
proof (induction xs arbitrary: f)
  case Nil
  then show ?case by simp
next
  case (Cons x xs)
  from Cons.prems(4) obtain f' where f: "f = Suc f'" and fx: "parse_cost x \<le> f'"
    and fxs: "sum_list (map (\<lambda>x. Suc (parse_cost x)) xs) \<le> f'"
    by (cases f) auto
  show ?case
  proof (cases xs)
    case Nil
    have "parse_value fp f' (dumps_at fl n x @ line_break m @ CHR '']'' # rest) =
            Some (x, line_break m @ CHR '']'' # rest)"
      using Cons.prems(1) [of x f'] fx ends_number_nl by simp
    then show ?thesis
      by (simp add: f Nil skip_ws_nl skip_ws_delimiter)
  next
    case (Cons y ys)
    let ?tail = "join_with ('','' @ line_break n) (map (dumps_at fl n) xs) @ line_break m @ CHR '']'' # rest"
    have v: "parse_value fp f' (dumps_at fl n x @ CHR '','' # line_break n @ ?tail) =
               Some (x, CHR '','' # line_break n @ ?tail)"
      using Cons.prems(1) [of x f'] fx ends_number_comma by simp
    have "starts_value (dumps_at fl n y)"
      using Cons.prems(2) [of y] Cons by simp
    then have "starts_value ?tail"
      using Cons by (cases ys) (simp_all add: starts_value_append)
    then have sk: "skip_ws (line_break n @ ?tail) = ?tail"
      by (simp add: skip_ws_nl skip_ws_value)
    have "parse_elements fp f' ?tail = Some (xs, rest)"
      using Cons.IH [of f'] Cons.prems(1) Cons.prems(2) fxs Cons by simp
    with v sk show ?thesis
      by (simp add: f Cons skip_ws_delimiter)
  qed
qed

lemma starts_value_member_text: "starts_value (member_text fl n kv @ t)"
  by (simp add: member_text_def json_string_def starts_value_def is_ws_def dq_def)

lemma parse_member_text:
  assumes "parse_value fp f (dumps_at fl n v @ rest) = Some (v, rest)"
    and "starts_value (dumps_at fl n v)"
  shows "\<exists>t. member_text fl n (k, v) @ rest = dq # t \<and>
           (case scan_string t of
              None \<Rightarrow> None
            | Some (k', after_key) \<Rightarrow>
                (case skip_ws after_key of
                   [] \<Rightarrow> None
                 | c1 # after_colon \<Rightarrow>
                     if c1 \<noteq> CHR '':'' then None
                     else (case parse_value fp f (skip_ws after_colon) of
                             None \<Rightarrow> None
                           | Some (v', rest') \<Rightarrow> Some (k', v', rest')))) = Some (k, v, rest)"
proof -
  let ?t = "concat (map escape_char k) @ dq # CHR '':'' # CHR '' '' # dumps_at fl n v @ rest"
  have m: "member_text fl n (k, v) @ rest = dq # ?t"
    by (simp add: member_text_def json_string_def)
  have s: "scan_string ?t = Some (k, CHR '':'' # CHR '' '' # dumps_at fl n v @ rest)"
    by (rule scan_string_escaped)
  have w: "skip_ws (CHR '' '' # dumps_at fl n v @ rest) = dumps_at fl n v @ rest"
    using assms(2) by (simp add: skip_ws_space skip_ws_value starts_value_append)
  show ?thesis
    unfolding m using assms(1) by (simp add: s w skip_ws_delimiter)
qed

lemma parse_members_join:
  assumes "\<And>kv f rest. kv \<in> set kvs \<Longrightarrow> parse_cost (snd kv) \<le> f \<Longrightarrow> ends_number rest \<Longrightarrow>
             parse_value fp f (dumps_at fl n (snd kv) @ rest) = Some (snd kv, rest)"
    and "\<And>kv. kv \<in> set kvs \<Longrightarrow> starts_value (dumps_at fl n (snd kv))"
    and "kvs \<noteq> []"
    and "sum_list (map (\<lambda>kv. Suc (parse_cost (snd kv))) kvs) \<le> f"
  shows "parse_members fp f
           (join_with ('','' @ line_break n) (map (member_text fl n) kvs) @ line_break m @ CHR ''}'' # rest) =
         Some (kvs, rest)"
  using assms
proof (induction kvs arbitrary: f)
  case Nil
  then show ?case by simp
next
  case (Cons kv kvs)
  obtain k v where kv: "kv = (k, v)"
    by (cases kv)
  from Cons.prems(4) obtain f' where f: "f = Suc f'" and fx: "parse_cost v \<le> f'"
    and fxs: "sum_list (map (\<lambda>kv. Suc (parse_cost (snd kv))) kvs) \<le> f'"
    by (cases f) (auto simp: kv)
  have sv: "starts_value (dumps_at fl n v)"
    using Cons.prems(2) [of kv] by (simp add: kv)
  show ?case
  proof (cases "kvs = []")
    case True
    let ?rest = "line_break m @ CHR ''}'' # rest"
    have "parse_value fp f' (dumps_at fl n v @ ?rest) = Some (v, ?rest)"
      using Cons.prems(1) [of kv f'] fx ends_number_nl by (simp add: kv)
    from parse_member_text [OF this sv, of k] obtain t where
      "member_text fl n (k, v) @ ?rest = dq # t"
      and "(case scan_string t of
              None \<Rightarrow> None
            | Some (k', after_key) \<Rightarrow>
                (case skip_ws after_key of
                   [] \<Rightarrow> None
                 | c1 # after_colon \<Rightarrow>
                     if c1 \<noteq> CHR '':'' then None
                     else (case parse_value fp f' (skip_ws after_colon) of
                             None \<Rightarrow> None
                           | Some (v', rest') \<Rightarrow> Some (k', v', rest')))) = Some (k, v, ?rest)"
      by blast
    then show ?thesis
      by (auto simp: f True kv skip_ws_nl skip_ws_delimiter
          split: option.splits list.splits if_splits)
  next
    case False
    then obtain y ys where ys: "kvs = y # ys"
      by (cases kvs) auto
    let ?tail = "join_with ('','' @ line_break n) (map (member_text fl n) kvs) @ line_break m @ CHR ''}'' # rest"
    let ?rest = "CHR '','' # line_break n @ ?tail"
    have "parse_value fp f' (dumps_at fl n v @ ?rest) = Some (v, ?rest)"
      using Cons.prems(1) [of kv f'] fx ends_number_comma by (simp add: kv)
    from parse_member_text [OF this sv, of k] obtain t where
      "member_text fl n (k, v) @ ?rest = dq # t"
      and "(case scan_string t of
              None \<Rightarrow> None
            | Some (k', after_key) \<Rightarrow>
                (case skip_ws after_key of
                   [] \<Rightarrow> None
                 | c1 # after_colon \<Rightarrow>
                     if c1 \<noteq> CHR '':'' then None
                     else (case parse_value fp f' (skip_ws after_colon) of
                             None \<Rightarrow> None
                           | Some (v', rest') \<Rightarrow> Some (k', v', rest')))) = Some (k, v, ?rest)"
      by blast
    moreover have "starts_value ?tail"
      using ys by (cases ys) (simp_all add: starts_value_member_text)
    then have "skip_ws (line_break n @ ?tail) = ?tail"
      by (simp add: skip_ws_nl skip_ws_value)
    moreover have "parse_members fp f' ?tail = Some (kvs, rest)"
      using Cons.IH [of f'] Cons.prems(1) Cons.prems(2) fxs False by simp
    ultimately show ?thesis
      by (auto simp: f ys kv skip_ws_delimiter
          split: option.splits list.splits if_splits)
  qed
qed

lemma dumps_at_dict:
  "kvs \<noteq> [] \<Longrightarrow>
     dumps_at fl n (PDict kvs) =
       CHR ''{'' # line_break (Suc n) @
       join_with ('','' @ line_break (Suc n)) (map (member_text fl (Suc n)) kvs) @ line_break n @ ''}''"
proof -
  have "(\<lambda>kv. json_string (fst kv) @ '': '' @ dumps_at fl (Suc n) (snd kv)) = member_text fl (Suc n)"
    by (rule ext) (simp add: member_text_def)
  then show "kvs \<noteq> [] \<Longrightarrow> ?thesis"
    by simp
qed

lemma parse_value_dumps:
  assumes "distinct_keys v" and "floats_readable fl fp v" and "parse_cost v \<le> f" and "ends_number rest"
  shows "parse_value fp f (dumps_at fl n v @ rest) = Some (v, rest)"
  using assms
proof (induction v arbitrary: f n rest)
  case PNone
  then show ?case by (cases f) (simp_all add: dq_def)
next
  case (PBool b)
  then show ?case by (cases f) (simp_all add: dq_def)
next
  case (PInt i)
  obtain c t where "json_int i = c # t" "is_number_char c"
    using hd_json_int by blast
  with PInt.prems scan_number_int [of rest fp i] parse_value_number [of c] show ?case
    by (cases f) simp_all
next
  case (PFloat r)
  then have lit: "float_literal (fl r)" and p: "fp (fl r) = Some r"
    by simp_all
  obtain c t where "fl r = c # t" "is_number_char c"
    using hd_float_literal [OF lit] by blast
  with PFloat.prems scan_number_float [of "fl r" fp r rest] lit p parse_value_number [of c] show ?case
    by (cases f) simp_all
next
  case (PStr s)
  then show ?case
    using scan_string_escaped [of s rest] by (cases f) (simp_all add: json_string_def)
next
  case (PList xs)
  from PList.prems(3) obtain f' where f: "f = Suc f'"
    and fxs: "sum_list (map (\<lambda>x. Suc (parse_cost x)) xs) \<le> f'"
    by (cases f) auto
  show ?case
  proof (cases "xs = []")
    case True
    then show ?thesis
      by (simp add: f dq_def skip_ws_delimiter)
  next
    case False
    let ?body = "join_with ('','' @ line_break (Suc n)) (map (dumps_at fl (Suc n)) xs) @
                 line_break n @ CHR '']'' # rest"
    have each: "\<And>x f rest. x \<in> set xs \<Longrightarrow> parse_cost x \<le> f \<Longrightarrow> ends_number rest \<Longrightarrow>
        parse_value fp f (dumps_at fl (Suc n) x @ rest) = Some (x, rest)"
      using PList.IH PList.prems(1, 2) by simp
    have solid: "\<And>x. x \<in> set xs \<Longrightarrow> starts_value (dumps_at fl (Suc n) x)"
      using PList.prems(2) by (auto intro: starts_value_dumps)
    have p: "parse_elements fp f' ?body = Some (xs, rest)"
      using each solid False fxs by (rule parse_elements_join)
    obtain y ys where ys: "xs = y # ys"
      using False by (cases xs) auto
    have "starts_value (dumps_at fl (Suc n) y)"
      using solid ys by simp
    then have "starts_value ?body"
      using ys by (cases ys) (simp_all add: starts_value_append)
    then obtain c t where body: "?body = c # t" and c: "\<not> is_ws c" "c \<noteq> CHR '']''"
      by (cases ?body) (simp_all add: starts_value_def)
    have "skip_ws (line_break (Suc n) @ ?body) = skip_ws ?body"
      by (rule skip_ws_nl)
    also have "\<dots> = c # t"
      unfolding body using c by (simp add: skip_ws_def)
    finally have sk: "skip_ws (line_break (Suc n) @ ?body) = c # t" .
    from p have "parse_elements fp f' (c # t) = Some (xs, rest)"
      unfolding body .
    with sk show ?thesis
      using False c by (simp add: f dq_def)
  qed
next
  case (PDict kvs)
  from PDict.prems(3) obtain f' where f: "f = Suc f'"
    and fxs: "sum_list (map (\<lambda>kv. Suc (parse_cost (snd kv))) kvs) \<le> f'"
    by (cases f) auto
  from PDict.prems(1) have keys: "dict_of kvs = kvs"
    by (simp add: dict_of_distinct)
  show ?case
  proof (cases "kvs = []")
    case True
    then show ?thesis
      by (simp add: f dq_def skip_ws_delimiter)
  next
    case False
    let ?body = "join_with ('','' @ line_break (Suc n)) (map (member_text fl (Suc n)) kvs) @
                 line_break n @ CHR ''}'' # rest"
    have each: "\<And>kv f rest. kv \<in> set kvs \<Longrightarrow> parse_cost (snd kv) \<le> f \<Longrightarrow> ends_number rest \<Longrightarrow>
        parse_value fp f (dumps_at fl (Suc n) (snd kv) @ rest) = Some (snd kv, rest)"
    proof -
      fix kv f rest
      assume kv: "kv \<in> set kvs" and "parse_cost (snd kv) \<le> f" and "ends_number rest"
      moreover have "snd kv \<in> Basic_BNFs.snds kv"
        by (cases kv) simp
      moreover from kv PDict.prems(1, 2) have "distinct_keys (snd kv)" "floats_readable fl fp (snd kv)"
        by simp_all
      ultimately show "parse_value fp f (dumps_at fl (Suc n) (snd kv) @ rest) = Some (snd kv, rest)"
        using PDict.IH [of kv "snd kv" f rest "Suc n"] by simp
    qed
    have solid: "\<And>kv. kv \<in> set kvs \<Longrightarrow> starts_value (dumps_at fl (Suc n) (snd kv))"
      using PDict.prems(2) by (auto intro: starts_value_dumps)
    have p: "parse_members fp f' ?body = Some (kvs, rest)"
      using each solid False fxs by (rule parse_members_join)
    obtain y ys where ys: "kvs = y # ys"
      using False by (cases kvs) auto
    have "starts_value ?body"
      using ys by (cases ys) (simp_all add: starts_value_member_text)
    then obtain c t where body: "?body = c # t" and c: "\<not> is_ws c" "c \<noteq> CHR ''}''"
      by (cases ?body) (simp_all add: starts_value_def)
    have "skip_ws (line_break (Suc n) @ ?body) = skip_ws ?body"
      by (rule skip_ws_nl)
    also have "\<dots> = c # t"
      unfolding body using c by (simp add: skip_ws_def)
    finally have sk: "skip_ws (line_break (Suc n) @ ?body) = c # t" .
    from p have "parse_members fp f' (c # t) = Some (kvs, rest)"
      unfolding body .
    with sk show ?thesis
      using False c keys by (simp add: f dq_def dumps_at_dict del: dumps_at.simps)
  qed
qed

lemma parse_cost_join:
  assumes "\<And>x. x \<in> set xs \<Longrightarrow> g x \<le> length (h x)" and "sep \<noteq> []" and "xs \<noteq> []"
  shows "sum_list (map (\<lambda>x. Suc (g x)) xs) \<le> Suc (length (join_with sep (map h xs)))"
  using assms
proof (induction xs)
  case Nil
  then show ?case by simp
next
  case (Cons x xs)
  have x: "g x \<le> length (h x)"
    using Cons.prems(1) by simp
  show ?case
  proof (cases xs)
    case Nil
    with x show ?thesis by simp
  next
    case (Cons y ys)
    then have "sum_list (map (\<lambda>x. Suc (g x)) xs) \<le> Suc (length (join_with sep (map h xs)))"
      using Cons.IH Cons.prems by simp
    moreover obtain c cs where "sep = c # cs"
      using Cons.prems(2) by (cases sep) auto
    ultimately show ?thesis
      using x Cons by simp
  qed
qed

lemma parse_cost_le_length:
  assumes "floats_readable fl fp v"
  shows "parse_cost v \<le> length (dumps_at fl n v)"
  using assms
proof (induction v arbitrary: n)
  case (PInt i)
  then show ?case
    using hd_json_int [of i] by auto
next
  case (PFloat r)
  then show ?case
    using hd_float_literal [of "fl r"] by auto
next
  case (PStr s)
  then show ?case by (simp add: json_string_def)
next
  case (PList xs)
  show ?case
  proof (cases "xs = []")
    case True
    then show ?thesis by simp
  next
    case False
    have "\<And>x. x \<in> set xs \<Longrightarrow> parse_cost x \<le> length (dumps_at fl (Suc n) x)"
      using PList by simp
    then have "sum_list (map (\<lambda>x. Suc (parse_cost x)) xs) \<le>
          Suc (length (join_with ('','' @ line_break (Suc n)) (map (dumps_at fl (Suc n)) xs)))"
      using False by (intro parse_cost_join) simp_all
    then show ?thesis
      using False by (simp add: line_break_def)
  qed
next
  case (PDict kvs)
  show ?case
  proof (cases "kvs = []")
    case True
    then show ?thesis by simp
  next
    case False
    have "\<And>kv. kv \<in> set kvs \<Longrightarrow> parse_cost (snd kv) \<le> length (member_text fl (Suc n) kv)"
    proof -
      fix kv
      assume kv: "kv \<in> set kvs"
      moreover have "snd kv \<in> Basic_BNFs.snds kv"
        by (cases kv) simp
      moreover from kv PDict.prems have "floats_readable fl fp (snd kv)"
        by simp
      ultimately have "parse_cost (snd kv) \<le> length (dumps_at fl (Suc n) (snd kv))"
        using PDict.IH [of kv "snd kv" "Suc n"] by simp
      then show "parse_cost (snd kv) \<le> length (member_text fl (Suc n) kv)"
        by (simp add: member_text_def)
    qed
    then have "sum_list (map (\<lambda>kv. Suc (parse_cost (snd kv))) kvs) \<le>
          Suc (length (join_with ('','' @ line_break (Suc n)) (map (member_text fl (Suc n)) kvs)))"
      using False by (intro parse_cost_join) simp_all
    then show ?thesis
      using False by (simp add: line_break_def dumps_at_dict del: dumps_at.simps)
  qed
qed simp_all

lemma json_loads_dumps:
  assumes "distinct_keys v" and "floats_readable fl fp v"
  shows "json_loads fp (json_dumps fl v) = Some v"
proof -
  let ?s = "dumps_at fl 0 v"
  have "parse_cost v \<le> Suc (length ?s)"
    using parse_cost_le_length [OF assms(2), of 0] by simp
  with assms have "parse_value fp (Suc (length ?s)) (?s @ []) = Some (v, [])"
    by (intro parse_value_dumps ends_number_Nil)
  moreover have "skip_ws ?s = ?s"
    using assms(2) by (intro skip_ws_value starts_value_dumps)
  ultimately show ?thesis
    by (simp add: json_loads_def json_dumps_def skip_ws_def)
qed

section \<open>Saving and reading back\<close>

text \<open>
  The text that \<open>save_json\<close> writes for the record of London, line by line.
\<close>

lemma json_dumps_london:
  "json_dumps sample_repr (PList [london_info]) =
     join_with [CHR 0x0A]
       [''['',
        ''    {'',
        ''        \"name\": \"London\",'',
        ''        \"latitude\": 51.5,'',
        ''        \"longitude\": -0.13,'',
        ''        \"country\": \"GB\",'',
        ''        \"state\": null'',
        ''    }'',
        '']'']"
  by (simp add: json_dumps_def london_info_def info_of_def json_string_def escape_char_def
      is_plain_def dq_def bs_def line_break_def sample_repr_def sample_floats_def
      eval_nat_numeral)

lemma sample_floats_readable:
  "floats_readable sample_repr sample_float (PList [london_info, paris_info])"
  by (simp add: london_info_def paris_info_def info_of_def sample_repr_def sample_float_def
      sample_floats_def float_literal_def match_number_def scan_sign_def scan_int_def
      scan_frac_def scan_exp_def is_digit_def Let_def)

text \<open>
  Claim C8. The encoder is the one of \<^verbatim>\<open>json.dumps(data, indent=4)\<close> and the decoder the
  one of \<^verbatim>\<open>json.loads\<close>, both written out above; \<open>fl\<close> and \<open>fp\<close> stand for
  \<^verbatim>\<open>float.__repr__\<close> and \<^verbatim>\<open>float\<close>. For every value whose dictionaries have no key
  twice and whose floats \<open>fp\<close> reads back from the text \<open>fl\<close> gives them: when the write
  raises no \<^verbatim>\<open>IOError\<close>, then after \<open>save_json\<close> the file, whatever it held before,
  parses to the value that was saved; no other file changes, and \<open>save_json\<close> returns.
\<close>

theorem save_json_round_trip:
  "io_error env filename = None \<and> dumps env = json_dumps fl \<and>
   distinct_keys data \<and> floats_readable fl fp data \<longrightarrow>
     (case files_after fs (fst (save_json env data filename)) filename of
        None \<Rightarrow> None
      | Some content \<Rightarrow> json_loads fp content) = Some data \<and>
     (\<forall>other. other \<noteq> filename \<longrightarrow>
        files_after fs (fst (save_json env data filename)) other = fs other) \<and>
     snd (save_json env data filename) = Inr ()"
  by (simp add: save_json_cases json_loads_dumps)

theorem save_json_round_trip_witness:
  "(case files_after [COORDINATES_FILE \<mapsto> ''[1, 2]'', FORECAST_FILE \<mapsto> ''[3]'']
           (fst (save_json json_env (PList [london_info, paris_info]) COORDINATES_FILE))
           COORDINATES_FILE of
      None \<Rightarrow> None
    | Some content \<Rightarrow> json_loads sample_float content) =
     Some (PList [london_info, paris_info]) \<and>
   files_after [COORDINATES_FILE \<mapsto> ''[1, 2]'', FORECAST_FILE \<mapsto> ''[3]'']
     (fst (save_json json_env (PList [london_info, paris_info]) COORDINATES_FILE))
     FORECAST_FILE = Some ''[3]'' \<and>
   (case files_after [COORDINATES_FILE \<mapsto> ''[1, 2]'']
           (fst (save_json json_env (PList []) COORDINATES_FILE)) COORDINATES_FILE of
      None \<Rightarrow> None
    | Some content \<Rightarrow> json_loads sample_float content) = Some (PList [])"
proof -
  have io: "io_error json_env COORDINATES_FILE = None"
    and enc: "dumps json_env = json_dumps sample_repr"
    by (simp_all add: json_env_def demo_env_def)
  have keys: "distinct_keys (PList [london_info, paris_info])"
    by (simp add: london_info_def paris_info_def info_of_def)
  have other: "FORECAST_FILE \<noteq> COORDINATES_FILE"
    by (simp add: COORDINATES_FILE_def FORECAST_FILE_def)
  have old: "[COORDINATES_FILE \<mapsto> ''[1, 2]'', FORECAST_FILE \<mapsto> ''[3]''] FORECAST_FILE =
      Some ''[3]''"
    by simp
  from save_json_round_trip [of json_env COORDINATES_FILE sample_repr
      "PList [london_info, paris_info]" sample_float
      "[COORDINATES_FILE \<mapsto> ''[1, 2]'', FORECAST_FILE \<mapsto> ''[3]'']"]
    io enc keys sample_floats_readable other old
  have filled: "(case files_after [COORDINATES_FILE \<mapsto> ''[1, 2]'', FORECAST_FILE \<mapsto> ''[3]'']
           (fst (save_json json_env (PList [london_info, paris_info]) COORDINATES_FILE))
           COORDINATES_FILE of
      None \<Rightarrow> None
    | Some content \<Rightarrow> json_loads sample_float content) =
     Some (PList [london_info, paris_info]) \<and>
   files_after [COORDINATES_FILE \<mapsto> ''[1, 2]'', FORECAST_FILE \<mapsto> ''[3]'']
     (fst (save_json json_env (PList [london_info, paris_info]) COORDINATES_FILE))
     FORECAST_FILE = Some ''[3]''"
    by metis
  have "distinct_keys (PList [])" and "floats_readable sample_repr sample_float (PList [])"
    by simp_all
  with save_json_round_trip [of json_env COORDINATES_FILE sample_repr "PList []" sample_float
      "[COORDINATES_FILE \<mapsto> ''[1, 2]'']"] io enc
  have "(case files_after [COORDINATES_FILE \<mapsto> ''[1, 2]'']
           (fst (save_json json_env (PList []) COORDINATES_FILE)) COORDINATES_FILE of
      None \<Rightarrow> None
    | Some content \<Rightarrow> json_loads sample_float content) = Some (PList [])"
    by blast
  with filled show ?thesis
    by blast
qed

section \<open>Records without a series\<close>

text \<open>
  Claim C10, against the claim as stated. In the batch \<open>London,GB;Rome;Oslo\<close> of
  \<^verbatim>\<open>city_weather_forecast.py\<close> the response for Oslo decodes, to \<open>{}\<close>, whose
  \<open>list\<close> is missing; it is not in the weather file, because \<^verbatim>\<open>if forecast_data:\<close>
  drops a value that is empty.
\<close>

theorem empty_forecast_is_not_saved:
  "get_weather_forecast demo_env oslo_info =
     ([Print ''Fetching weather forecast for Oslo'',
       HttpGet (weather_request demo_env FORECAST_URL None oslo_info),
       Print (''City name: Oslo'' @ [CHR 0x09] @ ''Status Code: 200'')], Inr (PDict [])) \<and>
   writes (fst (batch_forecast demo_env [] [] ''London,GB;Rome;Oslo'')) =
     [(COORDINATES_FILE, demo_dumps (PList [london_info, rome_info, oslo_info])),
      (FORECAST_FILE, demo_dumps (PList [london_forecast, rome_forecast]))]"
proof -
  have oslo: "fetch demo_env (weather_request demo_env FORECAST_URL None oslo_info) =
                Decoded 200 (PDict [])"
    by (simp add: demo_world)
  have name: "format_val demo_env (field oslo_info ''name'') = ''Oslo''"
    by (simp add: format_val_def field_def oslo_info_def info_of_def)
  have call: "get_weather_forecast demo_env oslo_info =
     ([Print ''Fetching weather forecast for Oslo'',
       HttpGet (weather_request demo_env FORECAST_URL None oslo_info),
       Print (''City name: Oslo'' @ [CHR 0x09] @ ''Status Code: 200'')], Inr (PDict []))"
    by (simp add: get_weather_forecast_cases oslo name string_of_nat.simps digit_char_def)
  have files: "writes (fst (batch_forecast demo_env [] [] ''London,GB;Rome;Oslo'')) =
     [(COORDINATES_FILE, demo_dumps (PList [london_info, rome_info, oslo_info])),
      (FORECAST_FILE, demo_dumps (PList [london_forecast, rome_forecast]))]"
    by (simp add: writes_batch_forecast demo_batch_forecast_returns demo_resolved
        retrieved_def demo_weather_forecast)
  from call files show ?thesis by simp
qed

text \<open>
  Claim C10, as amended. In a batch of \<^verbatim>\<open>city_weather_forecast.py\<close> that runs to its
  end, the weather file, when its write succeeds, holds every retrieved value that is
  not empty. A response that is a non-empty dictionary whose \<open>list\<close> is missing or
  empty is among them, and the pass for its city hands no series to the chart: the file
  can hold records of cities that the chart does not show.
\<close>

theorem records_without_series_are_saved:
  "snd (batch_forecast env [] [] user_input) = Inr () \<and> io_error env FORECAST_FILE = None \<longrightarrow>
     (FORECAST_FILE,
      dumps env (PList (retrieved (get_weather_forecast env)
                          (resolved (get_coordinates_forecast env) user_input))))
       \<in> set (writes (fst (batch_forecast env [] [] user_input))) \<and>
     (\<forall>c \<in> set (resolved (get_coordinates_forecast env) user_input). \<forall>kvs.
        returned (get_weather_forecast env c) = PDict kvs \<and> kvs \<noteq> [] \<and>
        (\<forall>l. map_of kvs ''list'' = Some l \<longrightarrow> \<not> truthy l) \<longrightarrow>
          PDict kvs \<in> set (retrieved (get_weather_forecast env)
                             (resolved (get_coordinates_forecast env) user_input)) \<and>
          steps (forecast_pass env c) = [Retrieve])"
proof (intro impI conjI ballI allI)
  assume a: "snd (batch_forecast env [] [] user_input) = Inr () \<and>
             io_error env FORECAST_FILE = None"
  then show "(FORECAST_FILE,
      dumps env (PList (retrieved (get_weather_forecast env)
                          (resolved (get_coordinates_forecast env) user_input))))
       \<in> set (writes (fst (batch_forecast env [] [] user_input)))"
    by (simp add: forecast_file_written)
next
  fix c kvs
  assume a: "snd (batch_forecast env [] [] user_input) = Inr () \<and>
             io_error env FORECAST_FILE = None"
    and c: "c \<in> set (resolved (get_coordinates_forecast env) user_input)"
    and r: "returned (get_weather_forecast env c) = PDict kvs \<and> kvs \<noteq> [] \<and>
            (\<forall>l. map_of kvs ''list'' = Some l \<longrightarrow> \<not> truthy l)"
  have "truthy (PDict kvs)" using r by simp
  with c r show "PDict kvs \<in> set (retrieved (get_weather_forecast env)
                                    (resolved (get_coordinates_forecast env) user_input))"
    by (force simp: retrieved_def)
  have info: "is_city_info c"
    using c resolved_city_info [of "get_coordinates_forecast env" "user_locations user_input"]
      get_coordinates_forecast_city_info
    unfolding resolved_def by blast
  have plots: "plots_return env c"
    using batch_forecast_plots_return a c by blast
  have "\<not> plotted env c"
    using r by (simp add: plotted_def has_forecast_list_no_list)
  with info plots show "steps (forecast_pass env c) = [Retrieve]"
    by (simp add: steps_forecast_pass)
qed

text \<open>The batch \<open>Rome\<close>: the forecast for Rome has an empty \<open>list\<close>.\<close>

theorem records_without_series_are_saved_witness:
  "(FORECAST_FILE, demo_dumps (PList [rome_forecast]))
     \<in> set (writes (fst (batch_forecast demo_env [] [] ''Rome''))) \<and>
   steps (forecast_pass demo_env rome_info) = [Retrieve]"
  using records_without_series_are_saved [of demo_env "''Rome''"]
  by (simp add: demo_batch_forecast_returns demo_resolved retrieved_def demo_weather_forecast
      rome_forecast_def)

end
